theory Spec2Isabelle
  imports
    Main
    "HOL-Library.Char_ord"
    "HOL-Library.List_Lexorder"
    "HOL-Library.Sublist"
begin

text \<open>
  A model of the project generator of suite-crafter and the proofs of its properties: the
  configuration schema and the table of valid combinations (\<^verbatim>\<open>src/lib/types.ts\<close>), the
  normalisation of the project name and the change of language in the wizard's steps,
  the path planner \<^verbatim>\<open>generateFolderTree\<close>, the content generator \<^verbatim>\<open>generateFiles\<close> with every
  template it fills, and the tree builder \<^verbatim>\<open>buildTree\<close> of the preview.
\<close>

section \<open>Strings\<close>

text \<open>
  A JavaScript string is modelled as a \<^typ>\<open>string\<close>, one character per code unit.
  All text of the generator is ASCII, with one exception: the box-drawing characters in
  the project-structure sketch of the generated README, which are written as their UTF-8
  bytes. The order on strings is the lexicographic order by character code, which is what
  \<^verbatim>\<open>Array.prototype.sort()\<close> without a comparator uses.
\<close>

definition endsWith :: "string \<Rightarrow> string \<Rightarrow> bool" where
  "endsWith s suffix_str = (length suffix_str \<le> length s \<and>
     drop (length s - length suffix_str) s = suffix_str)"

text \<open>\<^verbatim>\<open>s.split('/')\<close>: the pieces between the separators; there is always at least one.\<close>

fun split_slash :: "string \<Rightarrow> string list" where
  "split_slash [] = [[]]"
| "split_slash (ch # cs) =
     (if ch = CHR ''/'' then [] # split_slash cs
      else (case split_slash cs of
              [] \<Rightarrow> [[ch]]
            | part # parts \<Rightarrow> (ch # part) # parts))"

text \<open>\<^verbatim>\<open>x || fallback\<close> on an optional string: \<^verbatim>\<open>undefined\<close> and the empty string are falsy.\<close>

definition str_or :: "string option \<Rightarrow> string \<Rightarrow> string" where
  "str_or x fallback =
     (case x of None \<Rightarrow> fallback | Some s \<Rightarrow> if s = [] then fallback else s)"

section \<open>Configuration model (\<^verbatim>\<open>src/lib/types.ts\<close>)\<close>

datatype Language = Typescript | Java | Python

datatype BuildTool = Npm | Pnpm | Maven | Gradle | Pip | Poetry

datatype UIFramework = Playwright | Selenium

datatype APIFramework = PlaywrightApi | Axios | RestAssured | Requests

datatype TestRunner = PlaywrightTest | Junit | Testng | Pytest

datatype ReportingOption = Allure | Html | JunitXml | PytestHtml | Surefire

text \<open>The string value of a build tool, as it appears when interpolated into a template.\<close>

fun BuildTool_string :: "BuildTool \<Rightarrow> string" where
  "BuildTool_string Npm = ''npm''"
| "BuildTool_string Pnpm = ''pnpm''"
| "BuildTool_string Maven = ''maven''"
| "BuildTool_string Gradle = ''gradle''"
| "BuildTool_string Pip = ''pip''"
| "BuildTool_string Poetry = ''poetry''"

text \<open>\<^verbatim>\<open>ProjectConfig\<close>, the type inferred from the schema.\<close>

record ProjectConfig =
  projectName :: string
  description :: "string option"
  author :: "string option"
  initGit :: bool
  includeUI :: bool
  includeAPI :: bool
  language :: Language
  buildTool :: BuildTool
  uiFramework :: "UIFramework option"
  apiFramework :: "APIFramework option"
  testRunner :: TestRunner
  reporting :: "ReportingOption list"
  includeEnvConfig :: bool
  includeCI :: bool
  includeDocker :: bool

text \<open>
  \<^verbatim>\<open>Partial<ProjectConfig>\<close>: the wizard's state and the updates its steps send. A field
  that is \<open>None\<close> is a key that is absent.
\<close>

record PartialConfig =
  opt_projectName :: "string option"
  opt_description :: "string option"
  opt_author :: "string option"
  opt_initGit :: "bool option"
  opt_includeUI :: "bool option"
  opt_includeAPI :: "bool option"
  opt_language :: "Language option"
  opt_buildTool :: "BuildTool option"
  opt_uiFramework :: "UIFramework option"
  opt_apiFramework :: "APIFramework option"
  opt_testRunner :: "TestRunner option"
  opt_reporting :: "ReportingOption list option"
  opt_includeEnvConfig :: "bool option"
  opt_includeCI :: "bool option"
  opt_includeDocker :: "bool option"

definition noUpdates :: PartialConfig where
  "noUpdates = \<lparr>opt_projectName = None, opt_description = None, opt_author = None,
     opt_initGit = None, opt_includeUI = None, opt_includeAPI = None, opt_language = None,
     opt_buildTool = None, opt_uiFramework = None, opt_apiFramework = None,
     opt_testRunner = None, opt_reporting = None, opt_includeEnvConfig = None,
     opt_includeCI = None, opt_includeDocker = None\<rparr>"

text \<open>The object spread \<^verbatim>\<open>{ ...prev, ...updates }\<close> of \<^verbatim>\<open>updateConfig\<close>, field by field.\<close>

definition spread :: "'a option \<Rightarrow> 'a option \<Rightarrow> 'a option" where
  "spread prev upd = (case upd of None \<Rightarrow> prev | Some v \<Rightarrow> Some v)"

definition updateConfig :: "PartialConfig \<Rightarrow> PartialConfig \<Rightarrow> PartialConfig" where
  "updateConfig prev updates =
     \<lparr>opt_projectName = spread (opt_projectName prev) (opt_projectName updates),
      opt_description = spread (opt_description prev) (opt_description updates),
      opt_author = spread (opt_author prev) (opt_author updates),
      opt_initGit = spread (opt_initGit prev) (opt_initGit updates),
      opt_includeUI = spread (opt_includeUI prev) (opt_includeUI updates),
      opt_includeAPI = spread (opt_includeAPI prev) (opt_includeAPI updates),
      opt_language = spread (opt_language prev) (opt_language updates),
      opt_buildTool = spread (opt_buildTool prev) (opt_buildTool updates),
      opt_uiFramework = spread (opt_uiFramework prev) (opt_uiFramework updates),
      opt_apiFramework = spread (opt_apiFramework prev) (opt_apiFramework updates),
      opt_testRunner = spread (opt_testRunner prev) (opt_testRunner updates),
      opt_reporting = spread (opt_reporting prev) (opt_reporting updates),
      opt_includeEnvConfig = spread (opt_includeEnvConfig prev) (opt_includeEnvConfig updates),
      opt_includeCI = spread (opt_includeCI prev) (opt_includeCI updates),
      opt_includeDocker = spread (opt_includeDocker prev) (opt_includeDocker updates)\<rparr>"

text \<open>Truthiness of an optional boolean: \<^verbatim>\<open>undefined\<close> and \<^verbatim>\<open>false\<close> are falsy.\<close>

definition truthy :: "bool option \<Rightarrow> bool" where
  "truthy b = (b = Some True)"

subsection \<open>The table of valid combinations\<close>

record Combination =
  buildTools :: "BuildTool list"
  uiFrameworks :: "UIFramework list"
  apiFrameworks :: "APIFramework list"
  testRunners :: "TestRunner list"
  reportingOptions :: "ReportingOption list"

text \<open>
  \<^verbatim>\<open>validCombinations[language]\<close>. The last field is called \<^verbatim>\<open>reporting\<close> in the source; it
  is renamed here because \<^const>\<open>reporting\<close> is the field of the configuration.
\<close>

fun validCombinations :: "Language \<Rightarrow> Combination" where
  "validCombinations Typescript =
     \<lparr>buildTools = [Npm, Pnpm],
      uiFrameworks = [Playwright],
      apiFrameworks = [PlaywrightApi, Axios],
      testRunners = [PlaywrightTest],
      reportingOptions = [Html, JunitXml]\<rparr>"
| "validCombinations Java =
     \<lparr>buildTools = [Maven, Gradle],
      uiFrameworks = [Selenium],
      apiFrameworks = [RestAssured],
      testRunners = [Junit, Testng],
      reportingOptions = [Allure, Surefire, JunitXml]\<rparr>"
| "validCombinations Python =
     \<lparr>buildTools = [Pip, Poetry],
      uiFrameworks = [Playwright, Selenium],
      apiFrameworks = [Requests],
      testRunners = [Pytest],
      reportingOptions = [PytestHtml, JunitXml, Allure]\<rparr>"

definition isValidBuildTool :: "Language \<Rightarrow> BuildTool \<Rightarrow> bool" where
  "isValidBuildTool lang tool = (tool \<in> set (buildTools (validCombinations lang)))"

text \<open>\<^verbatim>\<open>xs[0]\<close>: the first element, \<^verbatim>\<open>undefined\<close> on an empty array.\<close>

definition first :: "'a list \<Rightarrow> 'a option" where
  "first xs = (case xs of [] \<Rightarrow> None | x # _ \<Rightarrow> Some x)"

subsection \<open>The schema\<close>

text \<open>
  \<^verbatim>\<open>ProjectConfigSchema\<close> is a declaration for the zod library, which is not part of the
  repository. Its checks are modelled as declared, on inputs whose fields have the types
  the schema names: the string checks of \<^verbatim>\<open>projectName\<close>, \<^verbatim>\<open>description\<close> and \<^verbatim>\<open>author\<close> each
  add an issue when they fail, the fields with a default may be absent, and the refinement
  of the object adds its issue under the path it names. The result is a value, as that of
  \<^verbatim>\<open>safeParse\<close>: the issues, or the parsed configuration. The parser for raw values of
  any type comes later, in the section on raw values; on the inputs of this section the
  two give the same result.
\<close>

record RawConfig =
  raw_projectName :: string
  raw_description :: "string option"
  raw_author :: "string option"
  raw_initGit :: "bool option"
  raw_includeUI :: bool
  raw_includeAPI :: bool
  raw_language :: Language
  raw_buildTool :: BuildTool
  raw_uiFramework :: "UIFramework option"
  raw_apiFramework :: "APIFramework option"
  raw_testRunner :: TestRunner
  raw_reporting :: "ReportingOption list"
  raw_includeEnvConfig :: "bool option"
  raw_includeCI :: "bool option"
  raw_includeDocker :: "bool option"

record ZodIssue =
  issue_path :: "string list"
  issue_message :: string

text \<open>The character class \<^verbatim>\<open>[a-z0-9-]\<close>.\<close>

definition slug_char :: "char \<Rightarrow> bool" where
  "slug_char ch = ((CHR ''a'' \<le> ch \<and> ch \<le> CHR ''z'') \<or> (CHR ''0'' \<le> ch \<and> ch \<le> CHR ''9'')
     \<or> ch = CHR ''-'')"

text \<open>\<^verbatim>\<open>/^[a-z0-9-]+$/.test(s)\<close>.\<close>

definition slug_regex :: "string \<Rightarrow> bool" where
  "slug_regex s = (s \<noteq> [] \<and> list_all slug_char s)"

definition check :: "bool \<Rightarrow> string list \<Rightarrow> string \<Rightarrow> ZodIssue list" where
  "check ok p msg = (if ok then [] else [\<lparr>issue_path = p, issue_message = msg\<rparr>])"

definition max_length :: "nat \<Rightarrow> string option \<Rightarrow> bool" where
  "max_length n x = (case x of None \<Rightarrow> True | Some s \<Rightarrow> length s \<le> n)"

definition with_default :: "bool \<Rightarrow> bool option \<Rightarrow> bool" where
  "with_default d x = (case x of None \<Rightarrow> d | Some b \<Rightarrow> b)"

definition ProjectConfigSchema_issues :: "RawConfig \<Rightarrow> ZodIssue list" where
  "ProjectConfigSchema_issues data =
     check (1 \<le> length (raw_projectName data)) [''projectName''] ''Project name is required'' @
     check (length (raw_projectName data) \<le> 50) [''projectName'']
       ''Project name must be less than 50 characters'' @
     check (slug_regex (raw_projectName data)) [''projectName'']
       ''Project name must be lowercase with hyphens only'' @
     check (max_length 200 (raw_description data)) [''description'']
       ''Description must be less than 200 characters'' @
     check (max_length 50 (raw_author data)) [''author'']
       ''Author name must be less than 50 characters'' @
     check (raw_includeUI data \<or> raw_includeAPI data) [''includeUI'']
       ''At least one test type (UI or API) must be selected''"

definition ProjectConfigSchema_output :: "RawConfig \<Rightarrow> ProjectConfig" where
  "ProjectConfigSchema_output data =
     \<lparr>projectName = raw_projectName data,
      description = raw_description data,
      author = raw_author data,
      initGit = with_default True (raw_initGit data),
      includeUI = raw_includeUI data,
      includeAPI = raw_includeAPI data,
      language = raw_language data,
      buildTool = raw_buildTool data,
      uiFramework = raw_uiFramework data,
      apiFramework = raw_apiFramework data,
      testRunner = raw_testRunner data,
      reporting = raw_reporting data,
      includeEnvConfig = with_default True (raw_includeEnvConfig data),
      includeCI = with_default False (raw_includeCI data),
      includeDocker = with_default False (raw_includeDocker data)\<rparr>"

definition ProjectConfigSchema_safeParse :: "RawConfig \<Rightarrow> ZodIssue list + ProjectConfig" where
  "ProjectConfigSchema_safeParse data =
     (if ProjectConfigSchema_issues data = [] then Inr (ProjectConfigSchema_output data)
      else Inl (ProjectConfigSchema_issues data))"

section \<open>The wizard's steps\<close>

subsection \<open>\<^verbatim>\<open>StepBasics\<close>: the project name\<close>

text \<open>
  \<^verbatim>\<open>toLowerCase\<close> on one code unit below 256: the ASCII capitals and the capitals of
  Latin-1 move to their small letters, every other character stays.
\<close>

definition lower_char :: "char \<Rightarrow> char" where
  "lower_char ch =
     (let n = (of_char ch :: nat) in
      if (65 \<le> n \<and> n \<le> 90) \<or> (192 \<le> n \<and> n \<le> 222 \<and> n \<noteq> 215)
      then char_of (n + 32) else ch)"

definition toLowerCase :: "string \<Rightarrow> string" where
  "toLowerCase s = map lower_char s"

text \<open>\<^verbatim>\<open>.replace(/[^a-z0-9-]/g, '-')\<close>.\<close>

definition replace_disallowed :: "string \<Rightarrow> string" where
  "replace_disallowed s = map (\<lambda>ch. if slug_char ch then ch else CHR ''-'') s"

text \<open>\<^verbatim>\<open>.replace(/-+/g, '-')\<close>: every maximal run of hyphens becomes one hyphen.\<close>

fun collapse_hyphens :: "string \<Rightarrow> string" where
  "collapse_hyphens [] = []"
| "collapse_hyphens [ch] = [ch]"
| "collapse_hyphens (ch # ch' # cs) =
     (if ch = CHR ''-'' \<and> ch' = CHR ''-'' then collapse_hyphens (ch' # cs)
      else ch # collapse_hyphens (ch' # cs))"

definition slug :: "string \<Rightarrow> string" where
  "slug v = collapse_hyphens (replace_disallowed (toLowerCase v))"

definition handleNameChange :: "string \<Rightarrow> PartialConfig" where
  "handleNameChange v = noUpdates\<lparr>opt_projectName := Some (slug v)\<rparr>"

subsection \<open>\<^verbatim>\<open>StepLanguage\<close>: changing the language\<close>

text \<open>
  The updates that \<^verbatim>\<open>handleLanguageChange\<close> passes to \<^verbatim>\<open>onChange\<close>. The array
  \<^verbatim>\<open>[newOptions.reporting[0]]\<close> is \<open>take 1\<close> of the list, the lists of the table being
  non-empty.
\<close>

definition handleLanguageChange :: "PartialConfig \<Rightarrow> Language \<Rightarrow> PartialConfig" where
  "handleLanguageChange config newLanguage =
     (let newOptions = validCombinations newLanguage;
          updates = noUpdates\<lparr>
            opt_language := Some newLanguage,
            opt_buildTool := first (buildTools newOptions),
            opt_testRunner := first (testRunners newOptions),
            opt_reporting := Some (take 1 (reportingOptions newOptions))\<rparr>;
          updates = (if truthy (opt_includeUI config)
                     then updates\<lparr>opt_uiFramework := first (uiFrameworks newOptions)\<rparr>
                     else updates);
          updates = (if truthy (opt_includeAPI config)
                     then updates\<lparr>opt_apiFramework := first (apiFrameworks newOptions)\<rparr>
                     else updates)
      in updates)"

section \<open>Path Planner (\<^verbatim>\<open>generateFolderTree\<close>)\<close>

text \<open>
  Every \<^verbatim>\<open>paths.push\<close> appends one path, the project name followed by a fixed suffix, and a
  conditional block appends its paths when its condition holds. The function returns the
  list sorted by \<^verbatim>\<open>paths.sort()\<close>.
\<close>

definition generateFolderTree :: "ProjectConfig \<Rightarrow> string list" where
  "generateFolderTree config =
     sort (
       [projectName config @ ''/'',
        projectName config @ ''/README.md'',
        projectName config @ ''/.env.example''] @
       (if initGit config then
          [projectName config @ ''/.gitignore'']
        else []) @
       (if language config = Typescript then
          [projectName config @ ''/package.json'',
           projectName config @ ''/tsconfig.json'',
           projectName config @ ''/playwright.config.ts'',
           projectName config @ ''/src/'',
           projectName config @ ''/src/utils/'',
           projectName config @ ''/src/utils/config.ts'',
           projectName config @ ''/src/utils/helpers.ts''] @
          (if includeUI config then
             [projectName config @ ''/src/pages/'',
              projectName config @ ''/src/pages/BasePage.ts'',
              projectName config @ ''/src/pages/LoginPage.ts'',
              projectName config @ ''/src/fixtures/'',
              projectName config @ ''/src/fixtures/base.fixture.ts'']
           else []) @
          [projectName config @ ''/tests/''] @
          (if includeUI config then
             [projectName config @ ''/tests/ui/'',
              projectName config @ ''/tests/ui/login.spec.ts'',
              projectName config @ ''/tests/ui/home.spec.ts'']
           else []) @
          (if includeAPI config then
             [projectName config @ ''/tests/api/'',
              projectName config @ ''/tests/api/users.spec.ts'',
              projectName config @ ''/tests/api/health.spec.ts'']
           else []) @
          [projectName config @ ''/config/'',
           projectName config @ ''/config/dev.json'',
           projectName config @ ''/config/stage.json'',
           projectName config @ ''/config/prod.json'',
           projectName config @ ''/scripts/'',
           projectName config @ ''/scripts/run-tests.sh'']
        else []) @
       (if language config = Java then
          (if buildTool config = Maven then
             [projectName config @ ''/pom.xml'']
           else
             [projectName config @ ''/build.gradle'',
              projectName config @ ''/settings.gradle'']) @
          [projectName config @ ''/src/'',
           projectName config @ ''/src/test/'',
           projectName config @ ''/src/test/java/'',
           projectName config @ ''/src/test/java/com/'',
           projectName config @ ''/src/test/java/com/automation/'',
           projectName config @ ''/src/test/java/com/automation/base/'',
           projectName config @ ''/src/test/java/com/automation/base/BaseTest.java'',
           projectName config @ ''/src/test/java/com/automation/utils/'',
           projectName config @ ''/src/test/java/com/automation/utils/ConfigReader.java'',
           projectName config @ ''/src/test/java/com/automation/utils/TestUtils.java''] @
          (if includeUI config then
             [projectName config @ ''/src/test/java/com/automation/utils/WebDriverFactory.java'',
              projectName config @ ''/src/test/java/com/automation/pages/'',
              projectName config @ ''/src/test/java/com/automation/pages/BasePage.java'',
              projectName config @ ''/src/test/java/com/automation/pages/LoginPage.java'',
              projectName config @ ''/src/test/java/com/automation/pages/HomePage.java'',
              projectName config @ ''/src/test/java/com/automation/tests/'',
              projectName config @ ''/src/test/java/com/automation/tests/LoginTest.java'']
           else []) @
          (if includeAPI config then
             [projectName config @ ''/src/test/java/com/automation/api/'',
              projectName config @ ''/src/test/java/com/automation/api/BaseApiClient.java'',
              projectName config @ ''/src/test/java/com/automation/api/UsersApiTest.java'',
              projectName config @ ''/src/test/java/com/automation/api/PostsApiTest.java'']
           else []) @
          [projectName config @ ''/src/test/resources/'',
           projectName config @ ''/src/test/resources/config.properties'',
           projectName config @ ''/src/test/resources/log4j2.xml'']
        else []) @
       (if language config = Python then
          [projectName config @ ''/requirements.txt''] @
          (if buildTool config = Poetry then
             [projectName config @ ''/pyproject.toml'']
           else []) @
          [projectName config @ ''/pytest.ini'',
           projectName config @ ''/conftest.py'',
           projectName config @ ''/src/'',
           projectName config @ ''/src/__init__.py'',
           projectName config @ ''/src/utils/'',
           projectName config @ ''/src/utils/__init__.py'',
           projectName config @ ''/src/utils/config.py'',
           projectName config @ ''/src/utils/api_client.py''] @
          (if includeUI config then
             [projectName config @ ''/src/pages/'',
              projectName config @ ''/src/pages/__init__.py'',
              projectName config @ ''/src/pages/base_page.py'',
              projectName config @ ''/src/pages/login_page.py'']
           else []) @
          [projectName config @ ''/tests/'',
           projectName config @ ''/tests/__init__.py''] @
          (if includeUI config then
             [projectName config @ ''/tests/ui/'',
              projectName config @ ''/tests/ui/__init__.py'',
              projectName config @ ''/tests/ui/test_login.py'']
           else []) @
          (if includeAPI config then
             [projectName config @ ''/tests/api/'',
              projectName config @ ''/tests/api/__init__.py'',
              projectName config @ ''/tests/api/test_users.py'',
              projectName config @ ''/tests/api/test_posts.py'']
           else [])
        else []) @
       (if includeCI config then
          [projectName config @ ''/.github/'',
           projectName config @ ''/.github/workflows/'',
           projectName config @ ''/.github/workflows/tests.yml'']
        else []) @
       (if includeDocker config then
          [projectName config @ ''/Dockerfile'',
           projectName config @ ''/docker-compose.yml'']
        else []))"

section \<open>Content Generator (\<^verbatim>\<open>src/lib/templates.ts\<close>)\<close>

subsection \<open>\<^verbatim>\<open>JSON.stringify(value, null, 2)\<close>\<close>

text \<open>
  Three generators build their text with \<^verbatim>\<open>JSON.stringify(value, null, 2)\<close>. The values they
  pass are objects, arrays, strings, booleans and small non-negative integers; the
  printer below is the serialisation of ECMAScript for these, with a gap of two spaces.
\<close>

datatype json =
    JString string
  | JNumber nat
  | JBool bool
  | JArray "json list"
  | JObject "(string \<times> json) list"

definition hex_digit :: "nat \<Rightarrow> char" where
  "hex_digit n = ''0123456789abcdef'' ! (n mod 16)"

definition JSON_escape_char :: "char \<Rightarrow> string" where
  \<open>JSON_escape_char ch =
    (if ch = CHR ''"'' then [CHR 0x5C, CHR ''"'']
     else if ch = CHR 0x5C then [CHR 0x5C, CHR 0x5C]
     else if ch = CHR 0x08 then [CHR 0x5C, CHR ''b'']
     else if ch = CHR 0x0C then [CHR 0x5C, CHR ''f'']
     else if ch = CHR 0x0A then [CHR 0x5C, CHR ''n'']
     else if ch = CHR 0x0D then [CHR 0x5C, CHR ''r'']
     else if ch = CHR 0x09 then [CHR 0x5C, CHR ''t'']
     else if (of_char ch :: nat) < 32 then
       [CHR 0x5C] @ ''u00'' @ [hex_digit (of_char ch div 16), hex_digit (of_char ch mod 16)]
     else [ch])\<close>

definition JSON_quote :: "string \<Rightarrow> string" where
  \<open>JSON_quote s = ''"'' @ concat (map JSON_escape_char s) @ ''"''\<close>

function decimal :: "nat \<Rightarrow> string" where
  "decimal n = (if n < 10 then [hex_digit n] else decimal (n div 10) @ [hex_digit (n mod 10)])"
  by pat_completeness auto
termination
  by (relation "measure id") auto

fun join :: "string \<Rightarrow> string list \<Rightarrow> string" where
  "join sep [] = []"
| "join sep [x] = x"
| "join sep (x # y # ys) = x @ sep @ join sep (y # ys)"

fun JSON_serialize :: "string \<Rightarrow> json \<Rightarrow> string"
  and JSON_elements :: "string \<Rightarrow> json list \<Rightarrow> string list"
  and JSON_members :: "string \<Rightarrow> (string \<times> json) list \<Rightarrow> string list"
where
  "JSON_serialize indent (JString s) = JSON_quote s"
| "JSON_serialize indent (JNumber n) = decimal n"
| "JSON_serialize indent (JBool b) = (if b then ''true'' else ''false'')"
| "JSON_serialize indent (JArray xs) =
     (if xs = [] then ''[]''
      else ''['' @ ''\<newline>'' @ indent @ ''  '' @
           join ('','' @ ''\<newline>'' @ indent @ ''  '') (JSON_elements (indent @ ''  '') xs) @
           ''\<newline>'' @ indent @ '']'')"
| "JSON_serialize indent (JObject kvs) =
     (if kvs = [] then ''{}''
      else ''{'' @ ''\<newline>'' @ indent @ ''  '' @
           join ('','' @ ''\<newline>'' @ indent @ ''  '') (JSON_members (indent @ ''  '') kvs) @
           ''\<newline>'' @ indent @ ''}'')"
| "JSON_elements indent [] = []"
| "JSON_elements indent (x # xs) = JSON_serialize indent x # JSON_elements indent xs"
| "JSON_members indent [] = []"
| "JSON_members indent (kv # kvs) =
     (JSON_quote (fst kv) @ '': '' @ JSON_serialize indent (snd kv)) # JSON_members indent kvs"

definition JSON_stringify :: "json \<Rightarrow> string" where
  "JSON_stringify v = JSON_serialize [] v"

subsection \<open>The generators\<close>

text \<open>
  One definition for each generator function, in the order of the source. A template
  literal is the concatenation of its text, one line of the source per line here, and of
  its interpolated expressions.
\<close>


definition generateTypeScriptPackageJson :: "ProjectConfig \<Rightarrow> string" where
  \<open>generateTypeScriptPackageJson config =
    (let scripts = [
           (''test'', JString ''npx playwright test''),
           (''test:ui'', JString ''npx playwright test tests/ui''),
           (''test:headed'', JString ''npx playwright test --headed''),
           (''test:debug'', JString ''npx playwright test --debug''),
           (''report'', JString ''npx playwright show-report'')];

         scripts = (if includeAPI config then
                      scripts @ [(''test:api'', JString ''npx playwright test tests/api'')]
                    else scripts);

         dependencies = [
           (''@playwright/test'', JString ''^1.40.0''),
           (''dotenv'', JString ''^16.3.1'')];

         dependencies = (if apiFramework config = Some Axios then
                           dependencies @ [(''axios'', JString ''^1.6.0'')]
                         else dependencies)
     in JSON_stringify (JObject [
          (''name'', JString (projectName config)),
          (''version'', JString ''1.0.0''),
          (''description'', JString (str_or (description config) ''Automation test framework'')),
          (''author'', JString (str_or (author config) '''')),
          (''scripts'', JObject scripts),
          (''devDependencies'', JObject dependencies)]))\<close>

definition generatePlaywrightConfig :: "ProjectConfig \<Rightarrow> string" where
  \<open>generatePlaywrightConfig config =
    ''import { defineConfig, devices } from \'@playwright/test\';\<newline>'' @
      ''import dotenv from \'dotenv\';\<newline>'' @
      ''\<newline>'' @
      ''dotenv.config();\<newline>'' @
      ''\<newline>'' @
      ''export default defineConfig({\<newline>'' @
      ''  testDir: \'./tests\',\<newline>'' @
      ''  fullyParallel: true,\<newline>'' @
      ''  forbidOnly: !!process.env.CI,\<newline>'' @
      ''  retries: process.env.CI ? 2 : 0,\<newline>'' @
      ''  workers: process.env.CI ? 1 : undefined,\<newline>'' @
      ''  reporter: [\<newline>'' @
      ''    [\'html\', { open: \'never\' }],\<newline>'' @
      ''    [\'junit\', { outputFile: \'test-results/junit.xml\' }],\<newline>'' @
      ''  ],\<newline>'' @
      ''  use: {\<newline>'' @
      ''    baseURL: process.env.BASE_URL || \'https://example.com\',\<newline>'' @
      ''    trace: \'on-first-retry\',\<newline>'' @
      ''    screenshot: \'only-on-failure\',\<newline>'' @
      ''    video: \'on-first-retry\',\<newline>'' @
      ''  },\<newline>'' @
      ''  projects: [\<newline>'' @
      ''    {\<newline>'' @
      ''      name: \'chromium\',\<newline>'' @
      ''      use: { ...devices[\'Desktop Chrome\'] },\<newline>'' @
      ''    },\<newline>'' @
      ''  ],\<newline>'' @
      ''});\<newline>''\<close>

definition generateTsConfig :: string where
  \<open>generateTsConfig =
    JSON_stringify (JObject [
      (''compilerOptions'', JObject [
        (''target'', JString ''ES2020''),
        (''module'', JString ''commonjs''),
        (''strict'', JBool True),
        (''esModuleInterop'', JBool True),
        (''skipLibCheck'', JBool True),
        (''forceConsistentCasingInFileNames'', JBool True),
        (''baseUrl'', JString ''.''),
        (''paths'', JObject [
          (''@/*'', JArray [JString ''src/*''])
        ])
      ]),
      (''include'', JArray [JString ''src/**/*'', JString ''tests/**/*'']),
      (''exclude'', JArray [JString ''node_modules''])
    ])\<close>

definition generateTsBasePage :: string where
  \<open>generateTsBasePage =
    ''import { Page, Locator } from \'@playwright/test\';\<newline>'' @
      ''\<newline>'' @
      ''export abstract class BasePage {\<newline>'' @
      ''  protected page: Page;\<newline>'' @
      ''\<newline>'' @
      ''  constructor(page: Page) {\<newline>'' @
      ''    this.page = page;\<newline>'' @
      ''  }\<newline>'' @
      ''\<newline>'' @
      ''  async navigate(path: string = \'/\'): Promise<void> {\<newline>'' @
      ''    await this.page.goto(path);\<newline>'' @
      ''  }\<newline>'' @
      ''\<newline>'' @
      ''  async waitForPageLoad(): Promise<void> {\<newline>'' @
      ''    await this.page.waitForLoadState(\'networkidle\');\<newline>'' @
      ''  }\<newline>'' @
      ''\<newline>'' @
      ''  protected getLocator(selector: string): Locator {\<newline>'' @
      ''    return this.page.locator(selector);\<newline>'' @
      ''  }\<newline>'' @
      ''\<newline>'' @
      ''  async takeScreenshot(name: string): Promise<Buffer> {\<newline>'' @
      ''    return await this.page.screenshot({ path: `screenshots/${name}.png` });\<newline>'' @
      ''  }\<newline>'' @
      ''}\<newline>''\<close>

definition generateTsLoginPage :: string where
  \<open>generateTsLoginPage =
    ''import { Page, Locator, expect } from \'@playwright/test\';\<newline>'' @
      ''import { BasePage } from \'./BasePage\';\<newline>'' @
      ''\<newline>'' @
      ''export class LoginPage extends BasePage {\<newline>'' @
      ''  private readonly usernameInput: Locator;\<newline>'' @
      ''  private readonly passwordInput: Locator;\<newline>'' @
      ''  private readonly submitButton: Locator;\<newline>'' @
      ''  private readonly errorMessage: Locator;\<newline>'' @
      ''\<newline>'' @
      ''  constructor(page: Page) {\<newline>'' @
      ''    super(page);\<newline>'' @
      ''    this.usernameInput = page.locator(\'[data-testid="username"]\');\<newline>'' @
      ''    this.passwordInput = page.locator(\'[data-testid="password"]\');\<newline>'' @
      ''    this.submitButton = page.locator(\'[data-testid="submit"]\');\<newline>'' @
      ''    this.errorMessage = page.locator(\'[data-testid="error-message"]\');\<newline>'' @
      ''  }\<newline>'' @
      ''\<newline>'' @
      ''  async login(username: string, password: string): Promise<void> {\<newline>'' @
      ''    await this.usernameInput.fill(username);\<newline>'' @
      ''    await this.passwordInput.fill(password);\<newline>'' @
      ''    await this.submitButton.click();\<newline>'' @
      ''  }\<newline>'' @
      ''\<newline>'' @
      ''  async expectErrorMessage(message: string): Promise<void> {\<newline>'' @
      ''    await expect(this.errorMessage).toContainText(message);\<newline>'' @
      ''  }\<newline>'' @
      ''\<newline>'' @
      ''  async expectLoginSuccess(): Promise<void> {\<newline>'' @
      ''    await expect(this.page).toHaveURL(/.*dashboard/);\<newline>'' @
      ''  }\<newline>'' @
      ''}\<newline>''\<close>

definition generateTsLoginSpec :: string where
  \<open>generateTsLoginSpec =
    ''import { test, expect } from \'@playwright/test\';\<newline>'' @
      ''import { LoginPage } from \'../../src/pages/LoginPage\';\<newline>'' @
      ''\<newline>'' @
      ''test.describe(\'Login Page Tests\', () => {\<newline>'' @
      ''  let loginPage: LoginPage;\<newline>'' @
      ''\<newline>'' @
      ''  test.beforeEach(async ({ page }) => {\<newline>'' @
      ''    loginPage = new LoginPage(page);\<newline>'' @
      ''    await loginPage.navigate(\'/login\');\<newline>'' @
      ''  });\<newline>'' @
      ''\<newline>'' @
      ''  test(\'should display login form\', async ({ page }) => {\<newline>'' @
      ''    await expect(page.locator(\'[data-testid="username"]\')).toBeVisible();\<newline>'' @
      ''    await expect(page.locator(\'[data-testid="password"]\')).toBeVisible();\<newline>'' @
      ''    await expect(page.locator(\'[data-testid="submit"]\')).toBeVisible();\<newline>'' @
      ''  });\<newline>'' @
      ''\<newline>'' @
      ''  test(\'should show error for invalid credentials\', async () => {\<newline>'' @
      ''    await loginPage.login(\'invalid@email.com\', \'wrongpassword\');\<newline>'' @
      ''    await loginPage.expectErrorMessage(\'Invalid credentials\');\<newline>'' @
      ''  });\<newline>'' @
      ''\<newline>'' @
      ''  test(\'should login successfully with valid credentials\', async () => {\<newline>'' @
      ''    await loginPage.login(\'test@example.com\', \'password123\');\<newline>'' @
      ''    await loginPage.expectLoginSuccess();\<newline>'' @
      ''  });\<newline>'' @
      ''});\<newline>''\<close>

definition generateTsApiSpec :: string where
  \<open>generateTsApiSpec =
    ''import { test, expect } from \'@playwright/test\';\<newline>'' @
      ''\<newline>'' @
      ''test.describe(\'Users API Tests\', () => {\<newline>'' @
      ''  const baseURL = process.env.API_BASE_URL || \'https://jsonplaceholder.typicode.com\';\<newline>'' @
      ''\<newline>'' @
      ''  test(\'GET /users - should return list of users\', async ({ request }) => {\<newline>'' @
      ''    const response = await request.get(`${baseURL}/users`);\<newline>'' @
      ''    \<newline>'' @
      ''    expect(response.ok()).toBeTruthy();\<newline>'' @
      ''    expect(response.status()).toBe(200);\<newline>'' @
      ''    \<newline>'' @
      ''    const users = await response.json();\<newline>'' @
      ''    expect(Array.isArray(users)).toBeTruthy();\<newline>'' @
      ''    expect(users.length).toBeGreaterThan(0);\<newline>'' @
      ''  });\<newline>'' @
      ''\<newline>'' @
      ''  test(\'GET /users/1 - should return single user\', async ({ request }) => {\<newline>'' @
      ''    const response = await request.get(`${baseURL}/users/1`);\<newline>'' @
      ''    \<newline>'' @
      ''    expect(response.ok()).toBeTruthy();\<newline>'' @
      ''    const user = await response.json();\<newline>'' @
      ''    expect(user).toHaveProperty(\'id\', 1);\<newline>'' @
      ''    expect(user).toHaveProperty(\'name\');\<newline>'' @
      ''    expect(user).toHaveProperty(\'email\');\<newline>'' @
      ''  });\<newline>'' @
      ''\<newline>'' @
      ''  test(\'POST /users - should create new user\', async ({ request }) => {\<newline>'' @
      ''    const newUser = {\<newline>'' @
      ''      name: \'Test User\',\<newline>'' @
      ''      username: \'testuser\',\<newline>'' @
      ''      email: \'test@example.com\',\<newline>'' @
      ''    };\<newline>'' @
      ''\<newline>'' @
      ''    const response = await request.post(`${baseURL}/users`, {\<newline>'' @
      ''      data: newUser,\<newline>'' @
      ''    });\<newline>'' @
      ''\<newline>'' @
      ''    expect(response.ok()).toBeTruthy();\<newline>'' @
      ''    expect(response.status()).toBe(201);\<newline>'' @
      ''    \<newline>'' @
      ''    const createdUser = await response.json();\<newline>'' @
      ''    expect(createdUser).toHaveProperty(\'id\');\<newline>'' @
      ''    expect(createdUser.name).toBe(newUser.name);\<newline>'' @
      ''  });\<newline>'' @
      ''\<newline>'' @
      ''  test(\'DELETE /users/1 - should delete user\', async ({ request }) => {\<newline>'' @
      ''    const response = await request.delete(`${baseURL}/users/1`);\<newline>'' @
      ''    expect(response.ok()).toBeTruthy();\<newline>'' @
      ''  });\<newline>'' @
      ''});\<newline>''\<close>

definition generateTsUtils :: string where
  \<open>generateTsUtils =
    ''import dotenv from \'dotenv\';\<newline>'' @
      ''import * as fs from \'fs\';\<newline>'' @
      ''import * as path from \'path\';\<newline>'' @
      ''\<newline>'' @
      ''dotenv.config();\<newline>'' @
      ''\<newline>'' @
      ''interface Config {\<newline>'' @
      ''  baseUrl: string;\<newline>'' @
      ''  apiBaseUrl: string;\<newline>'' @
      ''  timeout: number;\<newline>'' @
      ''  retries: number;\<newline>'' @
      ''  headless: boolean;\<newline>'' @
      ''}\<newline>'' @
      ''\<newline>'' @
      ''export function loadConfig(env: string = \'dev\'): Config {\<newline>'' @
      ''  const configPath = path.join(__dirname, \'../../config\', `${env}.json`);\<newline>'' @
      ''  \<newline>'' @
      ''  if (fs.existsSync(configPath)) {\<newline>'' @
      ''    const fileConfig = JSON.parse(fs.readFileSync(configPath, \'utf-8\'));\<newline>'' @
      ''    return {\<newline>'' @
      ''      baseUrl: process.env.BASE_URL || fileConfig.baseUrl,\<newline>'' @
      ''      apiBaseUrl: process.env.API_BASE_URL || fileConfig.apiBaseUrl,\<newline>'' @
      ''      timeout: parseInt(process.env.TIMEOUT || fileConfig.timeout || \'30000\'),\<newline>'' @
      ''      retries: parseInt(process.env.RETRIES || fileConfig.retries || \'0\'),\<newline>'' @
      ''      headless: process.env.HEADLESS !== \'false\',\<newline>'' @
      ''    };\<newline>'' @
      ''  }\<newline>'' @
      ''\<newline>'' @
      ''  return {\<newline>'' @
      ''    baseUrl: process.env.BASE_URL || \'https://example.com\',\<newline>'' @
      ''    apiBaseUrl: process.env.API_BASE_URL || \'https://api.example.com\',\<newline>'' @
      ''    timeout: 30000,\<newline>'' @
      ''    retries: 0,\<newline>'' @
      ''    headless: true,\<newline>'' @
      ''  };\<newline>'' @
      ''}\<newline>'' @
      ''\<newline>'' @
      ''export function sleep(ms: number): Promise<void> {\<newline>'' @
      ''  return new Promise(resolve => setTimeout(resolve, ms));\<newline>'' @
      ''}\<newline>'' @
      ''\<newline>'' @
      ''export function generateRandomEmail(): string {\<newline>'' @
      ''  return `test.${Date.now()}@example.com`;\<newline>'' @
      ''}\<newline>''\<close>

definition generateEnvExample :: string where
  \<open>generateEnvExample =
    ''# Base URLs\<newline>'' @
      ''BASE_URL=https://example.com\<newline>'' @
      ''API_BASE_URL=https://api.example.com\<newline>'' @
      ''\<newline>'' @
      ''# Test Configuration\<newline>'' @
      ''TIMEOUT=30000\<newline>'' @
      ''RETRIES=0\<newline>'' @
      ''HEADLESS=true\<newline>'' @
      ''\<newline>'' @
      ''# CI/CD\<newline>'' @
      ''CI=false\<newline>''\<close>

definition generateGitignore :: "Language \<Rightarrow> string" where
  \<open>generateGitignore lang =
    (let common = ''# Dependencies\<newline>'' @
           ''node_modules/\<newline>'' @
           ''.pnpm-store/\<newline>'' @
           ''\<newline>'' @
           ''# Test Results\<newline>'' @
           ''test-results/\<newline>'' @
           ''playwright-report/\<newline>'' @
           ''allure-results/\<newline>'' @
           ''allure-report/\<newline>'' @
           ''\<newline>'' @
           ''# Environment\<newline>'' @
           ''.env\<newline>'' @
           ''.env.local\<newline>'' @
           ''.env.*.local\<newline>'' @
           ''\<newline>'' @
           ''# IDE\<newline>'' @
           ''.idea/\<newline>'' @
           ''.vscode/\<newline>'' @
           ''*.swp\<newline>'' @
           ''*.swo\<newline>'' @
           ''\<newline>'' @
           ''# OS\<newline>'' @
           ''.DS_Store\<newline>'' @
           ''Thumbs.db\<newline>'' @
           ''\<newline>'' @
           ''# Logs\<newline>'' @
           ''*.log\<newline>'' @
           ''npm-debug.log*\<newline>''
     in (if lang = Java then
       common @ ''\<newline>'' @
         ''# Java\<newline>'' @
         ''target/\<newline>'' @
         ''*.class\<newline>'' @
         ''*.jar\<newline>'' @
         ''*.war\<newline>'' @
         ''.gradle/\<newline>'' @
         ''build/\<newline>''
     else if lang = Python then
       common @ ''\<newline>'' @
         ''# Python\<newline>'' @
         ''__pycache__/\<newline>'' @
         ''*.py[cod]\<newline>'' @
         ''*$py.class\<newline>'' @
         ''.pytest_cache/\<newline>'' @
         ''.venv/\<newline>'' @
         ''venv/\<newline>'' @
         ''*.egg-info/\<newline>'' @
         ''dist/\<newline>''
     else
       common))\<close>

definition generateReadme :: "ProjectConfig \<Rightarrow> string" where
  \<open>generateReadme config =
    (let installCmd =
           (if language config = Typescript then
              (if buildTool config = Pnpm then ''pnpm install'' else ''npm install'')
            else if language config = Java then
              (if buildTool config = Maven then ''mvn clean install -DskipTests''
               else ''./gradlew build -x test'')
            else if language config = Python then
              (if buildTool config = Poetry then ''poetry install''
               else ''pip install -r requirements.txt'')
            else '''');
         testCmd =
           (if language config = Typescript then
              (if buildTool config = Pnpm then ''pnpm test'' else ''npm test'')
            else if language config = Java then
              (if buildTool config = Maven then ''mvn test'' else ''./gradlew test'')
            else if language config = Python then ''pytest''
            else '''')
     in
       ''# '' @ (projectName config) @ ''\<newline>'' @
       ''\<newline>'' @
       (str_or (description config) (''Automation test framework generated by SuiteMate'')) @ ''\<newline>'' @
       ''\<newline>'' @
       ''## Prerequisites\<newline>'' @
       ''\<newline>'' @
       (if language config = Typescript then ''- Node.js 18+ and npm/pnpm''
        else '''') @ ''\<newline>'' @
       (if language config = Java then ''- Java 17+ and Maven/Gradle''
        else '''') @ ''\<newline>'' @
       (if language config = Python then ''- Python 3.9+ and pip/poetry''
        else '''') @ ''\<newline>'' @
       (if includeUI config then ''- Chrome browser installed''
        else '''') @ ''\<newline>'' @
       ''\<newline>'' @
       ''## Installation\<newline>'' @
       ''\<newline>'' @
       ''```bash\<newline>'' @
       installCmd @ ''\<newline>'' @
       (if language config = Typescript \<and> includeUI config then ''npx playwright install''
        else '''') @ ''\<newline>'' @
       ''```\<newline>'' @
       ''\<newline>'' @
       ''## Configuration\<newline>'' @
       ''\<newline>'' @
       ''1. Copy `.env.example` to `.env`\<newline>'' @
       ''2. Update the values as needed\<newline>'' @
       ''\<newline>'' @
       ''## Running Tests\<newline>'' @
       ''\<newline>'' @
       ''### Run all tests\<newline>'' @
       ''```bash\<newline>'' @
       testCmd @ ''\<newline>'' @
       ''```\<newline>'' @
       ''\<newline>'' @
       (if includeUI config then ''### Run UI tests only\<newline>'' @
           ''```bash\<newline>'' @
           (if language config = Typescript then ''npm run test:ui''
            else testCmd @ '' -Dgroups=ui'') @ ''\<newline>'' @
           ''```''
        else '''') @ ''\<newline>'' @
       ''\<newline>'' @
       (if includeAPI config then ''### Run API tests only\<newline>'' @
           ''```bash\<newline>'' @
           (if language config = Typescript then ''npm run test:api''
            else testCmd @ '' -Dgroups=api'') @ ''\<newline>'' @
           ''```''
        else '''') @ ''\<newline>'' @
       ''\<newline>'' @
       ''### Run in headed mode (UI tests)\<newline>'' @
       ''```bash\<newline>'' @
       (if language config = Typescript then ''npm run test:headed''
        else testCmd @ '' -Dheadless=false'') @ ''\<newline>'' @
       ''```\<newline>'' @
       ''\<newline>'' @
       ''## Reports\<newline>'' @
       ''\<newline>'' @
       (if language config = Typescript then ''View HTML report:\<newline>'' @
           ''```bash\<newline>'' @
           ''npm run report\<newline>'' @
           ''```''
        else '''') @ ''\<newline>'' @
       ''\<newline>'' @
       (if language config = Java then ''Surefire reports: `target/surefire-reports/`''
        else '''') @ ''\<newline>'' @
       ''\<newline>'' @
       ''## Project Structure\<newline>'' @
       ''\<newline>'' @
       ''```\<newline>'' @
       (projectName config) @ ''/\<newline>'' @
       [CHR 0xE2, CHR 0x94, CHR 0x9C, CHR 0xE2, CHR 0x94, CHR 0x80, CHR 0xE2, CHR 0x94, CHR 0x80] @ '' '' @ (if language config = Typescript then ''src/''
        else ''src/test/'') @ ''\<newline>'' @
       [CHR 0xE2, CHR 0x94, CHR 0x82] @ ''   '' @ [CHR 0xE2, CHR 0x94, CHR 0x9C, CHR 0xE2, CHR 0x94, CHR 0x80, CHR 0xE2, CHR 0x94, CHR 0x80] @ '' '' @ (if includeUI config then (if language config = Typescript then ''pages/''
          else ''java/com/automation/pages/'')
        else '''') @ ''\<newline>'' @
       [CHR 0xE2, CHR 0x94, CHR 0x82] @ ''   '' @ [CHR 0xE2, CHR 0x94, CHR 0x94, CHR 0xE2, CHR 0x94, CHR 0x80, CHR 0xE2, CHR 0x94, CHR 0x80] @ '' '' @ (if language config = Typescript then ''utils/''
        else ''java/com/automation/utils/'') @ ''\<newline>'' @
       [CHR 0xE2, CHR 0x94, CHR 0x9C, CHR 0xE2, CHR 0x94, CHR 0x80, CHR 0xE2, CHR 0x94, CHR 0x80] @ '' tests/\<newline>'' @
       [CHR 0xE2, CHR 0x94, CHR 0x82] @ ''   '' @ (if includeUI config then [CHR 0xE2, CHR 0x94, CHR 0x9C, CHR 0xE2, CHR 0x94, CHR 0x80, CHR 0xE2, CHR 0x94, CHR 0x80] @ '' ui/''
        else '''') @ ''\<newline>'' @
       [CHR 0xE2, CHR 0x94, CHR 0x82] @ ''   '' @ (if includeAPI config then [CHR 0xE2, CHR 0x94, CHR 0x94, CHR 0xE2, CHR 0x94, CHR 0x80, CHR 0xE2, CHR 0x94, CHR 0x80] @ '' api/''
        else '''') @ ''\<newline>'' @
       [CHR 0xE2, CHR 0x94, CHR 0x94, CHR 0xE2, CHR 0x94, CHR 0x80, CHR 0xE2, CHR 0x94, CHR 0x80] @ '' config/\<newline>'' @
       ''```\<newline>'' @
       ''\<newline>'' @
       (if includeDocker config then ''## Docker\<newline>'' @
           ''\<newline>'' @
           ''Build and run tests in Docker:\<newline>'' @
           ''```bash\<newline>'' @
           ''docker-compose up --build\<newline>'' @
           ''```''
        else '''') @ ''\<newline>'' @
       ''\<newline>'' @
       ''## Environment Configuration\<newline>'' @
       ''\<newline>'' @
       ''Configuration files are in the `config/` directory:\<newline>'' @
       ''- `dev.json` - Development environment\<newline>'' @
       ''- `stage.json` - Staging environment  \<newline>'' @
       ''- `prod.json` - Production environment\<newline>'' @
       ''\<newline>'' @
       ''---\<newline>'' @
       ''Generated by [SuiteMate](https://suitemate.dev)\<newline>'')\<close>

text \<open>
  \<^verbatim>\<open>baseUrls[env]?.base || fallback\<close>: the entry of the table when \<^verbatim>\<open>env\<close> is one of its keys,
  the fallback otherwise.
\<close>

definition generateConfigJson :: "string \<Rightarrow> string" where
  \<open>generateConfigJson env =
    (let baseUrls = [
           (''dev'', (''https://dev.example.com'', ''https://api.dev.example.com'')),
           (''stage'', (''https://stage.example.com'', ''https://api.stage.example.com'')),
           (''prod'', (''https://example.com'', ''https://api.example.com''))]
     in JSON_stringify (JObject [
          (''baseUrl'', JString (str_or (map_option fst (map_of baseUrls env)) ''https://example.com'')),
          (''apiBaseUrl'', JString (str_or (map_option snd (map_of baseUrls env)) ''https://api.example.com'')),
          (''timeout'', JNumber 30000),
          (''retries'', JNumber (if env = ''prod'' then 2 else 0))]))\<close>

definition generateGitHubWorkflow :: "ProjectConfig \<Rightarrow> string" where
  \<open>generateGitHubWorkflow config =
    (if language config = Typescript then
       ''name: Tests\<newline>'' @
         ''\<newline>'' @
         ''on:\<newline>'' @
         ''  push:\<newline>'' @
         ''    branches: [main, develop]\<newline>'' @
         ''  pull_request:\<newline>'' @
         ''    branches: [main]\<newline>'' @
         ''\<newline>'' @
         ''jobs:\<newline>'' @
         ''  test:\<newline>'' @
         ''    runs-on: ubuntu-latest\<newline>'' @
         ''    \<newline>'' @
         ''    steps:\<newline>'' @
         ''      - uses: actions/checkout@v4\<newline>'' @
         ''      \<newline>'' @
         ''      - name: Setup Node.js\<newline>'' @
         ''        uses: actions/setup-node@v4\<newline>'' @
         ''        with:\<newline>'' @
         ''          node-version: \'20\'\<newline>'' @
         ''          cache: '' @ [CHR 0x27] @ (BuildTool_string (buildTool config)) @ ''\'\<newline>'' @
         ''      \<newline>'' @
         ''      - name: Install dependencies\<newline>'' @
         ''        run: '' @ (BuildTool_string (buildTool config)) @ '' install\<newline>'' @
         ''      \<newline>'' @
         (if includeUI config then ''      - name: Install Playwright browsers\<newline>'' @
             ''        run: npx playwright install --with-deps chromium\<newline>''
          else '''') @ ''\<newline>'' @
         ''      - name: Run tests\<newline>'' @
         ''        run: '' @ (BuildTool_string (buildTool config)) @ '' test\<newline>'' @
         ''      \<newline>'' @
         ''      - name: Upload test results\<newline>'' @
         ''        if: always()\<newline>'' @
         ''        uses: actions/upload-artifact@v4\<newline>'' @
         ''        with:\<newline>'' @
         ''          name: test-results\<newline>'' @
         ''          path: |\<newline>'' @
         ''            playwright-report/\<newline>'' @
         ''            test-results/\<newline>''
     else if language config = Java then
       ''name: Tests\<newline>'' @
         ''\<newline>'' @
         ''on:\<newline>'' @
         ''  push:\<newline>'' @
         ''    branches: [main, develop]\<newline>'' @
         ''  pull_request:\<newline>'' @
         ''    branches: [main]\<newline>'' @
         ''\<newline>'' @
         ''jobs:\<newline>'' @
         ''  test:\<newline>'' @
         ''    runs-on: ubuntu-latest\<newline>'' @
         ''    \<newline>'' @
         ''    steps:\<newline>'' @
         ''      - uses: actions/checkout@v4\<newline>'' @
         ''      \<newline>'' @
         ''      - name: Setup Java\<newline>'' @
         ''        uses: actions/setup-java@v4\<newline>'' @
         ''        with:\<newline>'' @
         ''          java-version: \'17\'\<newline>'' @
         ''          distribution: \'temurin\'\<newline>'' @
         ''          cache: '' @ [CHR 0x27] @ (BuildTool_string (buildTool config)) @ ''\'\<newline>'' @
         ''      \<newline>'' @
         ''      - name: Run tests\<newline>'' @
         ''        run: '' @ (if buildTool config = Maven then ''mvn test''
          else ''./gradlew test'') @ ''\<newline>'' @
         ''      \<newline>'' @
         ''      - name: Upload test results\<newline>'' @
         ''        if: always()\<newline>'' @
         ''        uses: actions/upload-artifact@v4\<newline>'' @
         ''        with:\<newline>'' @
         ''          name: test-results\<newline>'' @
         ''          path: target/surefire-reports/\<newline>''
     else
       ''name: Tests\<newline>'' @
         ''\<newline>'' @
         ''on:\<newline>'' @
         ''  push:\<newline>'' @
         ''    branches: [main, develop]\<newline>'' @
         ''  pull_request:\<newline>'' @
         ''    branches: [main]\<newline>'' @
         ''\<newline>'' @
         ''jobs:\<newline>'' @
         ''  test:\<newline>'' @
         ''    runs-on: ubuntu-latest\<newline>'' @
         ''    \<newline>'' @
         ''    steps:\<newline>'' @
         ''      - uses: actions/checkout@v4\<newline>'' @
         ''      \<newline>'' @
         ''      - name: Setup Python\<newline>'' @
         ''        uses: actions/setup-python@v5\<newline>'' @
         ''        with:\<newline>'' @
         ''          python-version: \'3.11\'\<newline>'' @
         ''          cache: \'pip\'\<newline>'' @
         ''      \<newline>'' @
         ''      - name: Install dependencies\<newline>'' @
         ''        run: pip install -r requirements.txt\<newline>'' @
         ''      \<newline>'' @
         ''      - name: Run tests\<newline>'' @
         ''        run: pytest --junitxml=test-results/junit.xml\<newline>'' @
         ''      \<newline>'' @
         ''      - name: Upload test results\<newline>'' @
         ''        if: always()\<newline>'' @
         ''        uses: actions/upload-artifact@v4\<newline>'' @
         ''        with:\<newline>'' @
         ''          name: test-results\<newline>'' @
         ''          path: test-results/\<newline>'')\<close>

definition generateDockerfile :: "ProjectConfig \<Rightarrow> string" where
  \<open>generateDockerfile config =
    (if language config = Typescript then
       ''FROM mcr.microsoft.com/playwright:v1.40.0-jammy\<newline>'' @
         ''\<newline>'' @
         ''WORKDIR /app\<newline>'' @
         ''\<newline>'' @
         ''COPY package*.json ./\<newline>'' @
         ''RUN npm ci\<newline>'' @
         ''\<newline>'' @
         ''COPY . .\<newline>'' @
         ''\<newline>'' @
         ''CMD ["npm", "test"]\<newline>''
     else if language config = Java then
       ''FROM maven:3.9-eclipse-temurin-17\<newline>'' @
         ''\<newline>'' @
         ''WORKDIR /app\<newline>'' @
         ''\<newline>'' @
         ''COPY pom.xml ./\<newline>'' @
         ''RUN mvn dependency:go-offline\<newline>'' @
         ''\<newline>'' @
         ''COPY . .\<newline>'' @
         ''\<newline>'' @
         ''CMD ["mvn", "test"]\<newline>''
     else
       ''FROM python:3.11-slim\<newline>'' @
         ''\<newline>'' @
         ''WORKDIR /app\<newline>'' @
         ''\<newline>'' @
         ''RUN apt-get update && apt-get install -y '' @ [CHR 0x5C] @ ''\<newline>'' @
         ''    chromium '' @ [CHR 0x5C] @ ''\<newline>'' @
         ''    chromium-driver '' @ [CHR 0x5C] @ ''\<newline>'' @
         ''    && rm -rf /var/lib/apt/lists/*\<newline>'' @
         ''\<newline>'' @
         ''COPY requirements.txt ./\<newline>'' @
         ''RUN pip install --no-cache-dir -r requirements.txt\<newline>'' @
         ''\<newline>'' @
         ''COPY . .\<newline>'' @
         ''\<newline>'' @
         ''ENV HEADLESS=true\<newline>'' @
         ''\<newline>'' @
         ''CMD ["pytest"]\<newline>'')\<close>

definition generateDockerCompose :: "ProjectConfig \<Rightarrow> string" where
  \<open>generateDockerCompose config =
    ''version: \'3.8\'\<newline>'' @
      ''\<newline>'' @
      ''services:\<newline>'' @
      ''  tests:\<newline>'' @
      ''    build: .\<newline>'' @
      ''    environment:\<newline>'' @
      ''      - CI=true\<newline>'' @
      ''      - HEADLESS=true\<newline>'' @
      ''      - BASE_URL=${BASE_URL:-https://example.com}\<newline>'' @
      ''    volumes:\<newline>'' @
      ''      - ./test-results:/app/test-results\<newline>'' @
      ''      - ./playwright-report:/app/playwright-report\<newline>''\<close>

definition generateRunScript :: string where
  \<open>generateRunScript =
    ''#!/bin/bash\<newline>'' @
      ''\<newline>'' @
      ''# Run all tests\<newline>'' @
      ''run_all() {\<newline>'' @
      ''    npm test\<newline>'' @
      ''}\<newline>'' @
      ''\<newline>'' @
      ''# Run UI tests only\<newline>'' @
      ''run_ui() {\<newline>'' @
      ''    npm run test:ui\<newline>'' @
      ''}\<newline>'' @
      ''\<newline>'' @
      ''# Run API tests only\<newline>'' @
      ''run_api() {\<newline>'' @
      ''    npm run test:api\<newline>'' @
      ''}\<newline>'' @
      ''\<newline>'' @
      ''# Run in headed mode\<newline>'' @
      ''run_headed() {\<newline>'' @
      ''    npm run test:headed\<newline>'' @
      ''}\<newline>'' @
      ''\<newline>'' @
      ''# Show report\<newline>'' @
      ''show_report() {\<newline>'' @
      ''    npm run report\<newline>'' @
      ''}\<newline>'' @
      ''\<newline>'' @
      ''case "$1" in\<newline>'' @
      ''    all)\<newline>'' @
      ''        run_all\<newline>'' @
      ''        ;;\<newline>'' @
      ''    ui)\<newline>'' @
      ''        run_ui\<newline>'' @
      ''        ;;\<newline>'' @
      ''    api)\<newline>'' @
      ''        run_api\<newline>'' @
      ''        ;;\<newline>'' @
      ''    headed)\<newline>'' @
      ''        run_headed\<newline>'' @
      ''        ;;\<newline>'' @
      ''    report)\<newline>'' @
      ''        show_report\<newline>'' @
      ''        ;;\<newline>'' @
      ''    *)\<newline>'' @
      ''        echo "Usage: $0 {all|ui|api|headed|report}"\<newline>'' @
      ''        exit 1\<newline>'' @
      ''        ;;\<newline>'' @
      ''esac\<newline>''\<close>

definition generateTsFixture :: string where
  \<open>generateTsFixture =
    ''import { test as base } from \'@playwright/test\';\<newline>'' @
      ''import { LoginPage } from \'../pages/LoginPage\';\<newline>'' @
      ''\<newline>'' @
      ''type Fixtures = {\<newline>'' @
      ''  loginPage: LoginPage;\<newline>'' @
      ''};\<newline>'' @
      ''\<newline>'' @
      ''export const test = base.extend<Fixtures>({\<newline>'' @
      ''  loginPage: async ({ page }, use) => {\<newline>'' @
      ''    const loginPage = new LoginPage(page);\<newline>'' @
      ''    await use(loginPage);\<newline>'' @
      ''  },\<newline>'' @
      ''});\<newline>'' @
      ''\<newline>'' @
      ''export { expect } from \'@playwright/test\';\<newline>''\<close>

definition generateTsHelpers :: string where
  \<open>generateTsHelpers =
    ''/**\<newline>'' @
      '' * Utility helper functions for tests\<newline>'' @
      '' */\<newline>'' @
      ''\<newline>'' @
      ''export function generateRandomString(length: number = 10): string {\<newline>'' @
      ''  const chars = \'abcdefghijklmnopqrstuvwxyz0123456789\';\<newline>'' @
      ''  let result = '' @ [CHR 0x27] @ ''\';\<newline>'' @
      ''  for (let i = 0; i < length; i++) {\<newline>'' @
      ''    result += chars.charAt(Math.floor(Math.random() * chars.length));\<newline>'' @
      ''  }\<newline>'' @
      ''  return result;\<newline>'' @
      ''}\<newline>'' @
      ''\<newline>'' @
      ''export function formatDate(date: Date): string {\<newline>'' @
      ''  return date.toISOString().split(\'T\')[0];\<newline>'' @
      ''}\<newline>'' @
      ''\<newline>'' @
      ''export async function retry<T>(\<newline>'' @
      ''  fn: () => Promise<T>,\<newline>'' @
      ''  maxAttempts: number = 3,\<newline>'' @
      ''  delayMs: number = 1000\<newline>'' @
      ''): Promise<T> {\<newline>'' @
      ''  let lastError: Error | undefined;\<newline>'' @
      ''  \<newline>'' @
      ''  for (let attempt = 1; attempt <= maxAttempts; attempt++) {\<newline>'' @
      ''    try {\<newline>'' @
      ''      return await fn();\<newline>'' @
      ''    } catch (error) {\<newline>'' @
      ''      lastError = error as Error;\<newline>'' @
      ''      if (attempt < maxAttempts) {\<newline>'' @
      ''        await new Promise(resolve => setTimeout(resolve, delayMs));\<newline>'' @
      ''      }\<newline>'' @
      ''    }\<newline>'' @
      ''  }\<newline>'' @
      ''  \<newline>'' @
      ''  throw lastError;\<newline>'' @
      ''}\<newline>''\<close>

definition generateTsHomeSpec :: string where
  \<open>generateTsHomeSpec =
    ''import { test, expect } from \'@playwright/test\';\<newline>'' @
      ''\<newline>'' @
      ''test.describe(\'Home Page Tests\', () => {\<newline>'' @
      ''  test.beforeEach(async ({ page }) => {\<newline>'' @
      ''    await page.goto(\'/\');\<newline>'' @
      ''  });\<newline>'' @
      ''\<newline>'' @
      ''  test(\'should load the home page\', async ({ page }) => {\<newline>'' @
      ''    await expect(page).toHaveTitle(/Example/);\<newline>'' @
      ''  });\<newline>'' @
      ''\<newline>'' @
      ''  test(\'should have main navigation\', async ({ page }) => {\<newline>'' @
      ''    const nav = page.locator(\'nav\');\<newline>'' @
      ''    await expect(nav).toBeVisible();\<newline>'' @
      ''  });\<newline>'' @
      ''\<newline>'' @
      ''  test(\'should display hero section\', async ({ page }) => {\<newline>'' @
      ''    const hero = page.locator(\'[data-testid="hero"]\').or(page.locator(\'h1\').first());\<newline>'' @
      ''    await expect(hero).toBeVisible();\<newline>'' @
      ''  });\<newline>'' @
      ''});\<newline>''\<close>

definition generateTsHealthSpec :: string where
  \<open>generateTsHealthSpec =
    ''import { test, expect } from \'@playwright/test\';\<newline>'' @
      ''\<newline>'' @
      ''test.describe(\'Health Check API Tests\', () => {\<newline>'' @
      ''  const baseURL = process.env.API_BASE_URL || \'https://jsonplaceholder.typicode.com\';\<newline>'' @
      ''\<newline>'' @
      ''  test(\'API should be reachable\', async ({ request }) => {\<newline>'' @
      ''    const response = await request.get(`${baseURL}/posts/1`);\<newline>'' @
      ''    expect(response.ok()).toBeTruthy();\<newline>'' @
      ''  });\<newline>'' @
      ''\<newline>'' @
      ''  test(\'API should return valid JSON\', async ({ request }) => {\<newline>'' @
      ''    const response = await request.get(`${baseURL}/posts/1`);\<newline>'' @
      ''    const contentType = response.headers()[\'content-type\'];\<newline>'' @
      ''    expect(contentType).toContain(\'application/json\');\<newline>'' @
      ''  });\<newline>'' @
      ''\<newline>'' @
      ''  test(\'API should handle not found gracefully\', async ({ request }) => {\<newline>'' @
      ''    const response = await request.get(`${baseURL}/posts/999999`);\<newline>'' @
      ''    expect(response.status()).toBe(404);\<newline>'' @
      ''  });\<newline>'' @
      ''});\<newline>''\<close>

definition generateJavaPom :: "ProjectConfig \<Rightarrow> string" where
  \<open>generateJavaPom config =
    (let includeAllure = (List.member (reporting config) Allure)
     in ''<?xml version="1.0" encoding="UTF-8"?>\<newline>'' @
      ''<project xmlns="http://maven.apache.org/POM/4.0.0"\<newline>'' @
      ''         xmlns:xsi="http://www.w3.org/2001/XMLSchema-instance"\<newline>'' @
      ''         xsi:schemaLocation="http://maven.apache.org/POM/4.0.0 http://maven.apache.org/xsd/maven-4.0.0.xsd">\<newline>'' @
      ''    <modelVersion>4.0.0</modelVersion>\<newline>'' @
      ''\<newline>'' @
      ''    <groupId>com.automation</groupId>\<newline>'' @
      ''    <artifactId>'' @ (projectName config) @ ''</artifactId>\<newline>'' @
      ''    <version>1.0.0</version>\<newline>'' @
      ''    <packaging>jar</packaging>\<newline>'' @
      ''\<newline>'' @
      ''    <name>'' @ (projectName config) @ ''</name>\<newline>'' @
      ''    <description>'' @ (str_or (description config) (''Automation test framework'')) @ ''</description>\<newline>'' @
      ''\<newline>'' @
      ''    <properties>\<newline>'' @
      ''        <maven.compiler.source>17</maven.compiler.source>\<newline>'' @
      ''        <maven.compiler.target>17</maven.compiler.target>\<newline>'' @
      ''        <project.build.sourceEncoding>UTF-8</project.build.sourceEncoding>\<newline>'' @
      ''        <selenium.version>4.15.0</selenium.version>\<newline>'' @
      ''        <webdrivermanager.version>5.6.2</webdrivermanager.version>\<newline>'' @
      ''        <junit.version>5.10.1</junit.version>\<newline>'' @
      ''        <restassured.version>5.3.2</restassured.version>\<newline>'' @
      ''        <log4j.version>2.22.0</log4j.version>\<newline>'' @
      ''        <allure.version>2.24.0</allure.version>\<newline>'' @
      ''        <aspectj.version>1.9.20.1</aspectj.version>\<newline>'' @
      ''    </properties>\<newline>'' @
      ''\<newline>'' @
      ''    <dependencies>\<newline>'' @
      ''        <!-- JUnit 5 -->\<newline>'' @
      ''        <dependency>\<newline>'' @
      ''            <groupId>org.junit.jupiter</groupId>\<newline>'' @
      ''            <artifactId>junit-jupiter</artifactId>\<newline>'' @
      ''            <version>${junit.version}</version>\<newline>'' @
      ''            <scope>test</scope>\<newline>'' @
      ''        </dependency>\<newline>'' @
      ''        <dependency>\<newline>'' @
      ''            <groupId>org.junit.jupiter</groupId>\<newline>'' @
      ''            <artifactId>junit-jupiter-params</artifactId>\<newline>'' @
      ''            <version>${junit.version}</version>\<newline>'' @
      ''            <scope>test</scope>\<newline>'' @
      ''        </dependency>\<newline>'' @
      ''\<newline>'' @
      (if includeUI config then ''        <!-- Selenium WebDriver -->\<newline>'' @
          ''        <dependency>\<newline>'' @
          ''            <groupId>org.seleniumhq.selenium</groupId>\<newline>'' @
          ''            <artifactId>selenium-java</artifactId>\<newline>'' @
          ''            <version>${selenium.version}</version>\<newline>'' @
          ''        </dependency>\<newline>'' @
          ''\<newline>'' @
          ''        <!-- WebDriverManager for automatic driver management -->\<newline>'' @
          ''        <dependency>\<newline>'' @
          ''            <groupId>io.github.bonigarcia</groupId>\<newline>'' @
          ''            <artifactId>webdrivermanager</artifactId>\<newline>'' @
          ''            <version>${webdrivermanager.version}</version>\<newline>'' @
          ''        </dependency>\<newline>''
       else '''') @ ''\<newline>'' @
      (if includeAPI config then ''        <!-- REST Assured for API Testing -->\<newline>'' @
          ''        <dependency>\<newline>'' @
          ''            <groupId>io.rest-assured</groupId>\<newline>'' @
          ''            <artifactId>rest-assured</artifactId>\<newline>'' @
          ''            <version>${restassured.version}</version>\<newline>'' @
          ''            <scope>test</scope>\<newline>'' @
          ''        </dependency>\<newline>'' @
          ''        <dependency>\<newline>'' @
          ''            <groupId>io.rest-assured</groupId>\<newline>'' @
          ''            <artifactId>json-path</artifactId>\<newline>'' @
          ''            <version>${restassured.version}</version>\<newline>'' @
          ''            <scope>test</scope>\<newline>'' @
          ''        </dependency>\<newline>'' @
          ''        <dependency>\<newline>'' @
          ''            <groupId>io.rest-assured</groupId>\<newline>'' @
          ''            <artifactId>json-schema-validator</artifactId>\<newline>'' @
          ''            <version>${restassured.version}</version>\<newline>'' @
          ''            <scope>test</scope>\<newline>'' @
          ''        </dependency>\<newline>''
       else '''') @ ''\<newline>'' @
      (if includeAllure then ''        <!-- Allure Reporting -->\<newline>'' @
          ''        <dependency>\<newline>'' @
          ''            <groupId>io.qameta.allure</groupId>\<newline>'' @
          ''            <artifactId>allure-junit5</artifactId>\<newline>'' @
          ''            <version>${allure.version}</version>\<newline>'' @
          ''            <scope>test</scope>\<newline>'' @
          ''        </dependency>\<newline>''
       else '''') @ ''\<newline>'' @
      ''        <!-- Logging -->\<newline>'' @
      ''        <dependency>\<newline>'' @
      ''            <groupId>org.apache.logging.log4j</groupId>\<newline>'' @
      ''            <artifactId>log4j-core</artifactId>\<newline>'' @
      ''            <version>${log4j.version}</version>\<newline>'' @
      ''        </dependency>\<newline>'' @
      ''        <dependency>\<newline>'' @
      ''            <groupId>org.apache.logging.log4j</groupId>\<newline>'' @
      ''            <artifactId>log4j-api</artifactId>\<newline>'' @
      ''            <version>${log4j.version}</version>\<newline>'' @
      ''        </dependency>\<newline>'' @
      ''\<newline>'' @
      ''        <!-- AssertJ for fluent assertions -->\<newline>'' @
      ''        <dependency>\<newline>'' @
      ''            <groupId>org.assertj</groupId>\<newline>'' @
      ''            <artifactId>assertj-core</artifactId>\<newline>'' @
      ''            <version>3.24.2</version>\<newline>'' @
      ''            <scope>test</scope>\<newline>'' @
      ''        </dependency>\<newline>'' @
      ''    </dependencies>\<newline>'' @
      ''\<newline>'' @
      ''    <build>\<newline>'' @
      ''        <plugins>\<newline>'' @
      ''            <plugin>\<newline>'' @
      ''                <groupId>org.apache.maven.plugins</groupId>\<newline>'' @
      ''                <artifactId>maven-compiler-plugin</artifactId>\<newline>'' @
      ''                <version>3.11.0</version>\<newline>'' @
      ''                <configuration>\<newline>'' @
      ''                    <source>17</source>\<newline>'' @
      ''                    <target>17</target>\<newline>'' @
      ''                </configuration>\<newline>'' @
      ''            </plugin>\<newline>'' @
      ''            <plugin>\<newline>'' @
      ''                <groupId>org.apache.maven.plugins</groupId>\<newline>'' @
      ''                <artifactId>maven-surefire-plugin</artifactId>\<newline>'' @
      ''                <version>3.2.2</version>\<newline>'' @
      ''                <configuration>\<newline>'' @
      ''                    <testFailureIgnore>false</testFailureIgnore>\<newline>'' @
      ''                    <argLine>\<newline>'' @
      ''                        -javaagent:"${settings.localRepository}/org/aspectj/aspectjweaver/${aspectj.version}/aspectjweaver-${aspectj.version}.jar"\<newline>'' @
      ''                    </argLine>\<newline>'' @
      ''                    <systemPropertyVariables>\<newline>'' @
      ''                        <allure.results.directory>${project.build.directory}/allure-results</allure.results.directory>\<newline>'' @
      ''                    </systemPropertyVariables>\<newline>'' @
      ''                </configuration>\<newline>'' @
      ''                <dependencies>\<newline>'' @
      ''                    <dependency>\<newline>'' @
      ''                        <groupId>org.aspectj</groupId>\<newline>'' @
      ''                        <artifactId>aspectjweaver</artifactId>\<newline>'' @
      ''                        <version>${aspectj.version}</version>\<newline>'' @
      ''                    </dependency>\<newline>'' @
      ''                </dependencies>\<newline>'' @
      ''            </plugin>\<newline>'' @
      (if includeAllure then ''            <plugin>\<newline>'' @
          ''                <groupId>io.qameta.allure</groupId>\<newline>'' @
          ''                <artifactId>allure-maven</artifactId>\<newline>'' @
          ''                <version>2.12.0</version>\<newline>'' @
          ''                <configuration>\<newline>'' @
          ''                    <reportVersion>${allure.version}</reportVersion>\<newline>'' @
          ''                </configuration>\<newline>'' @
          ''            </plugin>\<newline>''
       else '''') @ ''\<newline>'' @
      ''        </plugins>\<newline>'' @
      ''    </build>\<newline>'' @
      ''</project>\<newline>'')\<close>

definition generateJavaBaseTest :: "ProjectConfig \<Rightarrow> string" where
  \<open>generateJavaBaseTest config =
    ''package com.automation.base;\<newline>'' @
      ''\<newline>'' @
      ''import org.junit.jupiter.api.AfterEach;\<newline>'' @
      ''import org.junit.jupiter.api.BeforeEach;\<newline>'' @
      ''import org.apache.logging.log4j.LogManager;\<newline>'' @
      ''import org.apache.logging.log4j.Logger;\<newline>'' @
      (if includeUI config then ''import org.openqa.selenium.WebDriver;\<newline>'' @
          ''import com.automation.utils.WebDriverFactory;\<newline>'' @
          ''import com.automation.utils.ConfigReader;''
       else ''import com.automation.utils.ConfigReader;'') @ ''\<newline>'' @
      ''\<newline>'' @
      ''/**\<newline>'' @
      '' * Base test class providing common setup and teardown functionality.\<newline>'' @
      '' * All test classes should extend this class.\<newline>'' @
      '' */\<newline>'' @
      ''public abstract class BaseTest {\<newline>'' @
      ''\<newline>'' @
      ''    protected static final Logger logger = LogManager.getLogger(BaseTest.class);\<newline>'' @
      ''    protected ConfigReader config;\<newline>'' @
      (if includeUI config then ''    protected WebDriver driver;''
       else '''') @ ''\<newline>'' @
      ''\<newline>'' @
      ''    @BeforeEach\<newline>'' @
      ''    public void setUp() {\<newline>'' @
      ''        logger.info("Setting up test...");\<newline>'' @
      ''        config = new ConfigReader();\<newline>'' @
      (if includeUI config then ''        \<newline>'' @
          ''        String browser = config.getProperty("browser", "chrome");\<newline>'' @
          ''        boolean headless = Boolean.parseBoolean(config.getProperty("headless", "true"));\<newline>'' @
          ''        \<newline>'' @
          ''        driver = WebDriverFactory.createDriver(browser, headless);\<newline>'' @
          ''        driver.manage().window().maximize();\<newline>'' @
          ''        \<newline>'' @
          ''        String baseUrl = config.getProperty("baseUrl", "https://example.com");\<newline>'' @
          ''        driver.get(baseUrl);\<newline>'' @
          ''        logger.info("Navigated to: {}", baseUrl);''
       else '''') @ ''\<newline>'' @
      ''    }\<newline>'' @
      ''\<newline>'' @
      ''    @AfterEach\<newline>'' @
      ''    public void tearDown() {\<newline>'' @
      ''        logger.info("Tearing down test...");\<newline>'' @
      (if includeUI config then ''        if (driver != null) {\<newline>'' @
          ''            driver.quit();\<newline>'' @
          ''            logger.info("Browser closed");\<newline>'' @
          ''        }''
       else '''') @ ''\<newline>'' @
      ''    }\<newline>'' @
      ''}\<newline>''\<close>

definition generateJavaConfigReader :: string where
  \<open>generateJavaConfigReader =
    ''package com.automation.utils;\<newline>'' @
      ''\<newline>'' @
      ''import java.io.FileInputStream;\<newline>'' @
      ''import java.io.IOException;\<newline>'' @
      ''import java.util.Properties;\<newline>'' @
      ''import org.apache.logging.log4j.LogManager;\<newline>'' @
      ''import org.apache.logging.log4j.Logger;\<newline>'' @
      ''\<newline>'' @
      ''/**\<newline>'' @
      '' * Configuration reader that loads properties from config.properties\<newline>'' @
      '' * and supports environment variable overrides.\<newline>'' @
      '' */\<newline>'' @
      ''public class ConfigReader {\<newline>'' @
      ''\<newline>'' @
      ''    private static final Logger logger = LogManager.getLogger(ConfigReader.class);\<newline>'' @
      ''    private final Properties properties;\<newline>'' @
      ''\<newline>'' @
      ''    public ConfigReader() {\<newline>'' @
      ''        properties = new Properties();\<newline>'' @
      ''        loadProperties();\<newline>'' @
      ''    }\<newline>'' @
      ''\<newline>'' @
      ''    private void loadProperties() {\<newline>'' @
      ''        try (FileInputStream fis = new FileInputStream("src/test/resources/config.properties")) {\<newline>'' @
      ''            properties.load(fis);\<newline>'' @
      ''            logger.info("Configuration loaded successfully");\<newline>'' @
      ''        } catch (IOException e) {\<newline>'' @
      ''            logger.warn("Could not load config.properties: {}", e.getMessage());\<newline>'' @
      ''        }\<newline>'' @
      ''    }\<newline>'' @
      ''\<newline>'' @
      ''    /**\<newline>'' @
      ''     * Get property value with environment variable override support.\<newline>'' @
      ''     * Environment variables take precedence over properties file.\<newline>'' @
      ''     */\<newline>'' @
      ''    public String getProperty(String key) {\<newline>'' @
      ''        // Convert property key to env var format (e.g., base.url -> BASE_URL)\<newline>'' @
      ''        String envKey = key.toUpperCase().replace(".", "_");\<newline>'' @
      ''        String envValue = System.getenv(envKey);\<newline>'' @
      ''        \<newline>'' @
      ''        if (envValue != null && !envValue.isEmpty()) {\<newline>'' @
      ''            return envValue;\<newline>'' @
      ''        }\<newline>'' @
      ''        return properties.getProperty(key);\<newline>'' @
      ''    }\<newline>'' @
      ''\<newline>'' @
      ''    /**\<newline>'' @
      ''     * Get property value with default fallback.\<newline>'' @
      ''     */\<newline>'' @
      ''    public String getProperty(String key, String defaultValue) {\<newline>'' @
      ''        String value = getProperty(key);\<newline>'' @
      ''        return value != null ? value : defaultValue;\<newline>'' @
      ''    }\<newline>'' @
      ''\<newline>'' @
      ''    /**\<newline>'' @
      ''     * Get property as integer.\<newline>'' @
      ''     */\<newline>'' @
      ''    public int getIntProperty(String key, int defaultValue) {\<newline>'' @
      ''        String value = getProperty(key);\<newline>'' @
      ''        try {\<newline>'' @
      ''            return value != null ? Integer.parseInt(value) : defaultValue;\<newline>'' @
      ''        } catch (NumberFormatException e) {\<newline>'' @
      ''            return defaultValue;\<newline>'' @
      ''        }\<newline>'' @
      ''    }\<newline>'' @
      ''\<newline>'' @
      ''    /**\<newline>'' @
      ''     * Get property as boolean.\<newline>'' @
      ''     */\<newline>'' @
      ''    public boolean getBooleanProperty(String key, boolean defaultValue) {\<newline>'' @
      ''        String value = getProperty(key);\<newline>'' @
      ''        return value != null ? Boolean.parseBoolean(value) : defaultValue;\<newline>'' @
      ''    }\<newline>'' @
      ''}\<newline>''\<close>

definition generateJavaWebDriverFactory :: string where
  \<open>generateJavaWebDriverFactory =
    ''package com.automation.utils;\<newline>'' @
      ''\<newline>'' @
      ''import io.github.bonigarcia.wdm.WebDriverManager;\<newline>'' @
      ''import org.openqa.selenium.WebDriver;\<newline>'' @
      ''import org.openqa.selenium.chrome.ChromeDriver;\<newline>'' @
      ''import org.openqa.selenium.chrome.ChromeOptions;\<newline>'' @
      ''import org.openqa.selenium.firefox.FirefoxDriver;\<newline>'' @
      ''import org.openqa.selenium.firefox.FirefoxOptions;\<newline>'' @
      ''import org.openqa.selenium.edge.EdgeDriver;\<newline>'' @
      ''import org.openqa.selenium.edge.EdgeOptions;\<newline>'' @
      ''import org.apache.logging.log4j.LogManager;\<newline>'' @
      ''import org.apache.logging.log4j.Logger;\<newline>'' @
      ''\<newline>'' @
      ''import java.time.Duration;\<newline>'' @
      ''\<newline>'' @
      ''/**\<newline>'' @
      '' * Factory class for creating WebDriver instances.\<newline>'' @
      '' * Supports Chrome, Firefox, and Edge browsers.\<newline>'' @
      '' */\<newline>'' @
      ''public class WebDriverFactory {\<newline>'' @
      ''\<newline>'' @
      ''    private static final Logger logger = LogManager.getLogger(WebDriverFactory.class);\<newline>'' @
      ''    private static final int DEFAULT_TIMEOUT = 10;\<newline>'' @
      ''\<newline>'' @
      ''    private WebDriverFactory() {\<newline>'' @
      ''        // Prevent instantiation\<newline>'' @
      ''    }\<newline>'' @
      ''\<newline>'' @
      ''    /**\<newline>'' @
      ''     * Create a WebDriver instance for the specified browser.\<newline>'' @
      ''     */\<newline>'' @
      ''    public static WebDriver createDriver(String browser, boolean headless) {\<newline>'' @
      ''        WebDriver driver;\<newline>'' @
      ''        \<newline>'' @
      ''        switch (browser.toLowerCase()) {\<newline>'' @
      ''            case "firefox":\<newline>'' @
      ''                driver = createFirefoxDriver(headless);\<newline>'' @
      ''                break;\<newline>'' @
      ''            case "edge":\<newline>'' @
      ''                driver = createEdgeDriver(headless);\<newline>'' @
      ''                break;\<newline>'' @
      ''            case "chrome":\<newline>'' @
      ''            default:\<newline>'' @
      ''                driver = createChromeDriver(headless);\<newline>'' @
      ''                break;\<newline>'' @
      ''        }\<newline>'' @
      ''        \<newline>'' @
      ''        configureDriver(driver);\<newline>'' @
      ''        return driver;\<newline>'' @
      ''    }\<newline>'' @
      ''\<newline>'' @
      ''    private static WebDriver createChromeDriver(boolean headless) {\<newline>'' @
      ''        logger.info("Initializing Chrome driver (headless: {})", headless);\<newline>'' @
      ''        WebDriverManager.chromedriver().setup();\<newline>'' @
      ''        \<newline>'' @
      ''        ChromeOptions options = new ChromeOptions();\<newline>'' @
      ''        if (headless) {\<newline>'' @
      ''            options.addArguments("--headless=new");\<newline>'' @
      ''        }\<newline>'' @
      ''        options.addArguments("--no-sandbox");\<newline>'' @
      ''        options.addArguments("--disable-dev-shm-usage");\<newline>'' @
      ''        options.addArguments("--disable-gpu");\<newline>'' @
      ''        options.addArguments("--window-size=1920,1080");\<newline>'' @
      ''        options.addArguments("--remote-allow-origins=*");\<newline>'' @
      ''        \<newline>'' @
      ''        return new ChromeDriver(options);\<newline>'' @
      ''    }\<newline>'' @
      ''\<newline>'' @
      ''    private static WebDriver createFirefoxDriver(boolean headless) {\<newline>'' @
      ''        logger.info("Initializing Firefox driver (headless: {})", headless);\<newline>'' @
      ''        WebDriverManager.firefoxdriver().setup();\<newline>'' @
      ''        \<newline>'' @
      ''        FirefoxOptions options = new FirefoxOptions();\<newline>'' @
      ''        if (headless) {\<newline>'' @
      ''            options.addArguments("--headless");\<newline>'' @
      ''        }\<newline>'' @
      ''        options.addArguments("--width=1920");\<newline>'' @
      ''        options.addArguments("--height=1080");\<newline>'' @
      ''        \<newline>'' @
      ''        return new FirefoxDriver(options);\<newline>'' @
      ''    }\<newline>'' @
      ''\<newline>'' @
      ''    private static WebDriver createEdgeDriver(boolean headless) {\<newline>'' @
      ''        logger.info("Initializing Edge driver (headless: {})", headless);\<newline>'' @
      ''        WebDriverManager.edgedriver().setup();\<newline>'' @
      ''        \<newline>'' @
      ''        EdgeOptions options = new EdgeOptions();\<newline>'' @
      ''        if (headless) {\<newline>'' @
      ''            options.addArguments("--headless=new");\<newline>'' @
      ''        }\<newline>'' @
      ''        options.addArguments("--no-sandbox");\<newline>'' @
      ''        options.addArguments("--disable-dev-shm-usage");\<newline>'' @
      ''        \<newline>'' @
      ''        return new EdgeDriver(options);\<newline>'' @
      ''    }\<newline>'' @
      ''\<newline>'' @
      ''    private static void configureDriver(WebDriver driver) {\<newline>'' @
      ''        driver.manage().timeouts().implicitlyWait(Duration.ofSeconds(DEFAULT_TIMEOUT));\<newline>'' @
      ''        driver.manage().timeouts().pageLoadTimeout(Duration.ofSeconds(30));\<newline>'' @
      ''        driver.manage().timeouts().scriptTimeout(Duration.ofSeconds(30));\<newline>'' @
      ''    }\<newline>'' @
      ''}\<newline>''\<close>

definition generateJavaBasePage :: string where
  \<open>generateJavaBasePage =
    ''package com.automation.pages;\<newline>'' @
      ''\<newline>'' @
      ''import org.openqa.selenium.By;\<newline>'' @
      ''import org.openqa.selenium.WebDriver;\<newline>'' @
      ''import org.openqa.selenium.WebElement;\<newline>'' @
      ''import org.openqa.selenium.support.ui.ExpectedConditions;\<newline>'' @
      ''import org.openqa.selenium.support.ui.WebDriverWait;\<newline>'' @
      ''import org.openqa.selenium.support.ui.Select;\<newline>'' @
      ''import org.openqa.selenium.JavascriptExecutor;\<newline>'' @
      ''import org.apache.logging.log4j.LogManager;\<newline>'' @
      ''import org.apache.logging.log4j.Logger;\<newline>'' @
      ''\<newline>'' @
      ''import java.time.Duration;\<newline>'' @
      ''import java.util.List;\<newline>'' @
      ''\<newline>'' @
      ''/**\<newline>'' @
      '' * Base page object class providing common web interactions.\<newline>'' @
      '' * All page objects should extend this class.\<newline>'' @
      '' */\<newline>'' @
      ''public abstract class BasePage {\<newline>'' @
      ''\<newline>'' @
      ''    protected static final Logger logger = LogManager.getLogger(BasePage.class);\<newline>'' @
      ''    protected final WebDriver driver;\<newline>'' @
      ''    protected final WebDriverWait wait;\<newline>'' @
      ''    private static final int DEFAULT_TIMEOUT = 10;\<newline>'' @
      ''\<newline>'' @
      ''    public BasePage(WebDriver driver) {\<newline>'' @
      ''        this.driver = driver;\<newline>'' @
      ''        this.wait = new WebDriverWait(driver, Duration.ofSeconds(DEFAULT_TIMEOUT));\<newline>'' @
      ''    }\<newline>'' @
      ''\<newline>'' @
      ''    // ============ Wait Methods ============\<newline>'' @
      ''\<newline>'' @
      ''    protected WebElement waitForElement(By locator) {\<newline>'' @
      ''        logger.debug("Waiting for element: {}", locator);\<newline>'' @
      ''        return wait.until(ExpectedConditions.visibilityOfElementLocated(locator));\<newline>'' @
      ''    }\<newline>'' @
      ''\<newline>'' @
      ''    protected WebElement waitForClickable(By locator) {\<newline>'' @
      ''        logger.debug("Waiting for clickable element: {}", locator);\<newline>'' @
      ''        return wait.until(ExpectedConditions.elementToBeClickable(locator));\<newline>'' @
      ''    }\<newline>'' @
      ''\<newline>'' @
      ''    protected List<WebElement> waitForElements(By locator) {\<newline>'' @
      ''        wait.until(ExpectedConditions.presenceOfAllElementsLocatedBy(locator));\<newline>'' @
      ''        return driver.findElements(locator);\<newline>'' @
      ''    }\<newline>'' @
      ''\<newline>'' @
      ''    // ============ Interaction Methods ============\<newline>'' @
      ''\<newline>'' @
      ''    protected void click(By locator) {\<newline>'' @
      ''        logger.info("Clicking element: {}", locator);\<newline>'' @
      ''        waitForClickable(locator).click();\<newline>'' @
      ''    }\<newline>'' @
      ''\<newline>'' @
      ''    protected void type(By locator, String text) {\<newline>'' @
      ''        logger.info("Typing \'{}\' into element: {}", text, locator);\<newline>'' @
      ''        WebElement element = waitForElement(locator);\<newline>'' @
      ''        element.clear();\<newline>'' @
      ''        element.sendKeys(text);\<newline>'' @
      ''    }\<newline>'' @
      ''\<newline>'' @
      ''    protected void clearAndType(By locator, String text) {\<newline>'' @
      ''        WebElement element = waitForElement(locator);\<newline>'' @
      ''        element.clear();\<newline>'' @
      ''        element.sendKeys(text);\<newline>'' @
      ''    }\<newline>'' @
      ''\<newline>'' @
      ''    protected String getText(By locator) {\<newline>'' @
      ''        String text = waitForElement(locator).getText();\<newline>'' @
      ''        logger.debug("Got text \'{}\' from element: {}", text, locator);\<newline>'' @
      ''        return text;\<newline>'' @
      ''    }\<newline>'' @
      ''\<newline>'' @
      ''    protected String getAttribute(By locator, String attribute) {\<newline>'' @
      ''        return waitForElement(locator).getAttribute(attribute);\<newline>'' @
      ''    }\<newline>'' @
      ''\<newline>'' @
      ''    protected boolean isDisplayed(By locator) {\<newline>'' @
      ''        try {\<newline>'' @
      ''            return driver.findElement(locator).isDisplayed();\<newline>'' @
      ''        } catch (Exception e) {\<newline>'' @
      ''            return false;\<newline>'' @
      ''        }\<newline>'' @
      ''    }\<newline>'' @
      ''\<newline>'' @
      ''    protected boolean isEnabled(By locator) {\<newline>'' @
      ''        return waitForElement(locator).isEnabled();\<newline>'' @
      ''    }\<newline>'' @
      ''\<newline>'' @
      ''    // ============ Select Methods ============\<newline>'' @
      ''\<newline>'' @
      ''    protected void selectByVisibleText(By locator, String text) {\<newline>'' @
      ''        logger.info("Selecting \'{}\' from dropdown: {}", text, locator);\<newline>'' @
      ''        Select select = new Select(waitForElement(locator));\<newline>'' @
      ''        select.selectByVisibleText(text);\<newline>'' @
      ''    }\<newline>'' @
      ''\<newline>'' @
      ''    protected void selectByValue(By locator, String value) {\<newline>'' @
      ''        Select select = new Select(waitForElement(locator));\<newline>'' @
      ''        select.selectByValue(value);\<newline>'' @
      ''    }\<newline>'' @
      ''\<newline>'' @
      ''    protected void selectByIndex(By locator, int index) {\<newline>'' @
      ''        Select select = new Select(waitForElement(locator));\<newline>'' @
      ''        select.selectByIndex(index);\<newline>'' @
      ''    }\<newline>'' @
      ''\<newline>'' @
      ''    // ============ JavaScript Methods ============\<newline>'' @
      ''\<newline>'' @
      ''    protected void scrollToElement(By locator) {\<newline>'' @
      ''        WebElement element = waitForElement(locator);\<newline>'' @
      ''        ((JavascriptExecutor) driver).executeScript("arguments[0].scrollIntoView(true);", element);\<newline>'' @
      ''    }\<newline>'' @
      ''\<newline>'' @
      ''    protected void clickWithJS(By locator) {\<newline>'' @
      ''        WebElement element = waitForElement(locator);\<newline>'' @
      ''        ((JavascriptExecutor) driver).executeScript("arguments[0].click();", element);\<newline>'' @
      ''    }\<newline>'' @
      ''\<newline>'' @
      ''    // ============ Navigation Methods ============\<newline>'' @
      ''\<newline>'' @
      ''    protected void navigateTo(String url) {\<newline>'' @
      ''        logger.info("Navigating to: {}", url);\<newline>'' @
      ''        driver.get(url);\<newline>'' @
      ''    }\<newline>'' @
      ''\<newline>'' @
      ''    protected String getCurrentUrl() {\<newline>'' @
      ''        return driver.getCurrentUrl();\<newline>'' @
      ''    }\<newline>'' @
      ''\<newline>'' @
      ''    protected String getTitle() {\<newline>'' @
      ''        return driver.getTitle();\<newline>'' @
      ''    }\<newline>'' @
      ''\<newline>'' @
      ''    protected void refreshPage() {\<newline>'' @
      ''        driver.navigate().refresh();\<newline>'' @
      ''    }\<newline>'' @
      ''}\<newline>''\<close>

definition generateJavaLoginPage :: string where
  \<open>generateJavaLoginPage =
    ''package com.automation.pages;\<newline>'' @
      ''\<newline>'' @
      ''import org.openqa.selenium.By;\<newline>'' @
      ''import org.openqa.selenium.WebDriver;\<newline>'' @
      ''\<newline>'' @
      ''/**\<newline>'' @
      '' * Page Object for the Login Page.\<newline>'' @
      '' * Encapsulates all login page interactions.\<newline>'' @
      '' */\<newline>'' @
      ''public class LoginPage extends BasePage {\<newline>'' @
      ''\<newline>'' @
      ''    // ============ Locators ============\<newline>'' @
      ''    private final By usernameField = By.cssSelector("[data-testid=\'username\']");\<newline>'' @
      ''    private final By passwordField = By.cssSelector("[data-testid=\'password\']");\<newline>'' @
      ''    private final By submitButton = By.cssSelector("[data-testid=\'submit\']");\<newline>'' @
      ''    private final By errorMessage = By.cssSelector("[data-testid=\'error-message\']");\<newline>'' @
      ''    private final By forgotPasswordLink = By.cssSelector("[data-testid=\'forgot-password\']");\<newline>'' @
      ''    private final By rememberMeCheckbox = By.cssSelector("[data-testid=\'remember-me\']");\<newline>'' @
      ''\<newline>'' @
      ''    public LoginPage(WebDriver driver) {\<newline>'' @
      ''        super(driver);\<newline>'' @
      ''    }\<newline>'' @
      ''\<newline>'' @
      ''    // ============ Actions ============\<newline>'' @
      ''\<newline>'' @
      ''    /**\<newline>'' @
      ''     * Enter username into the username field.\<newline>'' @
      ''     */\<newline>'' @
      ''    public LoginPage enterUsername(String username) {\<newline>'' @
      ''        type(usernameField, username);\<newline>'' @
      ''        return this;\<newline>'' @
      ''    }\<newline>'' @
      ''\<newline>'' @
      ''    /**\<newline>'' @
      ''     * Enter password into the password field.\<newline>'' @
      ''     */\<newline>'' @
      ''    public LoginPage enterPassword(String password) {\<newline>'' @
      ''        type(passwordField, password);\<newline>'' @
      ''        return this;\<newline>'' @
      ''    }\<newline>'' @
      ''\<newline>'' @
      ''    /**\<newline>'' @
      ''     * Click the submit/login button.\<newline>'' @
      ''     */\<newline>'' @
      ''    public void clickSubmit() {\<newline>'' @
      ''        click(submitButton);\<newline>'' @
      ''    }\<newline>'' @
      ''\<newline>'' @
      ''    /**\<newline>'' @
      ''     * Perform complete login with username and password.\<newline>'' @
      ''     */\<newline>'' @
      ''    public void login(String username, String password) {\<newline>'' @
      ''        logger.info("Attempting login with username: {}", username);\<newline>'' @
      ''        enterUsername(username);\<newline>'' @
      ''        enterPassword(password);\<newline>'' @
      ''        clickSubmit();\<newline>'' @
      ''    }\<newline>'' @
      ''\<newline>'' @
      ''    /**\<newline>'' @
      ''     * Check the "Remember Me" checkbox.\<newline>'' @
      ''     */\<newline>'' @
      ''    public LoginPage checkRememberMe() {\<newline>'' @
      ''        click(rememberMeCheckbox);\<newline>'' @
      ''        return this;\<newline>'' @
      ''    }\<newline>'' @
      ''\<newline>'' @
      ''    /**\<newline>'' @
      ''     * Click "Forgot Password" link.\<newline>'' @
      ''     */\<newline>'' @
      ''    public void clickForgotPassword() {\<newline>'' @
      ''        click(forgotPasswordLink);\<newline>'' @
      ''    }\<newline>'' @
      ''\<newline>'' @
      ''    // ============ Verifications ============\<newline>'' @
      ''\<newline>'' @
      ''    /**\<newline>'' @
      ''     * Get the error message text.\<newline>'' @
      ''     */\<newline>'' @
      ''    public String getErrorMessage() {\<newline>'' @
      ''        return getText(errorMessage);\<newline>'' @
      ''    }\<newline>'' @
      ''\<newline>'' @
      ''    /**\<newline>'' @
      ''     * Check if error message is displayed.\<newline>'' @
      ''     */\<newline>'' @
      ''    public boolean isErrorDisplayed() {\<newline>'' @
      ''        return isDisplayed(errorMessage);\<newline>'' @
      ''    }\<newline>'' @
      ''\<newline>'' @
      ''    /**\<newline>'' @
      ''     * Check if login was successful by verifying URL contains dashboard.\<newline>'' @
      ''     */\<newline>'' @
      ''    public boolean isLoginSuccessful() {\<newline>'' @
      ''        return getCurrentUrl().contains("dashboard");\<newline>'' @
      ''    }\<newline>'' @
      ''\<newline>'' @
      ''    /**\<newline>'' @
      ''     * Check if username field is displayed.\<newline>'' @
      ''     */\<newline>'' @
      ''    public boolean isUsernameFieldDisplayed() {\<newline>'' @
      ''        return isDisplayed(usernameField);\<newline>'' @
      ''    }\<newline>'' @
      ''\<newline>'' @
      ''    /**\<newline>'' @
      ''     * Check if password field is displayed.\<newline>'' @
      ''     */\<newline>'' @
      ''    public boolean isPasswordFieldDisplayed() {\<newline>'' @
      ''        return isDisplayed(passwordField);\<newline>'' @
      ''    }\<newline>'' @
      ''\<newline>'' @
      ''    /**\<newline>'' @
      ''     * Check if submit button is enabled.\<newline>'' @
      ''     */\<newline>'' @
      ''    public boolean isSubmitButtonEnabled() {\<newline>'' @
      ''        return isEnabled(submitButton);\<newline>'' @
      ''    }\<newline>'' @
      ''}\<newline>''\<close>

definition generateJavaHomePage :: string where
  \<open>generateJavaHomePage =
    ''package com.automation.pages;\<newline>'' @
      ''\<newline>'' @
      ''import org.openqa.selenium.By;\<newline>'' @
      ''import org.openqa.selenium.WebDriver;\<newline>'' @
      ''\<newline>'' @
      ''/**\<newline>'' @
      '' * Page Object for the Home/Dashboard Page.\<newline>'' @
      '' */\<newline>'' @
      ''public class HomePage extends BasePage {\<newline>'' @
      ''\<newline>'' @
      ''    // ============ Locators ============\<newline>'' @
      ''    private final By welcomeMessage = By.cssSelector("[data-testid=\'welcome-message\']");\<newline>'' @
      ''    private final By userMenu = By.cssSelector("[data-testid=\'user-menu\']");\<newline>'' @
      ''    private final By logoutButton = By.cssSelector("[data-testid=\'logout\']");\<newline>'' @
      ''    private final By navigationMenu = By.cssSelector("nav");\<newline>'' @
      ''\<newline>'' @
      ''    public HomePage(WebDriver driver) {\<newline>'' @
      ''        super(driver);\<newline>'' @
      ''    }\<newline>'' @
      ''\<newline>'' @
      ''    // ============ Actions ============\<newline>'' @
      ''\<newline>'' @
      ''    /**\<newline>'' @
      ''     * Click on user menu to open dropdown.\<newline>'' @
      ''     */\<newline>'' @
      ''    public HomePage openUserMenu() {\<newline>'' @
      ''        click(userMenu);\<newline>'' @
      ''        return this;\<newline>'' @
      ''    }\<newline>'' @
      ''\<newline>'' @
      ''    /**\<newline>'' @
      ''     * Perform logout.\<newline>'' @
      ''     */\<newline>'' @
      ''    public void logout() {\<newline>'' @
      ''        openUserMenu();\<newline>'' @
      ''        click(logoutButton);\<newline>'' @
      ''    }\<newline>'' @
      ''\<newline>'' @
      ''    // ============ Verifications ============\<newline>'' @
      ''\<newline>'' @
      ''    /**\<newline>'' @
      ''     * Get welcome message text.\<newline>'' @
      ''     */\<newline>'' @
      ''    public String getWelcomeMessage() {\<newline>'' @
      ''        return getText(welcomeMessage);\<newline>'' @
      ''    }\<newline>'' @
      ''\<newline>'' @
      ''    /**\<newline>'' @
      ''     * Check if navigation menu is displayed.\<newline>'' @
      ''     */\<newline>'' @
      ''    public boolean isNavigationDisplayed() {\<newline>'' @
      ''        return isDisplayed(navigationMenu);\<newline>'' @
      ''    }\<newline>'' @
      ''\<newline>'' @
      ''    /**\<newline>'' @
      ''     * Check if user is on the home page.\<newline>'' @
      ''     */\<newline>'' @
      ''    public boolean isOnHomePage() {\<newline>'' @
      ''        return getCurrentUrl().contains("dashboard") || getCurrentUrl().contains("home");\<newline>'' @
      ''    }\<newline>'' @
      ''}\<newline>''\<close>

definition generateJavaLoginTest :: string where
  \<open>generateJavaLoginTest =
    ''package com.automation.tests;\<newline>'' @
      ''\<newline>'' @
      ''import com.automation.base.BaseTest;\<newline>'' @
      ''import com.automation.pages.LoginPage;\<newline>'' @
      ''import org.junit.jupiter.api.BeforeEach;\<newline>'' @
      ''import org.junit.jupiter.api.Test;\<newline>'' @
      ''import org.junit.jupiter.api.DisplayName;\<newline>'' @
      ''import org.junit.jupiter.api.Tag;\<newline>'' @
      ''\<newline>'' @
      ''import static org.assertj.core.api.Assertions.*;\<newline>'' @
      ''\<newline>'' @
      ''/**\<newline>'' @
      '' * Test class for Login functionality.\<newline>'' @
      '' */\<newline>'' @
      ''@Tag("ui")\<newline>'' @
      ''@Tag("login")\<newline>'' @
      ''public class LoginTest extends BaseTest {\<newline>'' @
      ''\<newline>'' @
      ''    private LoginPage loginPage;\<newline>'' @
      ''\<newline>'' @
      ''    @BeforeEach\<newline>'' @
      ''    public void setUpPage() {\<newline>'' @
      ''        loginPage = new LoginPage(driver);\<newline>'' @
      ''        driver.get(config.getProperty("baseUrl") + "/login");\<newline>'' @
      ''    }\<newline>'' @
      ''\<newline>'' @
      ''    @Test\<newline>'' @
      ''    @DisplayName("Login form should be visible")\<newline>'' @
      ''    @Tag("smoke")\<newline>'' @
      ''    public void testLoginFormIsVisible() {\<newline>'' @
      ''        assertThat(loginPage.isUsernameFieldDisplayed())\<newline>'' @
      ''            .as("Username field should be visible")\<newline>'' @
      ''            .isTrue();\<newline>'' @
      ''        \<newline>'' @
      ''        assertThat(loginPage.isPasswordFieldDisplayed())\<newline>'' @
      ''            .as("Password field should be visible")\<newline>'' @
      ''            .isTrue();\<newline>'' @
      ''        \<newline>'' @
      ''        assertThat(loginPage.isSubmitButtonEnabled())\<newline>'' @
      ''            .as("Submit button should be enabled")\<newline>'' @
      ''            .isTrue();\<newline>'' @
      ''    }\<newline>'' @
      ''\<newline>'' @
      ''    @Test\<newline>'' @
      ''    @DisplayName("Should show error for invalid credentials")\<newline>'' @
      ''    public void testInvalidCredentialsShowError() {\<newline>'' @
      ''        loginPage.login("invalid@email.com", "wrongpassword");\<newline>'' @
      ''        \<newline>'' @
      ''        assertThat(loginPage.isErrorDisplayed())\<newline>'' @
      ''            .as("Error message should be displayed")\<newline>'' @
      ''            .isTrue();\<newline>'' @
      ''        \<newline>'' @
      ''        assertThat(loginPage.getErrorMessage())\<newline>'' @
      ''            .as("Error message should indicate invalid credentials")\<newline>'' @
      ''            .containsIgnoringCase("invalid");\<newline>'' @
      ''    }\<newline>'' @
      ''\<newline>'' @
      ''    @Test\<newline>'' @
      ''    @DisplayName("Should show error for empty username")\<newline>'' @
      ''    public void testEmptyUsernameShowsError() {\<newline>'' @
      ''        loginPage.enterPassword("somepassword");\<newline>'' @
      ''        loginPage.clickSubmit();\<newline>'' @
      ''        \<newline>'' @
      ''        assertThat(loginPage.isErrorDisplayed())\<newline>'' @
      ''            .as("Error should be shown for empty username")\<newline>'' @
      ''            .isTrue();\<newline>'' @
      ''    }\<newline>'' @
      ''\<newline>'' @
      ''    @Test\<newline>'' @
      ''    @DisplayName("Should show error for empty password")\<newline>'' @
      ''    public void testEmptyPasswordShowsError() {\<newline>'' @
      ''        loginPage.enterUsername("test@example.com");\<newline>'' @
      ''        loginPage.clickSubmit();\<newline>'' @
      ''        \<newline>'' @
      ''        assertThat(loginPage.isErrorDisplayed())\<newline>'' @
      ''            .as("Error should be shown for empty password")\<newline>'' @
      ''            .isTrue();\<newline>'' @
      ''    }\<newline>'' @
      ''\<newline>'' @
      ''    @Test\<newline>'' @
      ''    @DisplayName("Should login successfully with valid credentials")\<newline>'' @
      ''    @Tag("smoke")\<newline>'' @
      ''    public void testValidCredentialsLogin() {\<newline>'' @
      ''        String username = config.getProperty("testUsername", "test@example.com");\<newline>'' @
      ''        String password = config.getProperty("testPassword", "password123");\<newline>'' @
      ''        \<newline>'' @
      ''        loginPage.login(username, password);\<newline>'' @
      ''        \<newline>'' @
      ''        assertThat(loginPage.isLoginSuccessful())\<newline>'' @
      ''            .as("Should navigate to dashboard after successful login")\<newline>'' @
      ''            .isTrue();\<newline>'' @
      ''    }\<newline>'' @
      ''}\<newline>''\<close>

definition generateJavaBaseApiClient :: string where
  \<open>generateJavaBaseApiClient =
    ''package com.automation.api;\<newline>'' @
      ''\<newline>'' @
      ''import io.restassured.RestAssured;\<newline>'' @
      ''import io.restassured.http.ContentType;\<newline>'' @
      ''import io.restassured.response.Response;\<newline>'' @
      ''import io.restassured.specification.RequestSpecification;\<newline>'' @
      ''import org.apache.logging.log4j.LogManager;\<newline>'' @
      ''import org.apache.logging.log4j.Logger;\<newline>'' @
      ''\<newline>'' @
      ''import java.util.Map;\<newline>'' @
      ''\<newline>'' @
      ''/**\<newline>'' @
      '' * Base API client providing common REST operations.\<newline>'' @
      '' * All API test classes should use this client.\<newline>'' @
      '' */\<newline>'' @
      ''public class BaseApiClient {\<newline>'' @
      ''\<newline>'' @
      ''    protected static final Logger logger = LogManager.getLogger(BaseApiClient.class);\<newline>'' @
      ''    protected final RequestSpecification requestSpec;\<newline>'' @
      ''    protected final String baseUrl;\<newline>'' @
      ''\<newline>'' @
      ''    public BaseApiClient() {\<newline>'' @
      ''        this.baseUrl = System.getenv().getOrDefault("API_BASE_URL", "https://jsonplaceholder.typicode.com");\<newline>'' @
      ''        RestAssured.baseURI = baseUrl;\<newline>'' @
      ''        \<newline>'' @
      ''        this.requestSpec = RestAssured.given()\<newline>'' @
      ''            .contentType(ContentType.JSON)\<newline>'' @
      ''            .accept(ContentType.JSON)\<newline>'' @
      ''            .log().ifValidationFails();\<newline>'' @
      ''        \<newline>'' @
      ''        logger.info("API Client initialized with base URL: {}", baseUrl);\<newline>'' @
      ''    }\<newline>'' @
      ''\<newline>'' @
      ''    public BaseApiClient(String baseUrl) {\<newline>'' @
      ''        this.baseUrl = baseUrl;\<newline>'' @
      ''        RestAssured.baseURI = baseUrl;\<newline>'' @
      ''        \<newline>'' @
      ''        this.requestSpec = RestAssured.given()\<newline>'' @
      ''            .contentType(ContentType.JSON)\<newline>'' @
      ''            .accept(ContentType.JSON)\<newline>'' @
      ''            .log().ifValidationFails();\<newline>'' @
      ''    }\<newline>'' @
      ''\<newline>'' @
      ''    // ============ HTTP Methods ============\<newline>'' @
      ''\<newline>'' @
      ''    public Response get(String endpoint) {\<newline>'' @
      ''        logger.info("GET {}", endpoint);\<newline>'' @
      ''        return requestSpec.get(endpoint);\<newline>'' @
      ''    }\<newline>'' @
      ''\<newline>'' @
      ''    public Response get(String endpoint, Map<String, ?> queryParams) {\<newline>'' @
      ''        logger.info("GET {} with params: {}", endpoint, queryParams);\<newline>'' @
      ''        return requestSpec.queryParams(queryParams).get(endpoint);\<newline>'' @
      ''    }\<newline>'' @
      ''\<newline>'' @
      ''    public Response post(String endpoint, Object body) {\<newline>'' @
      ''        logger.info("POST {} with body: {}", endpoint, body);\<newline>'' @
      ''        return requestSpec.body(body).post(endpoint);\<newline>'' @
      ''    }\<newline>'' @
      ''\<newline>'' @
      ''    public Response put(String endpoint, Object body) {\<newline>'' @
      ''        logger.info("PUT {} with body: {}", endpoint, body);\<newline>'' @
      ''        return requestSpec.body(body).put(endpoint);\<newline>'' @
      ''    }\<newline>'' @
      ''\<newline>'' @
      ''    public Response patch(String endpoint, Object body) {\<newline>'' @
      ''        logger.info("PATCH {} with body: {}", endpoint, body);\<newline>'' @
      ''        return requestSpec.body(body).patch(endpoint);\<newline>'' @
      ''    }\<newline>'' @
      ''\<newline>'' @
      ''    public Response delete(String endpoint) {\<newline>'' @
      ''        logger.info("DELETE {}", endpoint);\<newline>'' @
      ''        return requestSpec.delete(endpoint);\<newline>'' @
      ''    }\<newline>'' @
      ''\<newline>'' @
      ''    // ============ Helper Methods ============\<newline>'' @
      ''\<newline>'' @
      ''    public RequestSpecification withAuth(String token) {\<newline>'' @
      ''        return requestSpec.header("Authorization", "Bearer " + token);\<newline>'' @
      ''    }\<newline>'' @
      ''\<newline>'' @
      ''    public RequestSpecification withHeaders(Map<String, String> headers) {\<newline>'' @
      ''        return requestSpec.headers(headers);\<newline>'' @
      ''    }\<newline>'' @
      ''}\<newline>''\<close>

definition generateJavaUsersApiTest :: string where
  \<open>generateJavaUsersApiTest =
    ''package com.automation.api;\<newline>'' @
      ''\<newline>'' @
      ''import io.restassured.response.Response;\<newline>'' @
      ''import org.junit.jupiter.api.BeforeEach;\<newline>'' @
      ''import org.junit.jupiter.api.Test;\<newline>'' @
      ''import org.junit.jupiter.api.DisplayName;\<newline>'' @
      ''import org.junit.jupiter.api.Tag;\<newline>'' @
      ''import org.junit.jupiter.api.Nested;\<newline>'' @
      ''\<newline>'' @
      ''import java.util.HashMap;\<newline>'' @
      ''import java.util.Map;\<newline>'' @
      ''\<newline>'' @
      ''import static org.assertj.core.api.Assertions.*;\<newline>'' @
      ''import static org.hamcrest.Matchers.*;\<newline>'' @
      ''\<newline>'' @
      ''/**\<newline>'' @
      '' * API tests for Users endpoints.\<newline>'' @
      '' */\<newline>'' @
      ''@Tag("api")\<newline>'' @
      ''@Tag("users")\<newline>'' @
      ''public class UsersApiTest {\<newline>'' @
      ''\<newline>'' @
      ''    private BaseApiClient apiClient;\<newline>'' @
      ''\<newline>'' @
      ''    @BeforeEach\<newline>'' @
      ''    public void setUp() {\<newline>'' @
      ''        apiClient = new BaseApiClient();\<newline>'' @
      ''    }\<newline>'' @
      ''\<newline>'' @
      ''    @Nested\<newline>'' @
      ''    @DisplayName("GET /users")\<newline>'' @
      ''    class GetUsers {\<newline>'' @
      ''\<newline>'' @
      ''        @Test\<newline>'' @
      ''        @DisplayName("Should return list of users")\<newline>'' @
      ''        @Tag("smoke")\<newline>'' @
      ''        public void testGetAllUsers() {\<newline>'' @
      ''            Response response = apiClient.get("/users");\<newline>'' @
      ''            \<newline>'' @
      ''            assertThat(response.getStatusCode())\<newline>'' @
      ''                .as("Status code should be 200")\<newline>'' @
      ''                .isEqualTo(200);\<newline>'' @
      ''            \<newline>'' @
      ''            assertThat(response.jsonPath().getList("$"))\<newline>'' @
      ''                .as("Should return a non-empty list")\<newline>'' @
      ''                .isNotEmpty();\<newline>'' @
      ''        }\<newline>'' @
      ''\<newline>'' @
      ''        @Test\<newline>'' @
      ''        @DisplayName("Should return users with correct structure")\<newline>'' @
      ''        public void testUsersHaveCorrectStructure() {\<newline>'' @
      ''            Response response = apiClient.get("/users");\<newline>'' @
      ''            \<newline>'' @
      ''            response.then()\<newline>'' @
      ''                .body("[0].id", notNullValue())\<newline>'' @
      ''                .body("[0].name", notNullValue())\<newline>'' @
      ''                .body("[0].email", notNullValue())\<newline>'' @
      ''                .body("[0].username", notNullValue());\<newline>'' @
      ''        }\<newline>'' @
      ''    }\<newline>'' @
      ''\<newline>'' @
      ''    @Nested\<newline>'' @
      ''    @DisplayName("GET /users/{id}")\<newline>'' @
      ''    class GetUserById {\<newline>'' @
      ''\<newline>'' @
      ''        @Test\<newline>'' @
      ''        @DisplayName("Should return single user by ID")\<newline>'' @
      ''        @Tag("smoke")\<newline>'' @
      ''        public void testGetUserById() {\<newline>'' @
      ''            Response response = apiClient.get("/users/1");\<newline>'' @
      ''            \<newline>'' @
      ''            assertThat(response.getStatusCode()).isEqualTo(200);\<newline>'' @
      ''            assertThat(response.jsonPath().getInt("id")).isEqualTo(1);\<newline>'' @
      ''            assertThat(response.jsonPath().getString("name")).isNotEmpty();\<newline>'' @
      ''            assertThat(response.jsonPath().getString("email")).contains("@");\<newline>'' @
      ''        }\<newline>'' @
      ''\<newline>'' @
      ''        @Test\<newline>'' @
      ''        @DisplayName("Should return 404 for non-existent user")\<newline>'' @
      ''        public void testGetNonExistentUser() {\<newline>'' @
      ''            Response response = apiClient.get("/users/999999");\<newline>'' @
      ''            \<newline>'' @
      ''            assertThat(response.getStatusCode()).isEqualTo(404);\<newline>'' @
      ''        }\<newline>'' @
      ''    }\<newline>'' @
      ''\<newline>'' @
      ''    @Nested\<newline>'' @
      ''    @DisplayName("POST /users")\<newline>'' @
      ''    class CreateUser {\<newline>'' @
      ''\<newline>'' @
      ''        @Test\<newline>'' @
      ''        @DisplayName("Should create new user")\<newline>'' @
      ''        @Tag("smoke")\<newline>'' @
      ''        public void testCreateUser() {\<newline>'' @
      ''            Map<String, Object> newUser = new HashMap<>();\<newline>'' @
      ''            newUser.put("name", "Test User");\<newline>'' @
      ''            newUser.put("username", "testuser");\<newline>'' @
      ''            newUser.put("email", "test@example.com");\<newline>'' @
      ''            newUser.put("phone", "1-234-567-8900");\<newline>'' @
      ''\<newline>'' @
      ''            Response response = apiClient.post("/users", newUser);\<newline>'' @
      ''            \<newline>'' @
      ''            assertThat(response.getStatusCode()).isEqualTo(201);\<newline>'' @
      ''            assertThat(response.jsonPath().getInt("id")).isPositive();\<newline>'' @
      ''            assertThat(response.jsonPath().getString("name")).isEqualTo("Test User");\<newline>'' @
      ''            assertThat(response.jsonPath().getString("email")).isEqualTo("test@example.com");\<newline>'' @
      ''        }\<newline>'' @
      ''\<newline>'' @
      ''        @Test\<newline>'' @
      ''        @DisplayName("Should create user with all fields")\<newline>'' @
      ''        public void testCreateUserWithAllFields() {\<newline>'' @
      ''            Map<String, Object> address = new HashMap<>();\<newline>'' @
      ''            address.put("street", "123 Test St");\<newline>'' @
      ''            address.put("city", "Test City");\<newline>'' @
      ''            address.put("zipcode", "12345");\<newline>'' @
      ''\<newline>'' @
      ''            Map<String, Object> newUser = new HashMap<>();\<newline>'' @
      ''            newUser.put("name", "Complete User");\<newline>'' @
      ''            newUser.put("username", "completeuser");\<newline>'' @
      ''            newUser.put("email", "complete@example.com");\<newline>'' @
      ''            newUser.put("address", address);\<newline>'' @
      ''\<newline>'' @
      ''            Response response = apiClient.post("/users", newUser);\<newline>'' @
      ''            \<newline>'' @
      ''            assertThat(response.getStatusCode()).isEqualTo(201);\<newline>'' @
      ''            assertThat(response.jsonPath().getString("name")).isEqualTo("Complete User");\<newline>'' @
      ''        }\<newline>'' @
      ''    }\<newline>'' @
      ''\<newline>'' @
      ''    @Nested\<newline>'' @
      ''    @DisplayName("PUT /users/{id}")\<newline>'' @
      ''    class UpdateUser {\<newline>'' @
      ''\<newline>'' @
      ''        @Test\<newline>'' @
      ''        @DisplayName("Should update existing user")\<newline>'' @
      ''        public void testUpdateUser() {\<newline>'' @
      ''            Map<String, Object> updatedUser = new HashMap<>();\<newline>'' @
      ''            updatedUser.put("name", "Updated Name");\<newline>'' @
      ''            updatedUser.put("email", "updated@example.com");\<newline>'' @
      ''\<newline>'' @
      ''            Response response = apiClient.put("/users/1", updatedUser);\<newline>'' @
      ''            \<newline>'' @
      ''            assertThat(response.getStatusCode()).isEqualTo(200);\<newline>'' @
      ''            assertThat(response.jsonPath().getString("name")).isEqualTo("Updated Name");\<newline>'' @
      ''        }\<newline>'' @
      ''    }\<newline>'' @
      ''\<newline>'' @
      ''    @Nested\<newline>'' @
      ''    @DisplayName("DELETE /users/{id}")\<newline>'' @
      ''    class DeleteUser {\<newline>'' @
      ''\<newline>'' @
      ''        @Test\<newline>'' @
      ''        @DisplayName("Should delete existing user")\<newline>'' @
      ''        public void testDeleteUser() {\<newline>'' @
      ''            Response response = apiClient.delete("/users/1");\<newline>'' @
      ''            \<newline>'' @
      ''            assertThat(response.getStatusCode()).isEqualTo(200);\<newline>'' @
      ''        }\<newline>'' @
      ''    }\<newline>'' @
      ''}\<newline>''\<close>

definition generateJavaPostsApiTest :: string where
  \<open>generateJavaPostsApiTest =
    ''package com.automation.api;\<newline>'' @
      ''\<newline>'' @
      ''import io.restassured.response.Response;\<newline>'' @
      ''import org.junit.jupiter.api.BeforeEach;\<newline>'' @
      ''import org.junit.jupiter.api.Test;\<newline>'' @
      ''import org.junit.jupiter.api.DisplayName;\<newline>'' @
      ''import org.junit.jupiter.api.Tag;\<newline>'' @
      ''\<newline>'' @
      ''import java.util.HashMap;\<newline>'' @
      ''import java.util.Map;\<newline>'' @
      ''\<newline>'' @
      ''import static org.assertj.core.api.Assertions.*;\<newline>'' @
      ''\<newline>'' @
      ''/**\<newline>'' @
      '' * API tests for Posts endpoints.\<newline>'' @
      '' */\<newline>'' @
      ''@Tag("api")\<newline>'' @
      ''@Tag("posts")\<newline>'' @
      ''public class PostsApiTest {\<newline>'' @
      ''\<newline>'' @
      ''    private BaseApiClient apiClient;\<newline>'' @
      ''\<newline>'' @
      ''    @BeforeEach\<newline>'' @
      ''    public void setUp() {\<newline>'' @
      ''        apiClient = new BaseApiClient();\<newline>'' @
      ''    }\<newline>'' @
      ''\<newline>'' @
      ''    @Test\<newline>'' @
      ''    @DisplayName("GET /posts - Should return list of posts")\<newline>'' @
      ''    @Tag("smoke")\<newline>'' @
      ''    public void testGetAllPosts() {\<newline>'' @
      ''        Response response = apiClient.get("/posts");\<newline>'' @
      ''        \<newline>'' @
      ''        assertThat(response.getStatusCode()).isEqualTo(200);\<newline>'' @
      ''        assertThat(response.jsonPath().getList("$")).hasSizeGreaterThan(0);\<newline>'' @
      ''    }\<newline>'' @
      ''\<newline>'' @
      ''    @Test\<newline>'' @
      ''    @DisplayName("GET /posts/1 - Should return single post")\<newline>'' @
      ''    public void testGetPostById() {\<newline>'' @
      ''        Response response = apiClient.get("/posts/1");\<newline>'' @
      ''        \<newline>'' @
      ''        assertThat(response.getStatusCode()).isEqualTo(200);\<newline>'' @
      ''        assertThat(response.jsonPath().getInt("id")).isEqualTo(1);\<newline>'' @
      ''        assertThat(response.jsonPath().getInt("userId")).isPositive();\<newline>'' @
      ''        assertThat(response.jsonPath().getString("title")).isNotEmpty();\<newline>'' @
      ''        assertThat(response.jsonPath().getString("body")).isNotEmpty();\<newline>'' @
      ''    }\<newline>'' @
      ''\<newline>'' @
      ''    @Test\<newline>'' @
      ''    @DisplayName("GET /posts?userId=1 - Should filter posts by user")\<newline>'' @
      ''    public void testGetPostsByUser() {\<newline>'' @
      ''        Map<String, Integer> params = new HashMap<>();\<newline>'' @
      ''        params.put("userId", 1);\<newline>'' @
      ''        \<newline>'' @
      ''        Response response = apiClient.get("/posts", params);\<newline>'' @
      ''        \<newline>'' @
      ''        assertThat(response.getStatusCode()).isEqualTo(200);\<newline>'' @
      ''        assertThat(response.jsonPath().getList("$")).isNotEmpty();\<newline>'' @
      ''        \<newline>'' @
      ''        // Verify all returned posts belong to userId 1\<newline>'' @
      ''        response.jsonPath().getList("userId", Integer.class)\<newline>'' @
      ''            .forEach(userId -> assertThat(userId).isEqualTo(1));\<newline>'' @
      ''    }\<newline>'' @
      ''\<newline>'' @
      ''    @Test\<newline>'' @
      ''    @DisplayName("POST /posts - Should create new post")\<newline>'' @
      ''    public void testCreatePost() {\<newline>'' @
      ''        Map<String, Object> newPost = new HashMap<>();\<newline>'' @
      ''        newPost.put("title", "Test Post Title");\<newline>'' @
      ''        newPost.put("body", "This is the body of the test post.");\<newline>'' @
      ''        newPost.put("userId", 1);\<newline>'' @
      ''\<newline>'' @
      ''        Response response = apiClient.post("/posts", newPost);\<newline>'' @
      ''        \<newline>'' @
      ''        assertThat(response.getStatusCode()).isEqualTo(201);\<newline>'' @
      ''        assertThat(response.jsonPath().getInt("id")).isPositive();\<newline>'' @
      ''        assertThat(response.jsonPath().getString("title")).isEqualTo("Test Post Title");\<newline>'' @
      ''    }\<newline>'' @
      ''}\<newline>''\<close>

definition generateJavaConfigProperties :: string where
  \<open>generateJavaConfigProperties =
    ''# ============================================\<newline>'' @
      ''# Test Configuration Properties\<newline>'' @
      ''# ============================================\<newline>'' @
      ''\<newline>'' @
      ''# Base URLs\<newline>'' @
      ''baseUrl=https://example.com\<newline>'' @
      ''apiBaseUrl=https://api.example.com\<newline>'' @
      ''\<newline>'' @
      ''# Browser Configuration\<newline>'' @
      ''browser=chrome\<newline>'' @
      ''headless=true\<newline>'' @
      ''\<newline>'' @
      ''# Timeouts (in seconds)\<newline>'' @
      ''implicitWait=10\<newline>'' @
      ''pageLoadTimeout=30\<newline>'' @
      ''scriptTimeout=30\<newline>'' @
      ''\<newline>'' @
      ''# Test Credentials (override with environment variables in CI)\<newline>'' @
      ''testUsername=test@example.com\<newline>'' @
      ''testPassword=password123\<newline>'' @
      ''\<newline>'' @
      ''# Retry Configuration\<newline>'' @
      ''maxRetries=2\<newline>'' @
      ''retryDelayMs=1000\<newline>''\<close>

definition generateJavaLog4j :: string where
  \<open>generateJavaLog4j =
    ''<?xml version="1.0" encoding="UTF-8"?>\<newline>'' @
      ''<Configuration status="WARN">\<newline>'' @
      ''    <Properties>\<newline>'' @
      ''        <Property name="LOG_PATTERN">%d{yyyy-MM-dd HH:mm:ss.SSS} [%t] %-5level %logger{36} - %msg%n</Property>\<newline>'' @
      ''        <Property name="LOG_DIR">target/logs</Property>\<newline>'' @
      ''    </Properties>\<newline>'' @
      ''\<newline>'' @
      ''    <Appenders>\<newline>'' @
      ''        <!-- Console Appender -->\<newline>'' @
      ''        <Console name="Console" target="SYSTEM_OUT">\<newline>'' @
      ''            <PatternLayout pattern="${LOG_PATTERN}"/>\<newline>'' @
      ''        </Console>\<newline>'' @
      ''\<newline>'' @
      ''        <!-- File Appender -->\<newline>'' @
      ''        <RollingFile name="FileAppender" \<newline>'' @
      ''                     fileName="${LOG_DIR}/test-automation.log"\<newline>'' @
      ''                     filePattern="${LOG_DIR}/test-automation-%d{yyyy-MM-dd}-%i.log.gz">\<newline>'' @
      ''            <PatternLayout pattern="${LOG_PATTERN}"/>\<newline>'' @
      ''            <Policies>\<newline>'' @
      ''                <TimeBasedTriggeringPolicy interval="1"/>\<newline>'' @
      ''                <SizeBasedTriggeringPolicy size="10MB"/>\<newline>'' @
      ''            </Policies>\<newline>'' @
      ''            <DefaultRolloverStrategy max="10"/>\<newline>'' @
      ''        </RollingFile>\<newline>'' @
      ''    </Appenders>\<newline>'' @
      ''\<newline>'' @
      ''    <Loggers>\<newline>'' @
      ''        <!-- Application Logger -->\<newline>'' @
      ''        <Logger name="com.automation" level="DEBUG" additivity="false">\<newline>'' @
      ''            <AppenderRef ref="Console"/>\<newline>'' @
      ''            <AppenderRef ref="FileAppender"/>\<newline>'' @
      ''        </Logger>\<newline>'' @
      ''\<newline>'' @
      ''        <!-- Selenium Logger - reduce noise -->\<newline>'' @
      ''        <Logger name="org.openqa.selenium" level="WARN"/>\<newline>'' @
      ''        \<newline>'' @
      ''        <!-- REST Assured Logger -->\<newline>'' @
      ''        <Logger name="io.restassured" level="WARN"/>\<newline>'' @
      ''\<newline>'' @
      ''        <!-- Root Logger -->\<newline>'' @
      ''        <Root level="INFO">\<newline>'' @
      ''            <AppenderRef ref="Console"/>\<newline>'' @
      ''            <AppenderRef ref="FileAppender"/>\<newline>'' @
      ''        </Root>\<newline>'' @
      ''    </Loggers>\<newline>'' @
      ''</Configuration>\<newline>''\<close>

definition generateJavaTestUtils :: string where
  \<open>generateJavaTestUtils =
    ''package com.automation.utils;\<newline>'' @
      ''\<newline>'' @
      ''import org.openqa.selenium.OutputType;\<newline>'' @
      ''import org.openqa.selenium.TakesScreenshot;\<newline>'' @
      ''import org.openqa.selenium.WebDriver;\<newline>'' @
      ''import org.apache.logging.log4j.LogManager;\<newline>'' @
      ''import org.apache.logging.log4j.Logger;\<newline>'' @
      ''\<newline>'' @
      ''import java.io.File;\<newline>'' @
      ''import java.io.IOException;\<newline>'' @
      ''import java.nio.file.Files;\<newline>'' @
      ''import java.nio.file.Path;\<newline>'' @
      ''import java.nio.file.Paths;\<newline>'' @
      ''import java.time.LocalDateTime;\<newline>'' @
      ''import java.time.format.DateTimeFormatter;\<newline>'' @
      ''import java.util.Random;\<newline>'' @
      ''\<newline>'' @
      ''/**\<newline>'' @
      '' * Utility class providing common test helper methods.\<newline>'' @
      '' */\<newline>'' @
      ''public class TestUtils {\<newline>'' @
      ''\<newline>'' @
      ''    private static final Logger logger = LogManager.getLogger(TestUtils.class);\<newline>'' @
      ''    private static final Random random = new Random();\<newline>'' @
      ''\<newline>'' @
      ''    private TestUtils() {\<newline>'' @
      ''        // Prevent instantiation\<newline>'' @
      ''    }\<newline>'' @
      ''\<newline>'' @
      ''    /**\<newline>'' @
      ''     * Take a screenshot and save to specified directory.\<newline>'' @
      ''     */\<newline>'' @
      ''    public static String takeScreenshot(WebDriver driver, String testName) {\<newline>'' @
      ''        try {\<newline>'' @
      ''            File screenshot = ((TakesScreenshot) driver).getScreenshotAs(OutputType.FILE);\<newline>'' @
      ''            String timestamp = LocalDateTime.now().format(DateTimeFormatter.ofPattern("yyyyMMdd_HHmmss"));\<newline>'' @
      ''            String fileName = String.format("%s_%s.png", testName, timestamp);\<newline>'' @
      ''            \<newline>'' @
      ''            Path screenshotDir = Paths.get("target", "screenshots");\<newline>'' @
      ''            Files.createDirectories(screenshotDir);\<newline>'' @
      ''            \<newline>'' @
      ''            Path destination = screenshotDir.resolve(fileName);\<newline>'' @
      ''            Files.copy(screenshot.toPath(), destination);\<newline>'' @
      ''            \<newline>'' @
      ''            logger.info("Screenshot saved: {}", destination);\<newline>'' @
      ''            return destination.toString();\<newline>'' @
      ''        } catch (IOException e) {\<newline>'' @
      ''            logger.error("Failed to save screenshot: {}", e.getMessage());\<newline>'' @
      ''            return null;\<newline>'' @
      ''        }\<newline>'' @
      ''    }\<newline>'' @
      ''\<newline>'' @
      ''    /**\<newline>'' @
      ''     * Generate a random email address.\<newline>'' @
      ''     */\<newline>'' @
      ''    public static String generateRandomEmail() {\<newline>'' @
      ''        return String.format("test.%d@example.com", System.currentTimeMillis());\<newline>'' @
      ''    }\<newline>'' @
      ''\<newline>'' @
      ''    /**\<newline>'' @
      ''     * Generate a random string of specified length.\<newline>'' @
      ''     */\<newline>'' @
      ''    public static String generateRandomString(int length) {\<newline>'' @
      ''        String chars = "abcdefghijklmnopqrstuvwxyz0123456789";\<newline>'' @
      ''        StringBuilder sb = new StringBuilder(length);\<newline>'' @
      ''        for (int i = 0; i < length; i++) {\<newline>'' @
      ''            sb.append(chars.charAt(random.nextInt(chars.length())));\<newline>'' @
      ''        }\<newline>'' @
      ''        return sb.toString();\<newline>'' @
      ''    }\<newline>'' @
      ''\<newline>'' @
      ''    /**\<newline>'' @
      ''     * Wait for specified milliseconds.\<newline>'' @
      ''     */\<newline>'' @
      ''    public static void sleep(long milliseconds) {\<newline>'' @
      ''        try {\<newline>'' @
      ''            Thread.sleep(milliseconds);\<newline>'' @
      ''        } catch (InterruptedException e) {\<newline>'' @
      ''            Thread.currentThread().interrupt();\<newline>'' @
      ''        }\<newline>'' @
      ''    }\<newline>'' @
      ''\<newline>'' @
      ''    /**\<newline>'' @
      ''     * Get current timestamp as formatted string.\<newline>'' @
      ''     */\<newline>'' @
      ''    public static String getTimestamp() {\<newline>'' @
      ''        return LocalDateTime.now().format(DateTimeFormatter.ofPattern("yyyy-MM-dd HH:mm:ss"));\<newline>'' @
      ''    }\<newline>'' @
      ''}\<newline>''\<close>

definition generatePythonPyprojectToml :: "ProjectConfig \<Rightarrow> string" where
  \<open>generatePythonPyprojectToml config =
    (let isSelenium = (uiFramework config = Some Selenium)
     in ''[tool.poetry]\<newline>'' @
      ''name = "'' @ (projectName config) @ ''"\<newline>'' @
      ''version = "1.0.0"\<newline>'' @
      ''description = "'' @ (str_or (description config) (''Automation test framework'')) @ ''"\<newline>'' @
      ''authors = ["'' @ (str_or (author config) (''Test Automation Team'')) @ ''"]\<newline>'' @
      ''readme = "README.md"\<newline>'' @
      ''\<newline>'' @
      ''[tool.poetry.dependencies]\<newline>'' @
      ''python = "^3.9"\<newline>'' @
      ''pytest = "^7.4.0"\<newline>'' @
      ''pytest-html = "^4.1.0"\<newline>'' @
      ''pytest-xdist = "^3.5.0"\<newline>'' @
      ''python-dotenv = "^1.0.0"\<newline>'' @
      ''requests = "^2.31.0"\<newline>'' @
      (if includeUI config then (if isSelenium then ''selenium = "^4.15.0"\<newline>'' @
            ''webdriver-manager = "^4.0.0"''
         else ''playwright = "^1.40.0"'')
       else '''') @ ''\<newline>'' @
      ''\<newline>'' @
      ''[tool.poetry.group.dev.dependencies]\<newline>'' @
      ''black = "^23.0.0"\<newline>'' @
      ''flake8 = "^6.0.0"\<newline>'' @
      ''mypy = "^1.7.0"\<newline>'' @
      ''\<newline>'' @
      ''[build-system]\<newline>'' @
      ''requires = ["poetry-core"]\<newline>'' @
      ''build-backend = "poetry.core.masonry.api"\<newline>'' @
      ''\<newline>'' @
      ''[tool.pytest.ini_options]\<newline>'' @
      ''testpaths = ["tests"]\<newline>'' @
      ''python_files = ["test_*.py"]\<newline>'' @
      ''python_classes = ["Test*"]\<newline>'' @
      ''python_functions = ["test_*"]\<newline>'' @
      ''addopts = "-v --tb=short"\<newline>'' @
      ''markers = [\<newline>'' @
      ''    "ui: UI tests",\<newline>'' @
      ''    "api: API tests",\<newline>'' @
      ''    "smoke: Smoke tests",\<newline>'' @
      '']\<newline>'')\<close>

definition generatePythonRequirements :: "ProjectConfig \<Rightarrow> string" where
  \<open>generatePythonRequirements config =
    (let isSelenium = (uiFramework config = Some Selenium)
     in ''# Core Testing\<newline>'' @
      ''pytest>=7.4.0\<newline>'' @
      ''pytest-html>=4.1.0\<newline>'' @
      ''pytest-xdist>=3.5.0\<newline>'' @
      ''\<newline>'' @
      ''# Environment\<newline>'' @
      ''python-dotenv>=1.0.0\<newline>'' @
      ''\<newline>'' @
      ''# API Testing\<newline>'' @
      ''requests>=2.31.0\<newline>'' @
      ''\<newline>'' @
      (if includeUI config then (if isSelenium then ''# UI Testing (Selenium)\<newline>'' @
            ''selenium>=4.15.0\<newline>'' @
            ''webdriver-manager>=4.0.0''
         else ''# UI Testing (Playwright)\<newline>'' @
            ''playwright>=1.40.0'')
       else '''') @ ''\<newline>'' @
      ''\<newline>'' @
      ''# Utilities\<newline>'' @
      ''Faker>=22.0.0\<newline>'' @
      ''\<newline>'' @
      ''# Linting/Formatting (dev)\<newline>'' @
      ''black>=23.0.0\<newline>'' @
      ''flake8>=6.0.0\<newline>'' @
      ''mypy>=1.7.0\<newline>'')\<close>

definition generatePythonPytestIni :: string where
  \<open>generatePythonPytestIni =
    ''[pytest]\<newline>'' @
      ''testpaths = tests\<newline>'' @
      ''python_files = test_*.py\<newline>'' @
      ''python_classes = Test*\<newline>'' @
      ''python_functions = test_*\<newline>'' @
      ''addopts = -v --tb=short --html=reports/report.html --self-contained-html\<newline>'' @
      ''markers =\<newline>'' @
      ''    ui: UI tests\<newline>'' @
      ''    api: API tests  \<newline>'' @
      ''    smoke: Smoke tests\<newline>'' @
      ''    regression: Regression tests\<newline>'' @
      ''filterwarnings =\<newline>'' @
      ''    ignore::DeprecationWarning\<newline>''\<close>

definition generatePythonConftest :: "ProjectConfig \<Rightarrow> string" where
  \<open>generatePythonConftest config =
    (let isSelenium = (uiFramework config = Some Selenium)
     in (if isSelenium \<and> includeUI config then
       ''"""\<newline>'' @
         ''Pytest configuration and fixtures for Selenium.\<newline>'' @
         ''"""\<newline>'' @
         ''import pytest\<newline>'' @
         ''import os\<newline>'' @
         ''from dotenv import load_dotenv\<newline>'' @
         ''from selenium import webdriver\<newline>'' @
         ''from selenium.webdriver.chrome.service import Service\<newline>'' @
         ''from selenium.webdriver.chrome.options import Options\<newline>'' @
         ''from webdriver_manager.chrome import ChromeDriverManager\<newline>'' @
         ''\<newline>'' @
         ''# Load environment variables\<newline>'' @
         ''load_dotenv()\<newline>'' @
         ''\<newline>'' @
         ''\<newline>'' @
         ''def pytest_configure(config):\<newline>'' @
         ''    """Configure pytest with custom markers and settings."""\<newline>'' @
         ''    config.addinivalue_line("markers", "ui: UI tests")\<newline>'' @
         ''    config.addinivalue_line("markers", "api: API tests")\<newline>'' @
         ''    config.addinivalue_line("markers", "smoke: Smoke tests")\<newline>'' @
         ''    config.addinivalue_line("markers", "regression: Regression tests")\<newline>'' @
         ''\<newline>'' @
         ''\<newline>'' @
         ''def pytest_html_report_title(report):\<newline>'' @
         ''    """Customize HTML report title."""\<newline>'' @
         ''    report.title = "'' @ (projectName config) @ '' Test Report"\<newline>'' @
         ''\<newline>'' @
         ''\<newline>'' @
         ''@pytest.fixture(scope="session")\<newline>'' @
         ''def base_url():\<newline>'' @
         ''    """Get base URL from environment."""\<newline>'' @
         ''    return os.getenv("BASE_URL", "https://example.com")\<newline>'' @
         ''\<newline>'' @
         ''\<newline>'' @
         ''@pytest.fixture(scope="session")\<newline>'' @
         ''def api_base_url():\<newline>'' @
         ''    """Get API base URL from environment."""\<newline>'' @
         ''    return os.getenv("API_BASE_URL", "https://jsonplaceholder.typicode.com")\<newline>'' @
         ''\<newline>'' @
         ''\<newline>'' @
         ''@pytest.fixture(scope="function")\<newline>'' @
         ''def driver(base_url):\<newline>'' @
         ''    """Create WebDriver instance for each test."""\<newline>'' @
         ''    chrome_options = Options()\<newline>'' @
         ''    \<newline>'' @
         ''    if os.getenv("HEADLESS", "true").lower() == "true":\<newline>'' @
         ''        chrome_options.add_argument("--headless=new")\<newline>'' @
         ''    \<newline>'' @
         ''    chrome_options.add_argument("--no-sandbox")\<newline>'' @
         ''    chrome_options.add_argument("--disable-dev-shm-usage")\<newline>'' @
         ''    chrome_options.add_argument("--window-size=1920,1080")\<newline>'' @
         ''    \<newline>'' @
         ''    service = Service(ChromeDriverManager().install())\<newline>'' @
         ''    driver = webdriver.Chrome(service=service, options=chrome_options)\<newline>'' @
         ''    driver.implicitly_wait(10)\<newline>'' @
         ''    driver.get(base_url)\<newline>'' @
         ''    \<newline>'' @
         ''    yield driver\<newline>'' @
         ''    \<newline>'' @
         ''    driver.quit()\<newline>'' @
         ''\<newline>'' @
         ''\<newline>'' @
         ''@pytest.fixture(scope="session")\<newline>'' @
         ''def api_session():\<newline>'' @
         ''    """Create requests session for API tests."""\<newline>'' @
         ''    import requests\<newline>'' @
         ''    session = requests.Session()\<newline>'' @
         ''    session.headers.update({\<newline>'' @
         ''        "Content-Type": "application/json",\<newline>'' @
         ''        "Accept": "application/json",\<newline>'' @
         ''    })\<newline>'' @
         ''    yield session\<newline>'' @
         ''    session.close()\<newline>''
     else
       ''"""\<newline>'' @
         ''Pytest configuration and fixtures.\<newline>'' @
         ''"""\<newline>'' @
         ''import pytest\<newline>'' @
         ''import os\<newline>'' @
         ''from dotenv import load_dotenv\<newline>'' @
         (if includeUI config then ''from playwright.sync_api import sync_playwright, Browser, Page, BrowserContext''
          else '''') @ ''\<newline>'' @
         ''\<newline>'' @
         ''# Load environment variables\<newline>'' @
         ''load_dotenv()\<newline>'' @
         ''\<newline>'' @
         ''\<newline>'' @
         ''def pytest_configure(config):\<newline>'' @
         ''    """Configure pytest with custom markers and settings."""\<newline>'' @
         ''    config.addinivalue_line("markers", "ui: UI tests")\<newline>'' @
         ''    config.addinivalue_line("markers", "api: API tests")\<newline>'' @
         ''    config.addinivalue_line("markers", "smoke: Smoke tests")\<newline>'' @
         ''    config.addinivalue_line("markers", "regression: Regression tests")\<newline>'' @
         ''\<newline>'' @
         ''\<newline>'' @
         ''def pytest_html_report_title(report):\<newline>'' @
         ''    """Customize HTML report title."""\<newline>'' @
         ''    report.title = "'' @ (projectName config) @ '' Test Report"\<newline>'' @
         ''\<newline>'' @
         ''\<newline>'' @
         ''@pytest.fixture(scope="session")\<newline>'' @
         ''def base_url():\<newline>'' @
         ''    """Get base URL from environment."""\<newline>'' @
         ''    return os.getenv("BASE_URL", "https://example.com")\<newline>'' @
         ''\<newline>'' @
         ''\<newline>'' @
         ''@pytest.fixture(scope="session")\<newline>'' @
         ''def api_base_url():\<newline>'' @
         ''    """Get API base URL from environment."""\<newline>'' @
         ''    return os.getenv("API_BASE_URL", "https://jsonplaceholder.typicode.com")\<newline>'' @
         ''\<newline>'' @
         (if includeUI config then ''\<newline>'' @
             ''@pytest.fixture(scope="session")\<newline>'' @
             ''def browser():\<newline>'' @
             ''    """Create browser instance for the test session."""\<newline>'' @
             ''    with sync_playwright() as p:\<newline>'' @
             ''        browser = p.chromium.launch(\<newline>'' @
             ''            headless=os.getenv("HEADLESS", "true").lower() == "true"\<newline>'' @
             ''        )\<newline>'' @
             ''        yield browser\<newline>'' @
             ''        browser.close()\<newline>'' @
             ''\<newline>'' @
             ''\<newline>'' @
             ''@pytest.fixture(scope="function")\<newline>'' @
             ''def context(browser: Browser):\<newline>'' @
             ''    """Create new browser context for each test."""\<newline>'' @
             ''    context = browser.new_context(\<newline>'' @
             ''        viewport={"width": 1920, "height": 1080},\<newline>'' @
             ''        record_video_dir="test-results/videos" if os.getenv("RECORD_VIDEO") else None,\<newline>'' @
             ''    )\<newline>'' @
             ''    yield context\<newline>'' @
             ''    context.close()\<newline>'' @
             ''\<newline>'' @
             ''\<newline>'' @
             ''@pytest.fixture(scope="function")\<newline>'' @
             ''def page(context: BrowserContext, base_url: str):\<newline>'' @
             ''    """Create new page for each test."""\<newline>'' @
             ''    page = context.new_page()\<newline>'' @
             ''    page.set_default_timeout(30000)\<newline>'' @
             ''    page.goto(base_url)\<newline>'' @
             ''    yield page\<newline>'' @
             ''    page.close()\<newline>''
          else '''') @ ''\<newline>'' @
         ''\<newline>'' @
         ''@pytest.fixture(scope="session")\<newline>'' @
         ''def api_session():\<newline>'' @
         ''    """Create requests session for API tests."""\<newline>'' @
         ''    import requests\<newline>'' @
         ''    session = requests.Session()\<newline>'' @
         ''    session.headers.update({\<newline>'' @
         ''        "Content-Type": "application/json",\<newline>'' @
         ''        "Accept": "application/json",\<newline>'' @
         ''    })\<newline>'' @
         ''    yield session\<newline>'' @
         ''    session.close()\<newline>''))\<close>

definition generatePythonConfig :: string where
  \<open>generatePythonConfig =
    ''"""\<newline>'' @
      ''Configuration management module.\<newline>'' @
      ''"""\<newline>'' @
      ''import os\<newline>'' @
      ''from dataclasses import dataclass\<newline>'' @
      ''from typing import Optional\<newline>'' @
      ''from dotenv import load_dotenv\<newline>'' @
      ''\<newline>'' @
      ''load_dotenv()\<newline>'' @
      ''\<newline>'' @
      ''\<newline>'' @
      ''@dataclass\<newline>'' @
      ''class Config:\<newline>'' @
      ''    """Test configuration settings."""\<newline>'' @
      ''    base_url: str\<newline>'' @
      ''    api_base_url: str\<newline>'' @
      ''    timeout: int\<newline>'' @
      ''    headless: bool\<newline>'' @
      ''    browser: str\<newline>'' @
      ''    retries: int\<newline>'' @
      ''    \<newline>'' @
      ''    @classmethod\<newline>'' @
      ''    def from_env(cls, env: str = "dev") -> "Config":\<newline>'' @
      ''        """Load configuration from environment variables."""\<newline>'' @
      ''        return cls(\<newline>'' @
      ''            base_url=os.getenv("BASE_URL", "https://example.com"),\<newline>'' @
      ''            api_base_url=os.getenv("API_BASE_URL", "https://api.example.com"),\<newline>'' @
      ''            timeout=int(os.getenv("TIMEOUT", "30000")),\<newline>'' @
      ''            headless=os.getenv("HEADLESS", "true").lower() == "true",\<newline>'' @
      ''            browser=os.getenv("BROWSER", "chromium"),\<newline>'' @
      ''            retries=int(os.getenv("RETRIES", "0")),\<newline>'' @
      ''        )\<newline>'' @
      ''\<newline>'' @
      ''\<newline>'' @
      ''# Default config instance\<newline>'' @
      ''config = Config.from_env()\<newline>'' @
      ''\<newline>'' @
      ''\<newline>'' @
      ''def get_config(env: Optional[str] = None) -> Config:\<newline>'' @
      ''    """Get configuration for specified environment."""\<newline>'' @
      ''    return Config.from_env(env or os.getenv("ENV", "dev"))\<newline>''\<close>

definition generatePythonBasePage :: "ProjectConfig \<Rightarrow> string" where
  \<open>generatePythonBasePage config =
    (let isSelenium = (uiFramework config = Some Selenium)
     in (if isSelenium then
       ''"""\<newline>'' @
         ''Base page object class providing common web interactions for Selenium.\<newline>'' @
         ''"""\<newline>'' @
         ''from selenium.webdriver.remote.webdriver import WebDriver\<newline>'' @
         ''from selenium.webdriver.remote.webelement import WebElement\<newline>'' @
         ''from selenium.webdriver.common.by import By\<newline>'' @
         ''from selenium.webdriver.support.ui import WebDriverWait\<newline>'' @
         ''from selenium.webdriver.support import expected_conditions as EC\<newline>'' @
         ''from selenium.webdriver.support.ui import Select\<newline>'' @
         ''from typing import Optional, List\<newline>'' @
         ''import logging\<newline>'' @
         ''\<newline>'' @
         ''logger = logging.getLogger(__name__)\<newline>'' @
         ''\<newline>'' @
         ''\<newline>'' @
         ''class BasePage:\<newline>'' @
         ''    """\<newline>'' @
         ''    Base page object class for Selenium.\<newline>'' @
         ''    All page objects should inherit from this class.\<newline>'' @
         ''    """\<newline>'' @
         ''\<newline>'' @
         ''    def __init__(self, driver: WebDriver):\<newline>'' @
         ''        self.driver = driver\<newline>'' @
         ''        self.wait = WebDriverWait(driver, 10)\<newline>'' @
         ''\<newline>'' @
         ''    # ============ Navigation ============\<newline>'' @
         ''\<newline>'' @
         ''    def navigate(self, url: str) -> None:\<newline>'' @
         ''        """Navigate to a URL."""\<newline>'' @
         ''        logger.info(f"Navigating to: {url}")\<newline>'' @
         ''        self.driver.get(url)\<newline>'' @
         ''\<newline>'' @
         ''    def get_current_url(self) -> str:\<newline>'' @
         ''        """Get current page URL."""\<newline>'' @
         ''        return self.driver.current_url\<newline>'' @
         ''\<newline>'' @
         ''    def reload(self) -> None:\<newline>'' @
         ''        """Reload the current page."""\<newline>'' @
         ''        self.driver.refresh()\<newline>'' @
         ''\<newline>'' @
         ''    # ============ Wait Methods ============\<newline>'' @
         ''\<newline>'' @
         ''    def wait_for_element(self, locator: tuple, timeout: int = 10) -> WebElement:\<newline>'' @
         ''        """Wait for element to be visible."""\<newline>'' @
         ''        wait = WebDriverWait(self.driver, timeout)\<newline>'' @
         ''        return wait.until(EC.visibility_of_element_located(locator))\<newline>'' @
         ''\<newline>'' @
         ''    def wait_for_clickable(self, locator: tuple, timeout: int = 10) -> WebElement:\<newline>'' @
         ''        """Wait for element to be clickable."""\<newline>'' @
         ''        wait = WebDriverWait(self.driver, timeout)\<newline>'' @
         ''        return wait.until(EC.element_to_be_clickable(locator))\<newline>'' @
         ''\<newline>'' @
         ''    def wait_for_url_contains(self, text: str, timeout: int = 10) -> bool:\<newline>'' @
         ''        """Wait for URL to contain text."""\<newline>'' @
         ''        wait = WebDriverWait(self.driver, timeout)\<newline>'' @
         ''        return wait.until(EC.url_contains(text))\<newline>'' @
         ''\<newline>'' @
         ''    # ============ Interaction Methods ============\<newline>'' @
         ''\<newline>'' @
         ''    def click(self, locator: tuple) -> None:\<newline>'' @
         ''        """Click on an element."""\<newline>'' @
         ''        logger.debug(f"Clicking: {locator}")\<newline>'' @
         ''        element = self.wait_for_clickable(locator)\<newline>'' @
         ''        element.click()\<newline>'' @
         ''\<newline>'' @
         ''    def fill(self, locator: tuple, text: str) -> None:\<newline>'' @
         ''        """Fill text into an input field."""\<newline>'' @
         ''        logger.debug(f"Filling \'{text}\' into: {locator}")\<newline>'' @
         ''        element = self.wait_for_element(locator)\<newline>'' @
         ''        element.clear()\<newline>'' @
         ''        element.send_keys(text)\<newline>'' @
         ''\<newline>'' @
         ''    def clear(self, locator: tuple) -> None:\<newline>'' @
         ''        """Clear an input field."""\<newline>'' @
         ''        element = self.wait_for_element(locator)\<newline>'' @
         ''        element.clear()\<newline>'' @
         ''\<newline>'' @
         ''    def select_option(self, locator: tuple, value: str) -> None:\<newline>'' @
         ''        """Select option from dropdown by value."""\<newline>'' @
         ''        element = self.wait_for_element(locator)\<newline>'' @
         ''        Select(element).select_by_value(value)\<newline>'' @
         ''\<newline>'' @
         ''    # ============ Element State ============\<newline>'' @
         ''\<newline>'' @
         ''    def is_visible(self, locator: tuple) -> bool:\<newline>'' @
         ''        """Check if element is visible."""\<newline>'' @
         ''        try:\<newline>'' @
         ''            element = self.driver.find_element(*locator)\<newline>'' @
         ''            return element.is_displayed()\<newline>'' @
         ''        except Exception:\<newline>'' @
         ''            return False\<newline>'' @
         ''\<newline>'' @
         ''    def is_enabled(self, locator: tuple) -> bool:\<newline>'' @
         ''        """Check if element is enabled."""\<newline>'' @
         ''        try:\<newline>'' @
         ''            element = self.driver.find_element(*locator)\<newline>'' @
         ''            return element.is_enabled()\<newline>'' @
         ''        except Exception:\<newline>'' @
         ''            return False\<newline>'' @
         ''\<newline>'' @
         ''    def get_text(self, locator: tuple) -> str:\<newline>'' @
         ''        """Get text content of element."""\<newline>'' @
         ''        element = self.wait_for_element(locator)\<newline>'' @
         ''        return element.text\<newline>'' @
         ''\<newline>'' @
         ''    def get_attribute(self, locator: tuple, attribute: str) -> Optional[str]:\<newline>'' @
         ''        """Get attribute value of element."""\<newline>'' @
         ''        element = self.wait_for_element(locator)\<newline>'' @
         ''        return element.get_attribute(attribute)\<newline>'' @
         ''\<newline>'' @
         ''    # ============ Screenshots ============\<newline>'' @
         ''\<newline>'' @
         ''    def take_screenshot(self, name: str) -> bool:\<newline>'' @
         ''        """Take a screenshot."""\<newline>'' @
         ''        return self.driver.save_screenshot(f"screenshots/{name}.png")\<newline>''
     else
       ''"""\<newline>'' @
         ''Base page object class providing common web interactions.\<newline>'' @
         ''"""\<newline>'' @
         ''from playwright.sync_api import Page, Locator, expect\<newline>'' @
         ''from typing import Optional\<newline>'' @
         ''import logging\<newline>'' @
         ''\<newline>'' @
         ''logger = logging.getLogger(__name__)\<newline>'' @
         ''\<newline>'' @
         ''\<newline>'' @
         ''class BasePage:\<newline>'' @
         ''    """\<newline>'' @
         ''    Base page object class.\<newline>'' @
         ''    All page objects should inherit from this class.\<newline>'' @
         ''    """\<newline>'' @
         ''\<newline>'' @
         ''    def __init__(self, page: Page):\<newline>'' @
         ''        self.page = page\<newline>'' @
         ''\<newline>'' @
         ''    # ============ Navigation ============\<newline>'' @
         ''\<newline>'' @
         ''    def navigate(self, path: str = "/") -> None:\<newline>'' @
         ''        """Navigate to a specific path."""\<newline>'' @
         ''        logger.info(f"Navigating to: {path}")\<newline>'' @
         ''        self.page.goto(path)\<newline>'' @
         ''\<newline>'' @
         ''    def get_current_url(self) -> str:\<newline>'' @
         ''        """Get current page URL."""\<newline>'' @
         ''        return self.page.url\<newline>'' @
         ''\<newline>'' @
         ''    def reload(self) -> None:\<newline>'' @
         ''        """Reload the current page."""\<newline>'' @
         ''        self.page.reload()\<newline>'' @
         ''\<newline>'' @
         ''    # ============ Wait Methods ============\<newline>'' @
         ''\<newline>'' @
         ''    def wait_for_element(self, selector: str, timeout: int = 10000) -> Locator:\<newline>'' @
         ''        """Wait for element to be visible."""\<newline>'' @
         ''        locator = self.page.locator(selector)\<newline>'' @
         ''        locator.wait_for(state="visible", timeout=timeout)\<newline>'' @
         ''        return locator\<newline>'' @
         ''\<newline>'' @
         ''    def wait_for_url(self, url_pattern: str, timeout: int = 10000) -> None:\<newline>'' @
         ''        """Wait for URL to match pattern."""\<newline>'' @
         ''        self.page.wait_for_url(url_pattern, timeout=timeout)\<newline>'' @
         ''\<newline>'' @
         ''    def wait_for_load_state(self, state: str = "networkidle") -> None:\<newline>'' @
         ''        """Wait for page load state."""\<newline>'' @
         ''        self.page.wait_for_load_state(state)\<newline>'' @
         ''\<newline>'' @
         ''    # ============ Interaction Methods ============\<newline>'' @
         ''\<newline>'' @
         ''    def click(self, selector: str) -> None:\<newline>'' @
         ''        """Click on an element."""\<newline>'' @
         ''        logger.debug(f"Clicking: {selector}")\<newline>'' @
         ''        self.page.click(selector)\<newline>'' @
         ''\<newline>'' @
         ''    def fill(self, selector: str, text: str) -> None:\<newline>'' @
         ''        """Fill text into an input field."""\<newline>'' @
         ''        logger.debug(f"Filling \'{text}\' into: {selector}")\<newline>'' @
         ''        self.page.fill(selector, text)\<newline>'' @
         ''\<newline>'' @
         ''    def type_text(self, selector: str, text: str, delay: int = 50) -> None:\<newline>'' @
         ''        """Type text character by character."""\<newline>'' @
         ''        self.page.type(selector, text, delay=delay)\<newline>'' @
         ''\<newline>'' @
         ''    def clear(self, selector: str) -> None:\<newline>'' @
         ''        """Clear an input field."""\<newline>'' @
         ''        self.page.fill(selector, "")\<newline>'' @
         ''\<newline>'' @
         ''    def select_option(self, selector: str, value: str) -> None:\<newline>'' @
         ''        """Select option from dropdown."""\<newline>'' @
         ''        self.page.select_option(selector, value)\<newline>'' @
         ''\<newline>'' @
         ''    def check(self, selector: str) -> None:\<newline>'' @
         ''        """Check a checkbox."""\<newline>'' @
         ''        self.page.check(selector)\<newline>'' @
         ''\<newline>'' @
         ''    def uncheck(self, selector: str) -> None:\<newline>'' @
         ''        """Uncheck a checkbox."""\<newline>'' @
         ''        self.page.uncheck(selector)\<newline>'' @
         ''\<newline>'' @
         ''    # ============ Element State ============\<newline>'' @
         ''\<newline>'' @
         ''    def is_visible(self, selector: str) -> bool:\<newline>'' @
         ''        """Check if element is visible."""\<newline>'' @
         ''        return self.page.locator(selector).is_visible()\<newline>'' @
         ''\<newline>'' @
         ''    def is_enabled(self, selector: str) -> bool:\<newline>'' @
         ''        """Check if element is enabled."""\<newline>'' @
         ''        return self.page.locator(selector).is_enabled()\<newline>'' @
         ''\<newline>'' @
         ''    def get_text(self, selector: str) -> str:\<newline>'' @
         ''        """Get text content of element."""\<newline>'' @
         ''        return self.page.locator(selector).text_content() or ""\<newline>'' @
         ''\<newline>'' @
         ''    def get_input_value(self, selector: str) -> str:\<newline>'' @
         ''        """Get value of input field."""\<newline>'' @
         ''        return self.page.locator(selector).input_value()\<newline>'' @
         ''\<newline>'' @
         ''    def get_attribute(self, selector: str, attribute: str) -> Optional[str]:\<newline>'' @
         ''        """Get attribute value of element."""\<newline>'' @
         ''        return self.page.locator(selector).get_attribute(attribute)\<newline>'' @
         ''\<newline>'' @
         ''    # ============ Assertions ============\<newline>'' @
         ''\<newline>'' @
         ''    def expect_visible(self, selector: str) -> None:\<newline>'' @
         ''        """Assert element is visible."""\<newline>'' @
         ''        expect(self.page.locator(selector)).to_be_visible()\<newline>'' @
         ''\<newline>'' @
         ''    def expect_hidden(self, selector: str) -> None:\<newline>'' @
         ''        """Assert element is hidden."""\<newline>'' @
         ''        expect(self.page.locator(selector)).to_be_hidden()\<newline>'' @
         ''\<newline>'' @
         ''    def expect_text(self, selector: str, text: str) -> None:\<newline>'' @
         ''        """Assert element contains text."""\<newline>'' @
         ''        expect(self.page.locator(selector)).to_contain_text(text)\<newline>'' @
         ''\<newline>'' @
         ''    def expect_url(self, url_pattern: str) -> None:\<newline>'' @
         ''        """Assert current URL matches pattern."""\<newline>'' @
         ''        expect(self.page).to_have_url(url_pattern)\<newline>'' @
         ''\<newline>'' @
         ''    # ============ Screenshots ============\<newline>'' @
         ''\<newline>'' @
         ''    def take_screenshot(self, name: str) -> bytes:\<newline>'' @
         ''        """Take a screenshot."""\<newline>'' @
         ''        return self.page.screenshot(path=f"screenshots/{name}.png")\<newline>''))\<close>

definition generatePythonLoginPage :: "ProjectConfig \<Rightarrow> string" where
  \<open>generatePythonLoginPage config =
    (let isSelenium = (uiFramework config = Some Selenium)
     in (if isSelenium then
       ''"""\<newline>'' @
         ''Login page object for Selenium.\<newline>'' @
         ''"""\<newline>'' @
         ''from selenium.webdriver.remote.webdriver import WebDriver\<newline>'' @
         ''from selenium.webdriver.common.by import By\<newline>'' @
         ''from src.pages.base_page import BasePage\<newline>'' @
         ''import logging\<newline>'' @
         ''\<newline>'' @
         ''logger = logging.getLogger(__name__)\<newline>'' @
         ''\<newline>'' @
         ''\<newline>'' @
         ''class LoginPage(BasePage):\<newline>'' @
         ''    """\<newline>'' @
         ''    Page object for the Login page (Selenium).\<newline>'' @
         ''    """\<newline>'' @
         ''\<newline>'' @
         ''    # Locators (By.CSS_SELECTOR)\<newline>'' @
         ''    USERNAME_INPUT = (By.CSS_SELECTOR, \'[data-testid="username"]\')\<newline>'' @
         ''    PASSWORD_INPUT = (By.CSS_SELECTOR, \'[data-testid="password"]\')\<newline>'' @
         ''    SUBMIT_BUTTON = (By.CSS_SELECTOR, \'[data-testid="submit"]\')\<newline>'' @
         ''    ERROR_MESSAGE = (By.CSS_SELECTOR, \'[data-testid="error-message"]\')\<newline>'' @
         ''    REMEMBER_ME_CHECKBOX = (By.CSS_SELECTOR, \'[data-testid="remember-me"]\')\<newline>'' @
         ''    FORGOT_PASSWORD_LINK = (By.CSS_SELECTOR, \'[data-testid="forgot-password"]\')\<newline>'' @
         ''\<newline>'' @
         ''    def __init__(self, driver: WebDriver):\<newline>'' @
         ''        super().__init__(driver)\<newline>'' @
         ''\<newline>'' @
         ''    # ============ Actions ============\<newline>'' @
         ''\<newline>'' @
         ''    def enter_username(self, username: str) -> "LoginPage":\<newline>'' @
         ''        """Enter username."""\<newline>'' @
         ''        logger.info(f"Entering username: {username}")\<newline>'' @
         ''        self.fill(self.USERNAME_INPUT, username)\<newline>'' @
         ''        return self\<newline>'' @
         ''\<newline>'' @
         ''    def enter_password(self, password: str) -> "LoginPage":\<newline>'' @
         ''        """Enter password."""\<newline>'' @
         ''        logger.info("Entering password")\<newline>'' @
         ''        self.fill(self.PASSWORD_INPUT, password)\<newline>'' @
         ''        return self\<newline>'' @
         ''\<newline>'' @
         ''    def click_submit(self) -> None:\<newline>'' @
         ''        """Click the submit button."""\<newline>'' @
         ''        logger.info("Clicking submit button")\<newline>'' @
         ''        self.click(self.SUBMIT_BUTTON)\<newline>'' @
         ''\<newline>'' @
         ''    def login(self, username: str, password: str) -> None:\<newline>'' @
         ''        """Perform complete login flow."""\<newline>'' @
         ''        logger.info(f"Logging in as: {username}")\<newline>'' @
         ''        self.enter_username(username)\<newline>'' @
         ''        self.enter_password(password)\<newline>'' @
         ''        self.click_submit()\<newline>'' @
         ''\<newline>'' @
         ''    # ============ Validations ============\<newline>'' @
         ''\<newline>'' @
         ''    def is_username_field_displayed(self) -> bool:\<newline>'' @
         ''        """Check if username field is visible."""\<newline>'' @
         ''        return self.is_visible(self.USERNAME_INPUT)\<newline>'' @
         ''\<newline>'' @
         ''    def is_password_field_displayed(self) -> bool:\<newline>'' @
         ''        """Check if password field is visible."""\<newline>'' @
         ''        return self.is_visible(self.PASSWORD_INPUT)\<newline>'' @
         ''\<newline>'' @
         ''    def is_submit_button_enabled(self) -> bool:\<newline>'' @
         ''        """Check if submit button is enabled."""\<newline>'' @
         ''        return self.is_enabled(self.SUBMIT_BUTTON)\<newline>'' @
         ''\<newline>'' @
         ''    def is_error_displayed(self) -> bool:\<newline>'' @
         ''        """Check if error message is displayed."""\<newline>'' @
         ''        return self.is_visible(self.ERROR_MESSAGE)\<newline>'' @
         ''\<newline>'' @
         ''    def get_error_message(self) -> str:\<newline>'' @
         ''        """Get error message text."""\<newline>'' @
         ''        return self.get_text(self.ERROR_MESSAGE)\<newline>'' @
         ''\<newline>'' @
         ''    def is_login_successful(self) -> bool:\<newline>'' @
         ''        """Check if login was successful (redirected to dashboard)."""\<newline>'' @
         ''        return "dashboard" in self.get_current_url() or "home" in self.get_current_url()\<newline>''
     else
       ''"""\<newline>'' @
         ''Login page object.\<newline>'' @
         ''"""\<newline>'' @
         ''from playwright.sync_api import Page, expect\<newline>'' @
         ''from src.pages.base_page import BasePage\<newline>'' @
         ''import logging\<newline>'' @
         ''\<newline>'' @
         ''logger = logging.getLogger(__name__)\<newline>'' @
         ''\<newline>'' @
         ''\<newline>'' @
         ''class LoginPage(BasePage):\<newline>'' @
         ''    """\<newline>'' @
         ''    Page object for the Login page.\<newline>'' @
         ''    """\<newline>'' @
         ''\<newline>'' @
         ''    # Selectors\<newline>'' @
         ''    USERNAME_INPUT = \'[data-testid="username"]\'\<newline>'' @
         ''    PASSWORD_INPUT = \'[data-testid="password"]\'\<newline>'' @
         ''    SUBMIT_BUTTON = \'[data-testid="submit"]\'\<newline>'' @
         ''    ERROR_MESSAGE = \'[data-testid="error-message"]\'\<newline>'' @
         ''    REMEMBER_ME_CHECKBOX = \'[data-testid="remember-me"]\'\<newline>'' @
         ''    FORGOT_PASSWORD_LINK = \'[data-testid="forgot-password"]\'\<newline>'' @
         ''\<newline>'' @
         ''    def __init__(self, page: Page):\<newline>'' @
         ''        super().__init__(page)\<newline>'' @
         ''\<newline>'' @
         ''    # ============ Actions ============\<newline>'' @
         ''\<newline>'' @
         ''    def enter_username(self, username: str) -> "LoginPage":\<newline>'' @
         ''        """Enter username."""\<newline>'' @
         ''        logger.info(f"Entering username: {username}")\<newline>'' @
         ''        self.fill(self.USERNAME_INPUT, username)\<newline>'' @
         ''        return self\<newline>'' @
         ''\<newline>'' @
         ''    def enter_password(self, password: str) -> "LoginPage":\<newline>'' @
         ''        """Enter password."""\<newline>'' @
         ''        logger.info("Entering password")\<newline>'' @
         ''        self.fill(self.PASSWORD_INPUT, password)\<newline>'' @
         ''        return self\<newline>'' @
         ''\<newline>'' @
         ''    def click_submit(self) -> None:\<newline>'' @
         ''        """Click the submit button."""\<newline>'' @
         ''        logger.info("Clicking submit button")\<newline>'' @
         ''        self.click(self.SUBMIT_BUTTON)\<newline>'' @
         ''\<newline>'' @
         ''    def login(self, username: str, password: str) -> None:\<newline>'' @
         ''        """Perform complete login flow."""\<newline>'' @
         ''        logger.info(f"Logging in as: {username}")\<newline>'' @
         ''        self.enter_username(username)\<newline>'' @
         ''        self.enter_password(password)\<newline>'' @
         ''        self.click_submit()\<newline>'' @
         ''\<newline>'' @
         ''    def check_remember_me(self) -> "LoginPage":\<newline>'' @
         ''        """Check the remember me checkbox."""\<newline>'' @
         ''        self.check(self.REMEMBER_ME_CHECKBOX)\<newline>'' @
         ''        return self\<newline>'' @
         ''\<newline>'' @
         ''    def click_forgot_password(self) -> None:\<newline>'' @
         ''        """Click forgot password link."""\<newline>'' @
         ''        self.click(self.FORGOT_PASSWORD_LINK)\<newline>'' @
         ''\<newline>'' @
         ''    # ============ Validations ============\<newline>'' @
         ''\<newline>'' @
         ''    def is_username_field_displayed(self) -> bool:\<newline>'' @
         ''        """Check if username field is visible."""\<newline>'' @
         ''        return self.is_visible(self.USERNAME_INPUT)\<newline>'' @
         ''\<newline>'' @
         ''    def is_password_field_displayed(self) -> bool:\<newline>'' @
         ''        """Check if password field is visible."""\<newline>'' @
         ''        return self.is_visible(self.PASSWORD_INPUT)\<newline>'' @
         ''\<newline>'' @
         ''    def is_submit_button_enabled(self) -> bool:\<newline>'' @
         ''        """Check if submit button is enabled."""\<newline>'' @
         ''        return self.is_enabled(self.SUBMIT_BUTTON)\<newline>'' @
         ''\<newline>'' @
         ''    def is_error_displayed(self) -> bool:\<newline>'' @
         ''        """Check if error message is displayed."""\<newline>'' @
         ''        return self.is_visible(self.ERROR_MESSAGE)\<newline>'' @
         ''\<newline>'' @
         ''    def get_error_message(self) -> str:\<newline>'' @
         ''        """Get error message text."""\<newline>'' @
         ''        return self.get_text(self.ERROR_MESSAGE)\<newline>'' @
         ''\<newline>'' @
         ''    def is_login_successful(self) -> bool:\<newline>'' @
         ''        """Check if login was successful (redirected to dashboard)."""\<newline>'' @
         ''        return "dashboard" in self.get_current_url() or "home" in self.get_current_url()\<newline>'' @
         ''\<newline>'' @
         ''    # ============ Assertions ============\<newline>'' @
         ''\<newline>'' @
         ''    def expect_error_message(self, message: str) -> None:\<newline>'' @
         ''        """Assert error message contains text."""\<newline>'' @
         ''        self.expect_text(self.ERROR_MESSAGE, message)\<newline>'' @
         ''\<newline>'' @
         ''    def expect_login_success(self) -> None:\<newline>'' @
         ''        """Assert successful login (URL contains dashboard)."""\<newline>'' @
         ''        expect(self.page).to_have_url(r".*dashboard.*")\<newline>''))\<close>

definition generatePythonLoginTest :: "ProjectConfig \<Rightarrow> string" where
  \<open>generatePythonLoginTest config =
    (let isSelenium = (uiFramework config = Some Selenium)
     in (if isSelenium then
       ''"""\<newline>'' @
         ''Login page UI tests for Selenium.\<newline>'' @
         ''"""\<newline>'' @
         ''import pytest\<newline>'' @
         ''from src.pages.login_page import LoginPage\<newline>'' @
         ''\<newline>'' @
         ''\<newline>'' @
         ''@pytest.mark.ui\<newline>'' @
         ''class TestLogin:\<newline>'' @
         ''    """Test class for Login functionality."""\<newline>'' @
         ''\<newline>'' @
         ''    @pytest.fixture(autouse=True)\<newline>'' @
         ''    def setup(self, driver, base_url):\<newline>'' @
         ''        """Set up login page for each test."""\<newline>'' @
         ''        self.login_page = LoginPage(driver)\<newline>'' @
         ''        driver.get(f"{base_url}/login")\<newline>'' @
         ''\<newline>'' @
         ''    @pytest.mark.smoke\<newline>'' @
         ''    def test_login_form_is_visible(self):\<newline>'' @
         ''        """Test that login form elements are visible."""\<newline>'' @
         ''        assert self.login_page.is_username_field_displayed(), '' @ [CHR 0x5C] @ ''\<newline>'' @
         ''            "Username field should be visible"\<newline>'' @
         ''        assert self.login_page.is_password_field_displayed(), '' @ [CHR 0x5C] @ ''\<newline>'' @
         ''            "Password field should be visible"\<newline>'' @
         ''        assert self.login_page.is_submit_button_enabled(), '' @ [CHR 0x5C] @ ''\<newline>'' @
         ''            "Submit button should be enabled"\<newline>'' @
         ''\<newline>'' @
         ''    def test_invalid_credentials_shows_error(self):\<newline>'' @
         ''        """Test that invalid credentials show error message."""\<newline>'' @
         ''        self.login_page.login("invalid@email.com", "wrongpassword")\<newline>'' @
         ''        \<newline>'' @
         ''        assert self.login_page.is_error_displayed(), '' @ [CHR 0x5C] @ ''\<newline>'' @
         ''            "Error message should be displayed"\<newline>'' @
         ''        error_text = self.login_page.get_error_message().lower()\<newline>'' @
         ''        assert "invalid" in error_text or "incorrect" in error_text, '' @ [CHR 0x5C] @ ''\<newline>'' @
         ''            "Error should mention invalid credentials"\<newline>'' @
         ''\<newline>'' @
         ''    def test_empty_username_shows_error(self):\<newline>'' @
         ''        """Test that empty username shows error."""\<newline>'' @
         ''        self.login_page.enter_password("somepassword")\<newline>'' @
         ''        self.login_page.click_submit()\<newline>'' @
         ''        \<newline>'' @
         ''        assert self.login_page.is_error_displayed(), '' @ [CHR 0x5C] @ ''\<newline>'' @
         ''            "Error should be shown for empty username"\<newline>'' @
         ''\<newline>'' @
         ''    @pytest.mark.smoke\<newline>'' @
         ''    def test_valid_credentials_login(self):\<newline>'' @
         ''        """Test successful login with valid credentials."""\<newline>'' @
         ''        self.login_page.login("test@example.com", "password123")\<newline>'' @
         ''        \<newline>'' @
         ''        assert self.login_page.is_login_successful(), '' @ [CHR 0x5C] @ ''\<newline>'' @
         ''            "Should navigate to dashboard after successful login"\<newline>''
     else
       ''"""\<newline>'' @
         ''Login page UI tests.\<newline>'' @
         ''"""\<newline>'' @
         ''import pytest\<newline>'' @
         ''from src.pages.login_page import LoginPage\<newline>'' @
         ''\<newline>'' @
         ''\<newline>'' @
         ''@pytest.mark.ui\<newline>'' @
         ''class TestLogin:\<newline>'' @
         ''    """Test class for Login functionality."""\<newline>'' @
         ''\<newline>'' @
         ''    @pytest.fixture(autouse=True)\<newline>'' @
         ''    def setup(self, page, base_url):\<newline>'' @
         ''        """Set up login page for each test."""\<newline>'' @
         ''        self.login_page = LoginPage(page)\<newline>'' @
         ''        page.goto(f"{base_url}/login")\<newline>'' @
         ''\<newline>'' @
         ''    @pytest.mark.smoke\<newline>'' @
         ''    def test_login_form_is_visible(self):\<newline>'' @
         ''        """Test that login form elements are visible."""\<newline>'' @
         ''        assert self.login_page.is_username_field_displayed(), '' @ [CHR 0x5C] @ ''\<newline>'' @
         ''            "Username field should be visible"\<newline>'' @
         ''        assert self.login_page.is_password_field_displayed(), '' @ [CHR 0x5C] @ ''\<newline>'' @
         ''            "Password field should be visible"\<newline>'' @
         ''        assert self.login_page.is_submit_button_enabled(), '' @ [CHR 0x5C] @ ''\<newline>'' @
         ''            "Submit button should be enabled"\<newline>'' @
         ''\<newline>'' @
         ''    def test_invalid_credentials_shows_error(self):\<newline>'' @
         ''        """Test that invalid credentials show error message."""\<newline>'' @
         ''        self.login_page.login("invalid@email.com", "wrongpassword")\<newline>'' @
         ''        \<newline>'' @
         ''        assert self.login_page.is_error_displayed(), '' @ [CHR 0x5C] @ ''\<newline>'' @
         ''            "Error message should be displayed"\<newline>'' @
         ''        error_text = self.login_page.get_error_message().lower()\<newline>'' @
         ''        assert "invalid" in error_text or "incorrect" in error_text, '' @ [CHR 0x5C] @ ''\<newline>'' @
         ''            "Error should mention invalid credentials"\<newline>'' @
         ''\<newline>'' @
         ''    def test_empty_username_shows_error(self):\<newline>'' @
         ''        """Test that empty username shows error."""\<newline>'' @
         ''        self.login_page.enter_password("somepassword")\<newline>'' @
         ''        self.login_page.click_submit()\<newline>'' @
         ''        \<newline>'' @
         ''        assert self.login_page.is_error_displayed(), '' @ [CHR 0x5C] @ ''\<newline>'' @
         ''            "Error should be shown for empty username"\<newline>'' @
         ''\<newline>'' @
         ''    def test_empty_password_shows_error(self):\<newline>'' @
         ''        """Test that empty password shows error."""\<newline>'' @
         ''        self.login_page.enter_username("test@example.com")\<newline>'' @
         ''        self.login_page.click_submit()\<newline>'' @
         ''        \<newline>'' @
         ''        assert self.login_page.is_error_displayed(), '' @ [CHR 0x5C] @ ''\<newline>'' @
         ''            "Error should be shown for empty password"\<newline>'' @
         ''\<newline>'' @
         ''    @pytest.mark.smoke\<newline>'' @
         ''    def test_valid_credentials_login(self):\<newline>'' @
         ''        """Test successful login with valid credentials."""\<newline>'' @
         ''        # Use test credentials from environment or defaults\<newline>'' @
         ''        self.login_page.login("test@example.com", "password123")\<newline>'' @
         ''        \<newline>'' @
         ''        assert self.login_page.is_login_successful(), '' @ [CHR 0x5C] @ ''\<newline>'' @
         ''            "Should navigate to dashboard after successful login"\<newline>''))\<close>

definition generatePythonApiClient :: string where
  \<open>generatePythonApiClient =
    ''"""\<newline>'' @
      ''Base API client for making HTTP requests.\<newline>'' @
      ''"""\<newline>'' @
      ''import requests\<newline>'' @
      ''from typing import Any, Dict, Optional\<newline>'' @
      ''import logging\<newline>'' @
      ''import os\<newline>'' @
      ''\<newline>'' @
      ''logger = logging.getLogger(__name__)\<newline>'' @
      ''\<newline>'' @
      ''\<newline>'' @
      ''class BaseApiClient:\<newline>'' @
      ''    """\<newline>'' @
      ''    Base API client providing common REST operations.\<newline>'' @
      ''    All API clients should inherit from this class.\<newline>'' @
      ''    """\<newline>'' @
      ''\<newline>'' @
      ''    def __init__(self, base_url: Optional[str] = None):\<newline>'' @
      ''        self.base_url = base_url or os.getenv(\<newline>'' @
      ''            "API_BASE_URL", "https://jsonplaceholder.typicode.com"\<newline>'' @
      ''        )\<newline>'' @
      ''        self.session = requests.Session()\<newline>'' @
      ''        self.session.headers.update({\<newline>'' @
      ''            "Content-Type": "application/json",\<newline>'' @
      ''            "Accept": "application/json",\<newline>'' @
      ''        })\<newline>'' @
      ''        logger.info(f"API Client initialized with base URL: {self.base_url}")\<newline>'' @
      ''\<newline>'' @
      ''    # ============ HTTP Methods ============\<newline>'' @
      ''\<newline>'' @
      ''    def get(\<newline>'' @
      ''        self,\<newline>'' @
      ''        endpoint: str,\<newline>'' @
      ''        params: Optional[Dict[str, Any]] = None,\<newline>'' @
      ''        headers: Optional[Dict[str, str]] = None,\<newline>'' @
      ''    ) -> requests.Response:\<newline>'' @
      ''        """Send GET request."""\<newline>'' @
      ''        url = f"{self.base_url}{endpoint}"\<newline>'' @
      ''        logger.info(f"GET {url}")\<newline>'' @
      ''        return self.session.get(url, params=params, headers=headers)\<newline>'' @
      ''\<newline>'' @
      ''    def post(\<newline>'' @
      ''        self,\<newline>'' @
      ''        endpoint: str,\<newline>'' @
      ''        data: Optional[Dict[str, Any]] = None,\<newline>'' @
      ''        json: Optional[Dict[str, Any]] = None,\<newline>'' @
      ''        headers: Optional[Dict[str, str]] = None,\<newline>'' @
      ''    ) -> requests.Response:\<newline>'' @
      ''        """Send POST request."""\<newline>'' @
      ''        url = f"{self.base_url}{endpoint}"\<newline>'' @
      ''        logger.info(f"POST {url}")\<newline>'' @
      ''        return self.session.post(url, data=data, json=json, headers=headers)\<newline>'' @
      ''\<newline>'' @
      ''    def put(\<newline>'' @
      ''        self,\<newline>'' @
      ''        endpoint: str,\<newline>'' @
      ''        data: Optional[Dict[str, Any]] = None,\<newline>'' @
      ''        json: Optional[Dict[str, Any]] = None,\<newline>'' @
      ''        headers: Optional[Dict[str, str]] = None,\<newline>'' @
      ''    ) -> requests.Response:\<newline>'' @
      ''        """Send PUT request."""\<newline>'' @
      ''        url = f"{self.base_url}{endpoint}"\<newline>'' @
      ''        logger.info(f"PUT {url}")\<newline>'' @
      ''        return self.session.put(url, data=data, json=json, headers=headers)\<newline>'' @
      ''\<newline>'' @
      ''    def patch(\<newline>'' @
      ''        self,\<newline>'' @
      ''        endpoint: str,\<newline>'' @
      ''        data: Optional[Dict[str, Any]] = None,\<newline>'' @
      ''        json: Optional[Dict[str, Any]] = None,\<newline>'' @
      ''        headers: Optional[Dict[str, str]] = None,\<newline>'' @
      ''    ) -> requests.Response:\<newline>'' @
      ''        """Send PATCH request."""\<newline>'' @
      ''        url = f"{self.base_url}{endpoint}"\<newline>'' @
      ''        logger.info(f"PATCH {url}")\<newline>'' @
      ''        return self.session.patch(url, data=data, json=json, headers=headers)\<newline>'' @
      ''\<newline>'' @
      ''    def delete(\<newline>'' @
      ''        self,\<newline>'' @
      ''        endpoint: str,\<newline>'' @
      ''        headers: Optional[Dict[str, str]] = None,\<newline>'' @
      ''    ) -> requests.Response:\<newline>'' @
      ''        """Send DELETE request."""\<newline>'' @
      ''        url = f"{self.base_url}{endpoint}"\<newline>'' @
      ''        logger.info(f"DELETE {url}")\<newline>'' @
      ''        return self.session.delete(url, headers=headers)\<newline>'' @
      ''\<newline>'' @
      ''    # ============ Helper Methods ============\<newline>'' @
      ''\<newline>'' @
      ''    def set_auth_token(self, token: str) -> None:\<newline>'' @
      ''        """Set authorization bearer token."""\<newline>'' @
      ''        self.session.headers["Authorization"] = f"Bearer {token}"\<newline>'' @
      ''\<newline>'' @
      ''    def set_headers(self, headers: Dict[str, str]) -> None:\<newline>'' @
      ''        """Update session headers."""\<newline>'' @
      ''        self.session.headers.update(headers)\<newline>'' @
      ''\<newline>'' @
      ''    def close(self) -> None:\<newline>'' @
      ''        """Close the session."""\<newline>'' @
      ''        self.session.close()\<newline>''\<close>

definition generatePythonUsersApiTest :: string where
  \<open>generatePythonUsersApiTest =
    ''"""\<newline>'' @
      ''Users API tests.\<newline>'' @
      ''"""\<newline>'' @
      ''import pytest\<newline>'' @
      ''from src.utils.api_client import BaseApiClient\<newline>'' @
      ''\<newline>'' @
      ''\<newline>'' @
      ''@pytest.mark.api\<newline>'' @
      ''class TestUsersApi:\<newline>'' @
      ''    """Test class for Users API endpoints."""\<newline>'' @
      ''\<newline>'' @
      ''    @pytest.fixture(autouse=True)\<newline>'' @
      ''    def setup(self, api_base_url):\<newline>'' @
      ''        """Set up API client for each test."""\<newline>'' @
      ''        self.api = BaseApiClient(api_base_url)\<newline>'' @
      ''\<newline>'' @
      ''    def teardown_method(self):\<newline>'' @
      ''        """Clean up after each test."""\<newline>'' @
      ''        self.api.close()\<newline>'' @
      ''\<newline>'' @
      ''    @pytest.mark.smoke\<newline>'' @
      ''    def test_get_all_users(self):\<newline>'' @
      ''        """Test GET /users returns list of users."""\<newline>'' @
      ''        response = self.api.get("/users")\<newline>'' @
      ''        \<newline>'' @
      ''        assert response.status_code == 200, '' @ [CHR 0x5C] @ ''\<newline>'' @
      ''            f"Expected 200, got {response.status_code}"\<newline>'' @
      ''        \<newline>'' @
      ''        users = response.json()\<newline>'' @
      ''        assert isinstance(users, list), "Response should be a list"\<newline>'' @
      ''        assert len(users) > 0, "Should return at least one user"\<newline>'' @
      ''\<newline>'' @
      ''    def test_users_have_correct_structure(self):\<newline>'' @
      ''        """Test that users have required fields."""\<newline>'' @
      ''        response = self.api.get("/users")\<newline>'' @
      ''        users = response.json()\<newline>'' @
      ''        \<newline>'' @
      ''        required_fields = ["id", "name", "email", "username"]\<newline>'' @
      ''        first_user = users[0]\<newline>'' @
      ''        \<newline>'' @
      ''        for field in required_fields:\<newline>'' @
      ''            assert field in first_user, f"User should have \'{field}\' field"\<newline>'' @
      ''\<newline>'' @
      ''    @pytest.mark.smoke\<newline>'' @
      ''    def test_get_user_by_id(self):\<newline>'' @
      ''        """Test GET /users/{id} returns single user."""\<newline>'' @
      ''        response = self.api.get("/users/1")\<newline>'' @
      ''        \<newline>'' @
      ''        assert response.status_code == 200\<newline>'' @
      ''        user = response.json()\<newline>'' @
      ''        assert user["id"] == 1\<newline>'' @
      ''        assert "name" in user\<newline>'' @
      ''        assert "@" in user["email"]\<newline>'' @
      ''\<newline>'' @
      ''    def test_get_non_existent_user(self):\<newline>'' @
      ''        """Test GET /users/{id} returns 404 for non-existent user."""\<newline>'' @
      ''        response = self.api.get("/users/999999")\<newline>'' @
      ''        \<newline>'' @
      ''        assert response.status_code == 404\<newline>'' @
      ''\<newline>'' @
      ''    @pytest.mark.smoke\<newline>'' @
      ''    def test_create_user(self):\<newline>'' @
      ''        """Test POST /users creates new user."""\<newline>'' @
      ''        new_user = {\<newline>'' @
      ''            "name": "Test User",\<newline>'' @
      ''            "username": "testuser",\<newline>'' @
      ''            "email": "test@example.com",\<newline>'' @
      ''            "phone": "1-234-567-8900",\<newline>'' @
      ''        }\<newline>'' @
      ''        \<newline>'' @
      ''        response = self.api.post("/users", json=new_user)\<newline>'' @
      ''        \<newline>'' @
      ''        assert response.status_code == 201\<newline>'' @
      ''        created_user = response.json()\<newline>'' @
      ''        assert "id" in created_user\<newline>'' @
      ''        assert created_user["name"] == new_user["name"]\<newline>'' @
      ''        assert created_user["email"] == new_user["email"]\<newline>'' @
      ''\<newline>'' @
      ''    def test_update_user(self):\<newline>'' @
      ''        """Test PUT /users/{id} updates existing user."""\<newline>'' @
      ''        updated_data = {\<newline>'' @
      ''            "name": "Updated Name",\<newline>'' @
      ''            "email": "updated@example.com",\<newline>'' @
      ''        }\<newline>'' @
      ''        \<newline>'' @
      ''        response = self.api.put("/users/1", json=updated_data)\<newline>'' @
      ''        \<newline>'' @
      ''        assert response.status_code == 200\<newline>'' @
      ''        user = response.json()\<newline>'' @
      ''        assert user["name"] == updated_data["name"]\<newline>'' @
      ''\<newline>'' @
      ''    def test_delete_user(self):\<newline>'' @
      ''        """Test DELETE /users/{id} deletes user."""\<newline>'' @
      ''        response = self.api.delete("/users/1")\<newline>'' @
      ''        \<newline>'' @
      ''        assert response.status_code == 200\<newline>''\<close>

definition generatePythonPostsApiTest :: string where
  \<open>generatePythonPostsApiTest =
    ''"""\<newline>'' @
      ''Posts API tests.\<newline>'' @
      ''"""\<newline>'' @
      ''import pytest\<newline>'' @
      ''from src.utils.api_client import BaseApiClient\<newline>'' @
      ''\<newline>'' @
      ''\<newline>'' @
      ''@pytest.mark.api\<newline>'' @
      ''class TestPostsApi:\<newline>'' @
      ''    """Test class for Posts API endpoints."""\<newline>'' @
      ''\<newline>'' @
      ''    @pytest.fixture(autouse=True)\<newline>'' @
      ''    def setup(self, api_base_url):\<newline>'' @
      ''        """Set up API client for each test."""\<newline>'' @
      ''        self.api = BaseApiClient(api_base_url)\<newline>'' @
      ''\<newline>'' @
      ''    def teardown_method(self):\<newline>'' @
      ''        """Clean up after each test."""\<newline>'' @
      ''        self.api.close()\<newline>'' @
      ''\<newline>'' @
      ''    @pytest.mark.smoke\<newline>'' @
      ''    def test_get_all_posts(self):\<newline>'' @
      ''        """Test GET /posts returns list of posts."""\<newline>'' @
      ''        response = self.api.get("/posts")\<newline>'' @
      ''        \<newline>'' @
      ''        assert response.status_code == 200\<newline>'' @
      ''        posts = response.json()\<newline>'' @
      ''        assert len(posts) > 0, "Should return posts"\<newline>'' @
      ''\<newline>'' @
      ''    def test_get_post_by_id(self):\<newline>'' @
      ''        """Test GET /posts/{id} returns single post."""\<newline>'' @
      ''        response = self.api.get("/posts/1")\<newline>'' @
      ''        \<newline>'' @
      ''        assert response.status_code == 200\<newline>'' @
      ''        post = response.json()\<newline>'' @
      ''        assert post["id"] == 1\<newline>'' @
      ''        assert "title" in post\<newline>'' @
      ''        assert "body" in post\<newline>'' @
      ''        assert "userId" in post\<newline>'' @
      ''\<newline>'' @
      ''    def test_filter_posts_by_user(self):\<newline>'' @
      ''        """Test GET /posts with userId filter."""\<newline>'' @
      ''        response = self.api.get("/posts", params={"userId": 1})\<newline>'' @
      ''        \<newline>'' @
      ''        assert response.status_code == 200\<newline>'' @
      ''        posts = response.json()\<newline>'' @
      ''        assert all(post["userId"] == 1 for post in posts), '' @ [CHR 0x5C] @ ''\<newline>'' @
      ''            "All posts should belong to userId 1"\<newline>'' @
      ''\<newline>'' @
      ''    def test_create_post(self):\<newline>'' @
      ''        """Test POST /posts creates new post."""\<newline>'' @
      ''        new_post = {\<newline>'' @
      ''            "title": "Test Post Title",\<newline>'' @
      ''            "body": "This is the body of the test post.",\<newline>'' @
      ''            "userId": 1,\<newline>'' @
      ''        }\<newline>'' @
      ''        \<newline>'' @
      ''        response = self.api.post("/posts", json=new_post)\<newline>'' @
      ''        \<newline>'' @
      ''        assert response.status_code == 201\<newline>'' @
      ''        created_post = response.json()\<newline>'' @
      ''        assert "id" in created_post\<newline>'' @
      ''        assert created_post["title"] == new_post["title"]\<newline>''\<close>

definition generatePythonInit :: string where
  \<open>generatePythonInit =
    ''"""\<newline>'' @
      ''Package initialization.\<newline>'' @
      ''"""\<newline>''\<close>

subsection \<open>\<^verbatim>\<open>generateFiles\<close>\<close>

record FileEntry =
  path :: string
  content :: string

text \<open>
  Every \<^verbatim>\<open>files.push\<close> appends one entry, and a conditional block appends its entries when
  its condition holds. The entries stay in the order of the pushes.
\<close>

definition generateFiles :: "ProjectConfig \<Rightarrow> FileEntry list" where
  "generateFiles config =
     [\<lparr>path = projectName config @ ''/README.md'', content = generateReadme config\<rparr>,
      \<lparr>path = projectName config @ ''/.env.example'', content = generateEnvExample\<rparr>] @
     (if initGit config then
        [\<lparr>path = projectName config @ ''/.gitignore'', content = generateGitignore (language config)\<rparr>]
      else []) @
     (if language config = Typescript then
        [\<lparr>path = projectName config @ ''/package.json'', content = generateTypeScriptPackageJson config\<rparr>,
         \<lparr>path = projectName config @ ''/tsconfig.json'', content = generateTsConfig\<rparr>,
         \<lparr>path = projectName config @ ''/playwright.config.ts'', content = generatePlaywrightConfig config\<rparr>,
         \<lparr>path = projectName config @ ''/src/utils/config.ts'', content = generateTsUtils\<rparr>,
         \<lparr>path = projectName config @ ''/src/utils/helpers.ts'', content = generateTsHelpers\<rparr>] @
        (if includeUI config then
           [\<lparr>path = projectName config @ ''/src/pages/BasePage.ts'', content = generateTsBasePage\<rparr>,
            \<lparr>path = projectName config @ ''/src/pages/LoginPage.ts'', content = generateTsLoginPage\<rparr>,
            \<lparr>path = projectName config @ ''/src/fixtures/base.fixture.ts'', content = generateTsFixture\<rparr>,
            \<lparr>path = projectName config @ ''/tests/ui/login.spec.ts'', content = generateTsLoginSpec\<rparr>,
            \<lparr>path = projectName config @ ''/tests/ui/home.spec.ts'', content = generateTsHomeSpec\<rparr>]
         else []) @
        (if includeAPI config then
           [\<lparr>path = projectName config @ ''/tests/api/users.spec.ts'', content = generateTsApiSpec\<rparr>,
            \<lparr>path = projectName config @ ''/tests/api/health.spec.ts'', content = generateTsHealthSpec\<rparr>]
         else []) @
        [\<lparr>path = projectName config @ ''/config/dev.json'', content = generateConfigJson ''dev''\<rparr>,
         \<lparr>path = projectName config @ ''/config/stage.json'', content = generateConfigJson ''stage''\<rparr>,
         \<lparr>path = projectName config @ ''/config/prod.json'', content = generateConfigJson ''prod''\<rparr>,
         \<lparr>path = projectName config @ ''/scripts/run-tests.sh'', content = generateRunScript\<rparr>]
      else []) @
     (if language config = Java then
        [\<lparr>path = projectName config @ ''/pom.xml'', content = generateJavaPom config\<rparr>,
         \<lparr>path = projectName config @ ''/src/test/java/com/automation/base/BaseTest.java'', content = generateJavaBaseTest config\<rparr>,
         \<lparr>path = projectName config @ ''/src/test/java/com/automation/utils/ConfigReader.java'', content = generateJavaConfigReader\<rparr>,
         \<lparr>path = projectName config @ ''/src/test/java/com/automation/utils/TestUtils.java'', content = generateJavaTestUtils\<rparr>] @
        (if includeUI config then
           [\<lparr>path = projectName config @ ''/src/test/java/com/automation/utils/WebDriverFactory.java'', content = generateJavaWebDriverFactory\<rparr>,
            \<lparr>path = projectName config @ ''/src/test/java/com/automation/pages/BasePage.java'', content = generateJavaBasePage\<rparr>,
            \<lparr>path = projectName config @ ''/src/test/java/com/automation/pages/LoginPage.java'', content = generateJavaLoginPage\<rparr>,
            \<lparr>path = projectName config @ ''/src/test/java/com/automation/pages/HomePage.java'', content = generateJavaHomePage\<rparr>,
            \<lparr>path = projectName config @ ''/src/test/java/com/automation/tests/LoginTest.java'', content = generateJavaLoginTest\<rparr>]
         else []) @
        (if includeAPI config then
           [\<lparr>path = projectName config @ ''/src/test/java/com/automation/api/BaseApiClient.java'', content = generateJavaBaseApiClient\<rparr>,
            \<lparr>path = projectName config @ ''/src/test/java/com/automation/api/UsersApiTest.java'', content = generateJavaUsersApiTest\<rparr>,
            \<lparr>path = projectName config @ ''/src/test/java/com/automation/api/PostsApiTest.java'', content = generateJavaPostsApiTest\<rparr>]
         else []) @
        [\<lparr>path = projectName config @ ''/src/test/resources/config.properties'', content = generateJavaConfigProperties\<rparr>,
         \<lparr>path = projectName config @ ''/src/test/resources/log4j2.xml'', content = generateJavaLog4j\<rparr>]
      else []) @
     (if language config = Python then
        [\<lparr>path = projectName config @ ''/requirements.txt'', content = generatePythonRequirements config\<rparr>] @
        (if buildTool config = Poetry then
           [\<lparr>path = projectName config @ ''/pyproject.toml'', content = generatePythonPyprojectToml config\<rparr>]
         else []) @
        [\<lparr>path = projectName config @ ''/pytest.ini'', content = generatePythonPytestIni\<rparr>,
         \<lparr>path = projectName config @ ''/conftest.py'', content = generatePythonConftest config\<rparr>,
         \<lparr>path = projectName config @ ''/src/__init__.py'', content = generatePythonInit\<rparr>,
         \<lparr>path = projectName config @ ''/src/utils/__init__.py'', content = generatePythonInit\<rparr>,
         \<lparr>path = projectName config @ ''/src/utils/config.py'', content = generatePythonConfig\<rparr>,
         \<lparr>path = projectName config @ ''/src/utils/api_client.py'', content = generatePythonApiClient\<rparr>] @
        (if includeUI config then
           [\<lparr>path = projectName config @ ''/src/pages/__init__.py'', content = generatePythonInit\<rparr>,
            \<lparr>path = projectName config @ ''/src/pages/base_page.py'', content = generatePythonBasePage config\<rparr>,
            \<lparr>path = projectName config @ ''/src/pages/login_page.py'', content = generatePythonLoginPage config\<rparr>]
         else []) @
        [\<lparr>path = projectName config @ ''/tests/__init__.py'', content = generatePythonInit\<rparr>] @
        (if includeUI config then
           [\<lparr>path = projectName config @ ''/tests/ui/__init__.py'', content = generatePythonInit\<rparr>,
            \<lparr>path = projectName config @ ''/tests/ui/test_login.py'', content = generatePythonLoginTest config\<rparr>]
         else []) @
        (if includeAPI config then
           [\<lparr>path = projectName config @ ''/tests/api/__init__.py'', content = generatePythonInit\<rparr>,
            \<lparr>path = projectName config @ ''/tests/api/test_users.py'', content = generatePythonUsersApiTest\<rparr>,
            \<lparr>path = projectName config @ ''/tests/api/test_posts.py'', content = generatePythonPostsApiTest\<rparr>]
         else [])
      else []) @
     (if includeCI config then
        [\<lparr>path = projectName config @ ''/.github/workflows/tests.yml'', content = generateGitHubWorkflow config\<rparr>]
      else []) @
     (if includeDocker config then
        [\<lparr>path = projectName config @ ''/Dockerfile'', content = generateDockerfile config\<rparr>,
         \<lparr>path = projectName config @ ''/docker-compose.yml'', content = generateDockerCompose config\<rparr>]
      else [])"

section \<open>The schema on raw values\<close>

text \<open>
  A raw input is any value of the language, not a typed object. The parser that reads
  \<^verbatim>\<open>ProjectConfigSchema\<close> belongs to zod, which is not code of the repository; what follows
  is the behaviour of the schema types that \<^verbatim>\<open>types.ts\<close> uses, as zod 3 defines it, and the
  schema is then built from them the way the source declares it. A parser takes the path
  of the value and the value; it returns the issues it adds and the parsed value, or no
  value when it gives up (zod's \<^verbatim>\<open>INVALID\<close>). Giving up is what a value of the wrong type and
  an unknown member of an enumeration cause; a failed check of a string adds its issue
  and goes on. A number is an integer here: the parsers of this schema look at nothing
  but the type of a number.
\<close>

datatype jsvalue =
    VUndefined
  | VNull
  | VBool bool
  | VNumber int
  | VString string
  | VArray "jsvalue list"
  | VObject "(string \<times> jsvalue) list"

type_synonym 'a zod = "string list \<Rightarrow> jsvalue \<Rightarrow> ZodIssue list \<times> 'a option"

text \<open>\<^verbatim>\<open>data[key]\<close>: the property of an object, \<^verbatim>\<open>undefined\<close> when there is none.\<close>

definition property :: "jsvalue \<Rightarrow> string \<Rightarrow> jsvalue" where
  "property data key =
     (case data of
        VObject members \<Rightarrow> (case map_of members key of Some v \<Rightarrow> v | None \<Rightarrow> VUndefined)
      | _ \<Rightarrow> VUndefined)"

text \<open>The name under which an issue reports the type of the value it received.\<close>

fun parsedType :: "jsvalue \<Rightarrow> string" where
  "parsedType VUndefined = ''undefined''"
| "parsedType VNull = ''null''"
| "parsedType (VBool b) = ''boolean''"
| "parsedType (VNumber n) = ''number''"
| "parsedType (VString s) = ''string''"
| "parsedType (VArray xs) = ''array''"
| "parsedType (VObject members) = ''object''"

text \<open>The issue for a value of the wrong type; a missing value is reported as required.\<close>

definition invalid_type :: "string \<Rightarrow> string list \<Rightarrow> jsvalue \<Rightarrow> ZodIssue" where
  "invalid_type expected p v =
     \<lparr>issue_path = p,
      issue_message = (if v = VUndefined then ''Required''
                       else ''Expected '' @ expected @ '', received '' @ parsedType v)\<rparr>"

text \<open>
  \<^verbatim>\<open>z.string()\<close> with its checks, each a test and the message of its issue: every check is
  run.
\<close>

definition z_string :: "((string \<Rightarrow> bool) \<times> string) list \<Rightarrow> string zod" where
  "z_string checks p v =
     (case v of
        VString s \<Rightarrow> (concat (map (\<lambda>c. check (fst c s) p (snd c)) checks), Some s)
      | _ \<Rightarrow> ([invalid_type ''string'' p v], None))"

definition z_boolean :: "bool zod" where
  "z_boolean p v =
     (case v of
        VBool b \<Rightarrow> ([], Some b)
      | _ \<Rightarrow> ([invalid_type ''boolean'' p v], None))"

text \<open>\<^verbatim>\<open>z.enum([...])\<close>: the members are strings; here each comes with the value it stands for.\<close>

definition joinValues :: "string list \<Rightarrow> string" where
  "joinValues members = join '' | '' (map (\<lambda>m. [CHR 0x27] @ m @ [CHR 0x27]) members)"

definition z_enum :: "(string \<times> 'a) list \<Rightarrow> 'a zod" where
  "z_enum members p v =
     (case v of
        VString s \<Rightarrow>
          (case map_of members s of
             Some x \<Rightarrow> ([], Some x)
           | None \<Rightarrow>
               ([\<lparr>issue_path = p,
                  issue_message = ''Invalid enum value. Expected '' @ joinValues (map fst members) @
                    '', received '' @ [CHR 0x27] @ s @ [CHR 0x27]\<rparr>], None))
      | _ \<Rightarrow> ([invalid_type (joinValues (map fst members)) p v], None))"

text \<open>\<^verbatim>\<open>.optional()\<close> and \<^verbatim>\<open>.default(value)\<close>.\<close>

definition z_optional :: "'a zod \<Rightarrow> 'a option zod" where
  "z_optional inner p v =
     (if v = VUndefined then ([], Some None)
      else (fst (inner p v), map_option Some (snd (inner p v))))"

definition z_default :: "jsvalue \<Rightarrow> 'a zod \<Rightarrow> 'a zod" where
  "z_default defaultValue inner p v = inner p (if v = VUndefined then defaultValue else v)"

text \<open>
  \<^verbatim>\<open>z.array(item)\<close>: every element is parsed, under the path of the array extended by its
  index; the index is a number in zod's path and its decimal numeral here.
\<close>

fun parseItems :: "'a zod \<Rightarrow> string list \<Rightarrow> nat \<Rightarrow> jsvalue list \<Rightarrow> (ZodIssue list \<times> 'a option) list" where
  "parseItems item p i [] = []"
| "parseItems item p i (x # xs) = item (p @ [decimal i]) x # parseItems item p (Suc i) xs"

definition z_array :: "'a zod \<Rightarrow> 'a list zod" where
  "z_array item p v =
     (case v of
        VArray xs \<Rightarrow>
          (concat (map fst (parseItems item p 0 xs)),
           if list_all (\<lambda>r. snd r \<noteq> None) (parseItems item p 0 xs)
           then Some (map (\<lambda>r. the (snd r)) (parseItems item p 0 xs)) else None)
      | _ \<Rightarrow> ([invalid_type ''array'' p v], None))"

text \<open>
  \<^verbatim>\<open>.refine(test, {message, path})\<close>: when the inner parser gives up, so does the
  refinement, without running the test; otherwise the test is run on the parsed value,
  also when checks have failed, and adds its issue under its path.
\<close>

definition z_refine :: "('a \<Rightarrow> bool) \<Rightarrow> string \<Rightarrow> string list \<Rightarrow> 'a zod \<Rightarrow> 'a zod" where
  "z_refine test message rpath inner p v =
     (case snd (inner p v) of
        None \<Rightarrow> (fst (inner p v), None)
      | Some x \<Rightarrow> (fst (inner p v) @ check (test x) (p @ rpath) message, Some x))"

text \<open>
  \<^verbatim>\<open>schema.safeParse(data)\<close> returns the parsed value when there is one and no issue was
  added, and the issues otherwise. \<^verbatim>\<open>schema.parse(data)\<close> returns the value in the first
  case and throws the error with the issues in the second.
\<close>

definition safeParse :: "'a zod \<Rightarrow> jsvalue \<Rightarrow> ZodIssue list + 'a" where
  "safeParse schema data =
     (case snd (schema [] data) of
        Some x \<Rightarrow> if fst (schema [] data) = [] then Inr x else Inl (fst (schema [] data))
      | None \<Rightarrow> Inl (fst (schema [] data)))"

datatype 'a outcome = Returns 'a | Throws "ZodIssue list"

definition parse :: "'a zod \<Rightarrow> jsvalue \<Rightarrow> 'a outcome" where
  "parse schema data =
     (case safeParse schema data of Inr x \<Rightarrow> Returns x | Inl issues \<Rightarrow> Throws issues)"

subsection \<open>The enumerations of \<^verbatim>\<open>types.ts\<close>\<close>

definition Language_members :: "(string \<times> Language) list" where
  "Language_members = [(''typescript'', Typescript), (''java'', Java), (''python'', Python)]"

definition BuildTool_members :: "(string \<times> BuildTool) list" where
  "BuildTool_members =
     [(''npm'', Npm), (''pnpm'', Pnpm), (''maven'', Maven), (''gradle'', Gradle), (''pip'', Pip),
      (''poetry'', Poetry)]"

definition UIFramework_members :: "(string \<times> UIFramework) list" where
  "UIFramework_members = [(''playwright'', Playwright), (''selenium'', Selenium)]"

definition APIFramework_members :: "(string \<times> APIFramework) list" where
  "APIFramework_members =
     [(''playwright-api'', PlaywrightApi), (''axios'', Axios), (''rest-assured'', RestAssured),
      (''requests'', Requests)]"

definition TestRunner_members :: "(string \<times> TestRunner) list" where
  "TestRunner_members =
     [(''playwright-test'', PlaywrightTest), (''junit'', Junit), (''testng'', Testng),
      (''pytest'', Pytest)]"

definition ReportingOption_members :: "(string \<times> ReportingOption) list" where
  "ReportingOption_members =
     [(''allure'', Allure), (''html'', Html), (''junit-xml'', JunitXml),
      (''pytest-html'', PytestHtml), (''surefire'', Surefire)]"

subsection \<open>\<^verbatim>\<open>ProjectConfigSchema\<close>\<close>

text \<open>
  The fields of the object, one parser each, as the source declares them. The name of a
  field that is not in the input gives \<^verbatim>\<open>undefined\<close>; a property of the input that the
  schema does not name is left out.
\<close>

definition field_projectName :: "string zod" where
  "field_projectName =
     z_string [(\<lambda>s. 1 \<le> length s, ''Project name is required''),
               (\<lambda>s. length s \<le> 50, ''Project name must be less than 50 characters''),
               (slug_regex, ''Project name must be lowercase with hyphens only'')]"

definition field_description :: "string option zod" where
  "field_description =
     z_optional (z_string [(\<lambda>s. length s \<le> 200, ''Description must be less than 200 characters'')])"

definition field_author :: "string option zod" where
  "field_author =
     z_optional (z_string [(\<lambda>s. length s \<le> 50, ''Author name must be less than 50 characters'')])"

text \<open>
  \<^verbatim>\<open>z.object({...})\<close> on this shape: a value that is not an object is of the wrong type;
  on an object every field is parsed, in the order of the declaration, and the object is
  there when every field is.
\<close>

definition ProjectConfigSchema_object :: "ProjectConfig zod" where
  "ProjectConfigSchema_object p data =
     (case data of
        VObject members \<Rightarrow>
          (let r_projectName = field_projectName (p @ [''projectName'']) (property data ''projectName'');
               r_description = field_description (p @ [''description'']) (property data ''description'');
               r_author = field_author (p @ [''author'']) (property data ''author'');
               r_initGit = z_default (VBool True) z_boolean (p @ [''initGit''])
                             (property data ''initGit'');
               r_includeUI = z_boolean (p @ [''includeUI'']) (property data ''includeUI'');
               r_includeAPI = z_boolean (p @ [''includeAPI'']) (property data ''includeAPI'');
               r_language = z_enum Language_members (p @ [''language'']) (property data ''language'');
               r_buildTool = z_enum BuildTool_members (p @ [''buildTool''])
                               (property data ''buildTool'');
               r_uiFramework = z_optional (z_enum UIFramework_members) (p @ [''uiFramework''])
                                 (property data ''uiFramework'');
               r_apiFramework = z_optional (z_enum APIFramework_members) (p @ [''apiFramework''])
                                  (property data ''apiFramework'');
               r_testRunner = z_enum TestRunner_members (p @ [''testRunner''])
                                (property data ''testRunner'');
               r_reporting = z_array (z_enum ReportingOption_members) (p @ [''reporting''])
                               (property data ''reporting'');
               r_includeEnvConfig = z_default (VBool True) z_boolean (p @ [''includeEnvConfig''])
                                      (property data ''includeEnvConfig'');
               r_includeCI = z_default (VBool False) z_boolean (p @ [''includeCI''])
                               (property data ''includeCI'');
               r_includeDocker = z_default (VBool False) z_boolean (p @ [''includeDocker''])
                                   (property data ''includeDocker'')
           in (fst r_projectName @ fst r_description @ fst r_author @ fst r_initGit @
               fst r_includeUI @ fst r_includeAPI @ fst r_language @ fst r_buildTool @
               fst r_uiFramework @ fst r_apiFramework @ fst r_testRunner @ fst r_reporting @
               fst r_includeEnvConfig @ fst r_includeCI @ fst r_includeDocker,
               if snd r_projectName \<noteq> None \<and> snd r_description \<noteq> None \<and> snd r_author \<noteq> None \<and>
                  snd r_initGit \<noteq> None \<and> snd r_includeUI \<noteq> None \<and> snd r_includeAPI \<noteq> None \<and>
                  snd r_language \<noteq> None \<and> snd r_buildTool \<noteq> None \<and> snd r_uiFramework \<noteq> None \<and>
                  snd r_apiFramework \<noteq> None \<and> snd r_testRunner \<noteq> None \<and> snd r_reporting \<noteq> None \<and>
                  snd r_includeEnvConfig \<noteq> None \<and> snd r_includeCI \<noteq> None \<and>
                  snd r_includeDocker \<noteq> None
               then Some \<lparr>projectName = the (snd r_projectName),
                          description = the (snd r_description),
                          author = the (snd r_author),
                          initGit = the (snd r_initGit),
                          includeUI = the (snd r_includeUI),
                          includeAPI = the (snd r_includeAPI),
                          language = the (snd r_language),
                          buildTool = the (snd r_buildTool),
                          uiFramework = the (snd r_uiFramework),
                          apiFramework = the (snd r_apiFramework),
                          testRunner = the (snd r_testRunner),
                          reporting = the (snd r_reporting),
                          includeEnvConfig = the (snd r_includeEnvConfig),
                          includeCI = the (snd r_includeCI),
                          includeDocker = the (snd r_includeDocker)\<rparr>
               else None))
      | _ \<Rightarrow> ([invalid_type ''object'' p data], None))"

text \<open>The schema: the object with the refinement \<^verbatim>\<open>data.includeUI || data.includeAPI\<close>.\<close>

definition ProjectConfigSchema :: "ProjectConfig zod" where
  "ProjectConfigSchema =
     z_refine (\<lambda>data. includeUI data \<or> includeAPI data)
       ''At least one test type (UI or API) must be selected'' [''includeUI'']
       ProjectConfigSchema_object"

section \<open>Tree Builder (\<^verbatim>\<open>buildTree\<close> of \<^verbatim>\<open>FolderTree.tsx\<close>)\<close>

datatype TreeNode = TreeNode (name: string) (isFolder: bool) (children: "TreeNode list")

text \<open>\<^verbatim>\<open>path.split('/').filter(Boolean)\<close>: the non-empty pieces of the path.\<close>

definition pathParts :: "string \<Rightarrow> string list" where
  "pathParts p = filter (\<lambda>part. part \<noteq> []) (split_slash p)"

text \<open>
  The inner loop of \<^verbatim>\<open>buildTree\<close> for one path. \<open>current\<close> is the list of nodes of the level
  reached; the node named \<open>part\<close> is the first one with that name (\<^verbatim>\<open>current.find\<close>), and a
  new node is pushed at the end when there is none. The loop then goes on in the children
  of that node; the source updates them in place, the model rebuilds the level around
  them. A node is a folder when its part is not the last one or the path ends in a slash
  (\<open>slash\<close>); the flag is set when the node is created and never afterwards.
\<close>

fun insertParts :: "bool \<Rightarrow> string list \<Rightarrow> TreeNode list \<Rightarrow> TreeNode list" where
  "insertParts slash [] current = current"
| "insertParts slash (part # rest) [] =
     [TreeNode part (rest \<noteq> [] \<or> slash) (insertParts slash rest [])]"
| "insertParts slash (part # rest) (n # ns) =
     (if name n = part
      then TreeNode (name n) (isFolder n) (insertParts slash rest (children n)) # ns
      else n # insertParts slash (part # rest) ns)"

definition insertPath :: "TreeNode list \<Rightarrow> string \<Rightarrow> TreeNode list" where
  "insertPath root p = insertParts (endsWith p ''/'') (pathParts p) root"

text \<open>
  The comparator of \<^verbatim>\<open>sortNodes\<close>. \<^verbatim>\<open>String.prototype.localeCompare\<close> belongs to the
  JavaScript runtime and follows its locale, so it is a parameter of the model.
\<close>

definition nodeCompare :: "(string \<Rightarrow> string \<Rightarrow> int) \<Rightarrow> TreeNode \<Rightarrow> TreeNode \<Rightarrow> int" where
  "nodeCompare localeCompare a b =
     (if isFolder a \<and> \<not> isFolder b then - 1
      else if \<not> isFolder a \<and> isFolder b then 1
      else localeCompare (name a) (name b))"

text \<open>
  \<^verbatim>\<open>Array.prototype.sort(compare)\<close> is a stable sort: for a comparator that is consistent,
  its result is that of the stable insertion sort below. For any other comparator the
  order of the result is left to the implementation; the result is a permutation of the
  array in every case, as it is here.
\<close>

fun insertSorted :: "('a \<Rightarrow> 'a \<Rightarrow> int) \<Rightarrow> 'a \<Rightarrow> 'a list \<Rightarrow> 'a list" where
  "insertSorted cmp x [] = [x]"
| "insertSorted cmp x (y # ys) =
     (if cmp x y \<le> 0 then x # y # ys else y # insertSorted cmp x ys)"

fun sortBy :: "('a \<Rightarrow> 'a \<Rightarrow> int) \<Rightarrow> 'a list \<Rightarrow> 'a list" where
  "sortBy cmp [] = []"
| "sortBy cmp (x # xs) = insertSorted cmp x (sortBy cmp xs)"

text \<open>\<^verbatim>\<open>sortNodes\<close>: the children of every node are sorted, then the nodes themselves.\<close>

fun sortNode :: "(string \<Rightarrow> string \<Rightarrow> int) \<Rightarrow> TreeNode \<Rightarrow> TreeNode" where
  "sortNode localeCompare (TreeNode nm f cs) =
     TreeNode nm f (sortBy (nodeCompare localeCompare) (map (sortNode localeCompare) cs))"

definition sortNodes :: "(string \<Rightarrow> string \<Rightarrow> int) \<Rightarrow> TreeNode list \<Rightarrow> TreeNode list" where
  "sortNodes localeCompare nodes =
     sortBy (nodeCompare localeCompare) (map (sortNode localeCompare) nodes)"

definition buildTree :: "(string \<Rightarrow> string \<Rightarrow> int) \<Rightarrow> string list \<Rightarrow> TreeNode list" where
  "buildTree localeCompare paths = sortNodes localeCompare (foldl insertPath [] paths)"

section \<open>Notions used to state the properties\<close>

subsection \<open>Paths and configurations\<close>

text \<open>
  The directory markers above a path: its proper prefixes that end in a slash. On
  \<open>demo/src/a.ts\<close> they are \<open>demo/\<close> and \<open>demo/src/\<close>.
\<close>

fun dirPrefixes :: "string \<Rightarrow> string list" where
  "dirPrefixes [] = []"
| "dirPrefixes (ch # cs) =
     (if ch = CHR ''/'' \<and> cs \<noteq> [] then [[ch]] else []) @ map ((#) ch) (dirPrefixes cs)"

text \<open>The configuration of the specification's scenario, for a language and a build tool.\<close>

definition demoConfig :: "Language \<Rightarrow> BuildTool \<Rightarrow> ProjectConfig" where
  "demoConfig lang tool =
     \<lparr>projectName = ''demo'', description = None, author = None, initGit = True,
      includeUI = True, includeAPI = True, language = lang, buildTool = tool,
      uiFramework = first (uiFrameworks (validCombinations lang)),
      apiFramework = first (apiFrameworks (validCombinations lang)),
      testRunner = testRunners (validCombinations lang) ! 0,
      reporting = take 1 (reportingOptions (validCombinations lang)),
      includeEnvConfig = True, includeCI = True, includeDocker = True\<rparr>"

definition demoRaw :: "Language \<Rightarrow> BuildTool \<Rightarrow> bool \<Rightarrow> bool \<Rightarrow> RawConfig" where
  "demoRaw lang tool ui api =
     \<lparr>raw_projectName = ''demo'', raw_description = None, raw_author = None,
      raw_initGit = Some True, raw_includeUI = ui, raw_includeAPI = api,
      raw_language = lang, raw_buildTool = tool,
      raw_uiFramework = first (uiFrameworks (validCombinations lang)),
      raw_apiFramework = first (apiFrameworks (validCombinations lang)),
      raw_testRunner = testRunners (validCombinations lang) ! 0,
      raw_reporting = take 1 (reportingOptions (validCombinations lang)),
      raw_includeEnvConfig = Some True, raw_includeCI = Some True,
      raw_includeDocker = Some True\<rparr>"

subsection \<open>Raw inputs of the schema\<close>

text \<open>
  The types that the schema declares for the fields, as tests on raw values: a string, a
  boolean, a member of an enumeration, an array of such, and a field that may be absent.
\<close>

definition isString :: "jsvalue \<Rightarrow> bool" where
  "isString v = (case v of VString s \<Rightarrow> True | _ \<Rightarrow> False)"

definition isBoolean :: "jsvalue \<Rightarrow> bool" where
  "isBoolean v = (case v of VBool b \<Rightarrow> True | _ \<Rightarrow> False)"

definition isMember :: "string list \<Rightarrow> jsvalue \<Rightarrow> bool" where
  "isMember members v = (case v of VString s \<Rightarrow> s \<in> set members | _ \<Rightarrow> False)"

definition isArrayOf :: "(jsvalue \<Rightarrow> bool) \<Rightarrow> jsvalue \<Rightarrow> bool" where
  "isArrayOf item v = (case v of VArray xs \<Rightarrow> list_all item xs | _ \<Rightarrow> False)"

definition optionally :: "(jsvalue \<Rightarrow> bool) \<Rightarrow> jsvalue \<Rightarrow> bool" where
  "optionally item v = (v = VUndefined \<or> item v)"

text \<open>
  Every field of the input has the type that the schema declares for it; the fields that
  are optional or have a default may be absent.
\<close>

definition wellTyped :: "jsvalue \<Rightarrow> bool" where
  "wellTyped data =
     (isString (property data ''projectName'') \<and>
      optionally isString (property data ''description'') \<and>
      optionally isString (property data ''author'') \<and>
      optionally isBoolean (property data ''initGit'') \<and>
      isBoolean (property data ''includeUI'') \<and>
      isBoolean (property data ''includeAPI'') \<and>
      isMember (map fst Language_members) (property data ''language'') \<and>
      isMember (map fst BuildTool_members) (property data ''buildTool'') \<and>
      optionally (isMember (map fst UIFramework_members)) (property data ''uiFramework'') \<and>
      optionally (isMember (map fst APIFramework_members)) (property data ''apiFramework'') \<and>
      isMember (map fst TestRunner_members) (property data ''testRunner'') \<and>
      isArrayOf (isMember (map fst ReportingOption_members)) (property data ''reporting'') \<and>
      optionally isBoolean (property data ''includeEnvConfig'') \<and>
      optionally isBoolean (property data ''includeCI'') \<and>
      optionally isBoolean (property data ''includeDocker''))"

text \<open>
  A typed input as a raw value: every field under its name, an absent field as
  \<^verbatim>\<open>undefined\<close>, a member of an enumeration as its string.
\<close>

definition memberName :: "(string \<times> 'a) list \<Rightarrow> 'a \<Rightarrow> jsvalue" where
  "memberName members x = VString (fst (the (find (\<lambda>m. snd m = x) members)))"

definition orUndefined :: "('a \<Rightarrow> jsvalue) \<Rightarrow> 'a option \<Rightarrow> jsvalue" where
  "orUndefined f x = (case x of None \<Rightarrow> VUndefined | Some a \<Rightarrow> f a)"

definition toValue :: "RawConfig \<Rightarrow> jsvalue" where
  "toValue data =
     VObject
       [(''projectName'', VString (raw_projectName data)),
        (''description'', orUndefined VString (raw_description data)),
        (''author'', orUndefined VString (raw_author data)),
        (''initGit'', orUndefined VBool (raw_initGit data)),
        (''includeUI'', VBool (raw_includeUI data)),
        (''includeAPI'', VBool (raw_includeAPI data)),
        (''language'', memberName Language_members (raw_language data)),
        (''buildTool'', memberName BuildTool_members (raw_buildTool data)),
        (''uiFramework'', orUndefined (memberName UIFramework_members) (raw_uiFramework data)),
        (''apiFramework'', orUndefined (memberName APIFramework_members) (raw_apiFramework data)),
        (''testRunner'', memberName TestRunner_members (raw_testRunner data)),
        (''reporting'', VArray (map (memberName ReportingOption_members) (raw_reporting data))),
        (''includeEnvConfig'', orUndefined VBool (raw_includeEnvConfig data)),
        (''includeCI'', orUndefined VBool (raw_includeCI data)),
        (''includeDocker'', orUndefined VBool (raw_includeDocker data))]"

text \<open>The issue of the refinement.\<close>

definition coverageIssue :: ZodIssue where
  "coverageIssue =
     \<lparr>issue_path = [''includeUI''],
      issue_message = ''At least one test type (UI or API) must be selected''\<rparr>"

text \<open>
  The scenario of the specification as a raw object, with a value for the project name
  and the two flags of the coverage.
\<close>

definition demoValue :: "jsvalue \<Rightarrow> bool \<Rightarrow> bool \<Rightarrow> jsvalue" where
  "demoValue nm ui api =
     VObject [(''projectName'', nm), (''initGit'', VBool True),
              (''includeUI'', VBool ui), (''includeAPI'', VBool api),
              (''language'', VString ''python''), (''buildTool'', VString ''pip''),
              (''testRunner'', VString ''pytest''),
              (''reporting'', VArray [VString ''pytest-html''])]"

subsection \<open>Steps of the CI workflow\<close>




subsection \<open>Trees\<close>

text \<open>
  \<^verbatim>\<open>localeCompare\<close> is not code of the repository: it is the collation of the runtime and
  of its locale. What the language specification requires of it, and what is assumed of
  it here, is that it is a consistent comparator: the three-way comparison of a total
  preorder. Different strings may compare equal.
\<close>

definition consistentComparator :: "(string \<Rightarrow> string \<Rightarrow> int) \<Rightarrow> bool" where
  "consistentComparator lc =
     ((\<forall>a b. (lc a b < 0) = (0 < lc b a)) \<and>
      (\<forall>a b c. lc a b \<le> 0 \<and> lc b c \<le> 0 \<longrightarrow> lc a c \<le> 0))"

text \<open>
  Two consistent comparators, for the closed instances of the theorems on \<^const>\<open>buildTree\<close>.
  Neither is \<^verbatim>\<open>localeCompare\<close>. The first compares by character code, which is the
  case-sensitive lexicographic order.
\<close>

definition lexCompare :: "string \<Rightarrow> string \<Rightarrow> int" where
  "lexCompare a b = (if a < b then - 1 else if b < a then 1 else 0)"

text \<open>
  The second compares the way collations do: the control characters other than the white
  space count for nothing, the letters are compared without their case, and two strings
  that differ in case only are told apart by the case, a small letter before its capital.
\<close>

definition ignorable :: "char \<Rightarrow> bool" where
  "ignorable ch =
     ((of_char ch :: nat) < 9 \<or> (13 < (of_char ch :: nat) \<and> (of_char ch :: nat) < 32) \<or>
      (126 < (of_char ch :: nat) \<and> (of_char ch :: nat) < 160))"

definition collate :: "string \<Rightarrow> string \<Rightarrow> int" where
  "collate a b =
     (let letters = (\<lambda>s. toLowerCase (filter (\<lambda>ch. \<not> ignorable ch) s));
          capitals = (\<lambda>s. map (\<lambda>ch. lower_char ch \<noteq> ch) (filter (\<lambda>ch. \<not> ignorable ch) s))
      in if letters a < letters b then - 1 else if letters b < letters a then 1
         else if capitals a < capitals b then - 1 else if capitals b < capitals a then 1
         else 0)"

text \<open>
  The order of the claim on one level: folders before files, and by name inside each of
  the two groups.
\<close>

definition nodeBefore :: "(string \<Rightarrow> string \<Rightarrow> int) \<Rightarrow> TreeNode \<Rightarrow> TreeNode \<Rightarrow> bool" where
  "nodeBefore lc a b =
     ((isFolder a \<and> \<not> isFolder b) \<or> (isFolder a = isFolder b \<and> lc (name a) (name b) \<le> 0))"

fun orderedNode :: "(string \<Rightarrow> string \<Rightarrow> int) \<Rightarrow> TreeNode \<Rightarrow> bool" where
  "orderedNode lc (TreeNode nm f cs) =
     (sorted_wrt (nodeBefore lc) cs \<and> (\<forall>c \<in> set cs. orderedNode lc c))"

definition orderedForest :: "(string \<Rightarrow> string \<Rightarrow> int) \<Rightarrow> TreeNode list \<Rightarrow> bool" where
  "orderedForest lc ns = (sorted_wrt (nodeBefore lc) ns \<and> (\<forall>n \<in> set ns. orderedNode lc n))"

text \<open>
  The flag of the node reached from the roots along the names \<open>q\<close>; \<open>None\<close> when there is
  no such node.
\<close>

fun kindAt :: "TreeNode list \<Rightarrow> string list \<Rightarrow> bool option" where
  "kindAt ns [] = None"
| "kindAt ns (x # q) =
     (case find (\<lambda>n. name n = x) ns of
        None \<Rightarrow> None
      | Some n \<Rightarrow> if q = [] then Some (isFolder n) else kindAt (children n) q)"

text \<open>
  The flag that a path \<open>p\<close> gives to the node at \<open>q\<close>, a non-empty prefix of its parts: a
  folder unless \<open>q\<close> is the whole path and the path does not end in a slash.
\<close>

definition folderIn :: "string \<Rightarrow> string list \<Rightarrow> bool" where
  "folderIn p q = (q \<noteq> pathParts p \<or> endsWith p ''/'')"

text \<open>No node is a file for one path of the list and a folder for another.\<close>

definition kindConsistent :: "string list \<Rightarrow> bool" where
  "kindConsistent ps =
     (\<forall>p \<in> set ps. \<forall>p' \<in> set ps. \<forall>q \<in> set (prefixes (pathParts p)).
        q \<noteq> [] \<and> prefix q (pathParts p') \<longrightarrow> folderIn p q = folderIn p' q)"

text \<open>
  No two different names of one directory compare equal: two prefixes of the parts of paths
  of the list that differ in their last name only have last names that the comparator
  tells apart.
\<close>

definition tieFree :: "(string \<Rightarrow> string \<Rightarrow> int) \<Rightarrow> string list \<Rightarrow> bool" where
  "tieFree lc ps =
     (\<forall>p \<in> set ps. \<forall>p' \<in> set ps.
        \<forall>r \<in> set (prefixes (pathParts p)). \<forall>r' \<in> set (prefixes (pathParts p')).
          r \<noteq> [] \<and> r' \<noteq> [] \<and> butlast r = butlast r' \<and> lc (last r) (last r') = 0 \<longrightarrow>
            last r = last r')"

text \<open>Sibling names are distinct on every level.\<close>

fun distinctNames :: "TreeNode \<Rightarrow> bool" where
  "distinctNames (TreeNode nm f cs) =
     (distinct (map name cs) \<and> (\<forall>c \<in> set cs. distinctNames c))"

definition distinctForest :: "TreeNode list \<Rightarrow> bool" where
  "distinctForest ns = (distinct (map name ns) \<and> (\<forall>n \<in> set ns. distinctNames n))"

text \<open>The flag that the first path of a list naming the node at \<open>q\<close> gives it.\<close>

fun firstKind :: "string list \<Rightarrow> string list \<Rightarrow> bool option" where
  "firstKind [] q = None"
| "firstKind (p # ps) q =
     (if q \<noteq> [] \<and> prefix q (pathParts p) then Some (folderIn p q) else firstKind ps q)"

section \<open>Lemmas\<close>

subsection \<open>Evaluating the path lists\<close>

text \<open>
  The lists of \<^const>\<open>generateFolderTree\<close> and \<^const>\<open>generateFiles\<close> are appends of literal lists
  and of conditionals. The rules below walk such a list without splitting on the
  conditions, so that a property of the list is checked group by group.
\<close>

lemma endsWith_slash: "endsWith p ''/'' = (p \<noteq> [] \<and> last p = CHR ''/'')"
proof (cases p rule: rev_cases)
  case Nil
  then show ?thesis by (simp add: endsWith_def)
next
  case (snoc xs x)
  then show ?thesis by (auto simp add: endsWith_def)
qed

lemma endsWith_append: "s \<noteq> [] \<Longrightarrow> endsWith (p @ s) ''/'' = (last s = CHR ''/'')"
  by (simp add: endsWith_slash)

lemma set_dirPrefixes:
  "set (dirPrefixes p) = {q. strict_prefix q p \<and> endsWith q ''/''}"
proof (induction p)
  case Nil
  then show ?case by simp
next
  case (Cons ch cs)
  show ?case
  proof (intro equalityI subsetI)
    fix q
    assume "q \<in> set (dirPrefixes (ch # cs))"
    then consider "ch = CHR ''/''" "cs \<noteq> []" "q = [ch]"
      | r where "r \<in> set (dirPrefixes cs)" "q = ch # r"
      by (auto split: if_splits)
    then show "q \<in> {q. strict_prefix q (ch # cs) \<and> endsWith q ''/''}"
    proof cases
      case 1
      then show ?thesis by (cases cs) (simp_all add: endsWith_slash)
    next
      case 2
      with Cons.IH have "strict_prefix r cs" "endsWith r ''/''" by auto
      with 2 show ?thesis by (auto simp add: endsWith_slash)
    qed
  next
    fix q
    assume "q \<in> {q. strict_prefix q (ch # cs) \<and> endsWith q ''/''}"
    then have sp: "strict_prefix q (ch # cs)" and e: "endsWith q ''/''" by simp_all
    from e obtain r where q: "q = ch # r" using sp by (cases q) (auto simp add: endsWith_slash)
    with sp have spr: "strict_prefix r cs" by simp
    show "q \<in> set (dirPrefixes (ch # cs))"
    proof (cases "r = []")
      case True
      with q e spr show ?thesis by (auto simp add: endsWith_slash)
    next
      case False
      with e q have "endsWith r ''/''" by (simp add: endsWith_slash)
      with spr Cons.IH have "r \<in> set (dirPrefixes cs)" by simp
      with q show ?thesis by simp
    qed
  qed
qed

lemma dirPrefixes_append:
  "CHR ''/'' \<notin> set p \<Longrightarrow> s \<noteq> [] \<Longrightarrow> dirPrefixes (p @ s) = map ((@) p) (dirPrefixes s)"
proof (induction p)
  case Nil
  have "((@) []) = (\<lambda>x::string. x)" by (rule ext) simp
  then show ?case by simp
next
  case (Cons a p)
  then show ?case by (auto simp add: comp_def)
qed

lemma ball_list:
  "(\<forall>x \<in> set []. P x) = True"
  "(\<forall>x \<in> set (a # xs). P x) = (P a \<and> (\<forall>x \<in> set xs. P x))"
  "(\<forall>x \<in> set (xs @ ys). P x) = ((\<forall>x \<in> set xs. P x) \<and> (\<forall>x \<in> set ys. P x))"
  "(\<forall>x \<in> set (if b then xs else ys). P x) =
     ((b \<longrightarrow> (\<forall>x \<in> set xs. P x)) \<and> (\<not> b \<longrightarrow> (\<forall>x \<in> set ys. P x)))"
  by auto

lemma mem_list:
  "(x \<in> set []) = False"
  "(x \<in> set (a # xs)) = (x = a \<or> x \<in> set xs)"
  "(x \<in> set (xs @ ys)) = (x \<in> set xs \<or> x \<in> set ys)"
  "(x \<in> set (if b then xs else ys)) = ((b \<and> x \<in> set xs) \<or> (\<not> b \<and> x \<in> set ys))"
  by auto

lemma subset_list: "(set xs \<subseteq> S) = (\<forall>x \<in> set xs. x \<in> S)"
  by auto

lemma distinct_list:
  "distinct [] = True"
  "distinct (a # xs) = (a \<notin> set xs \<and> distinct xs)"
  "distinct (xs @ ys) = (distinct xs \<and> distinct ys \<and> (\<forall>x \<in> set xs. x \<notin> set ys))"
  "distinct (if b then xs else ys) = ((b \<longrightarrow> distinct xs) \<and> (\<not> b \<longrightarrow> distinct ys))"
  by auto

lemma map_list:
  "map f [] = []"
  "map f (a # xs) = f a # map f xs"
  "map f (xs @ ys) = map f xs @ map f ys"
  "map f (if b then xs else ys) = (if b then map f xs else map f ys)"
  by auto

lemmas literal_eval =
  same_append_eq list.inject list.distinct char.inject simp_thms if_True if_False
  dirPrefixes.simps append.simps de_Morgan_disj de_Morgan_conj last.simps


lemma tree_distinct: "distinct (generateFolderTree c)"
  unfolding generateFolderTree_def distinct_sort
  by (cases "language c")
    (simp_all only: ball_list mem_list distinct_list literal_eval Language.distinct)

lemma tree_closed:
  assumes "CHR ''/'' \<notin> set (projectName c)"
  shows "\<forall>p \<in> set (generateFolderTree c). set (dirPrefixes p) \<subseteq> set (generateFolderTree c)"
  unfolding generateFolderTree_def set_sort
  using assms
  by (cases "language c")
    (simp_all only: ball_list mem_list map_list subset_list dirPrefixes_append literal_eval
      Language.distinct)


lemma files_in_tree:
  assumes "\<not> (language c = Java \<and> buildTool c \<noteq> Maven)"
  shows "\<forall>p \<in> set (map path (generateFiles c)). p \<in> set (generateFolderTree c) \<and> \<not> endsWith p ''/''"
proof (cases "language c")
  case Typescript
  then show ?thesis
    unfolding generateFolderTree_def generateFiles_def set_sort
    by (simp only: ball_list mem_list map_list FileEntry.select_convs endsWith_append literal_eval
        Language.distinct)
next
  case Java
  with assms have "buildTool c = Maven" by simp
  with Java show ?thesis
    unfolding generateFolderTree_def generateFiles_def set_sort
    by (simp only: ball_list mem_list map_list FileEntry.select_convs endsWith_append literal_eval
        Language.distinct)
next
  case Python
  then show ?thesis
    unfolding generateFolderTree_def generateFiles_def set_sort
    by (simp only: ball_list mem_list map_list FileEntry.select_convs endsWith_append literal_eval
        Language.distinct)
qed

lemma tree_in_files:
  assumes "\<not> (language c = Java \<and> buildTool c \<noteq> Maven)"
  shows "\<forall>p \<in> set (generateFolderTree c). \<not> endsWith p ''/'' \<longrightarrow> p \<in> set (map path (generateFiles c))"
proof (cases "language c")
  case Typescript
  then show ?thesis
    unfolding generateFolderTree_def generateFiles_def set_sort
    by (simp only: ball_list mem_list map_list FileEntry.select_convs endsWith_append literal_eval
        Language.distinct)
next
  case Java
  with assms have "buildTool c = Maven" by simp
  with Java show ?thesis
    unfolding generateFolderTree_def generateFiles_def set_sort
    by (simp only: ball_list mem_list map_list FileEntry.select_convs endsWith_append literal_eval
        Language.distinct)
next
  case Python
  then show ?thesis
    unfolding generateFolderTree_def generateFiles_def set_sort
    by (simp only: ball_list mem_list map_list FileEntry.select_convs endsWith_append literal_eval
        Language.distinct)
qed

subsection \<open>The project name\<close>

lemma slug_char_code: "slug_char ch \<longleftrightarrow> (97 \<le> (of_char ch :: nat) \<and> (of_char ch :: nat) \<le> 122) \<or> (48 \<le> (of_char ch :: nat) \<and> (of_char ch :: nat) \<le> 57) \<or> (of_char ch :: nat) = 45"
proof -
  have "(of_char (CHR ''-'') :: nat) = 45" by simp
  then have a: "ch = CHR ''-'' \<longleftrightarrow> (of_char ch :: nat) = 45"
    by (metis of_char_eq_iff)
  show ?thesis unfolding slug_char_def less_eq_char_def a by simp
qed

lemma lower_char_slug: "slug_char ch \<Longrightarrow> lower_char ch = ch"
  by (auto simp add: slug_char_code lower_char_def Let_def)

lemma toLowerCase_slug: "list_all slug_char s \<Longrightarrow> toLowerCase s = s"
  by (induction s) (simp_all add: toLowerCase_def lower_char_slug)

lemma replace_disallowed_slug: "list_all slug_char s \<Longrightarrow> replace_disallowed s = s"
  by (induction s) (simp_all add: replace_disallowed_def)

lemma collapse_hyphens_id: "\<not> sublist ''--'' s \<Longrightarrow> collapse_hyphens s = s"
proof (induction s rule: collapse_hyphens.induct)
  case (3 ch ch' cs)
  from "3.prems" have np: "\<not> prefix ''--'' (ch # ch' # cs)" and ns: "\<not> sublist ''--'' (ch' # cs)"
    by (simp_all add: sublist_Cons_right)
  from np have "\<not> (ch = CHR ''-'' \<and> ch' = CHR ''-'')" by auto
  with 3 ns show ?case by auto
qed simp_all

lemma collapse_hyphens_all: "list_all P s \<Longrightarrow> list_all P (collapse_hyphens s)"
  by (induction s rule: collapse_hyphens.induct) auto

lemma collapse_hyphens_nonempty: "s \<noteq> [] \<Longrightarrow> collapse_hyphens s \<noteq> []"
  by (induction s rule: collapse_hyphens.induct) auto

lemma replace_disallowed_nonempty: "s \<noteq> [] \<Longrightarrow> replace_disallowed (toLowerCase s) \<noteq> []"
  by (simp add: replace_disallowed_def toLowerCase_def)

lemma replace_disallowed_all: "list_all slug_char (replace_disallowed s)"
  by (induction s) (simp_all add: replace_disallowed_def slug_char_def)

lemma slug_matches: "s \<noteq> [] \<Longrightarrow> slug_regex (slug s)"
  unfolding slug_regex_def slug_def
  by (simp add: collapse_hyphens_all replace_disallowed_all collapse_hyphens_nonempty replace_disallowed_nonempty)

lemma slug_normalized: "slug_regex s \<Longrightarrow> \<not> sublist ''--'' s \<Longrightarrow> slug s = s"
  by (simp add: slug_def slug_regex_def toLowerCase_slug replace_disallowed_slug collapse_hyphens_id)

lemma hd_collapse_hyphens: "s \<noteq> [] \<Longrightarrow> hd (collapse_hyphens s) = hd s"
  by (induction s rule: collapse_hyphens.induct) auto

lemma collapse_hyphens_no_run: "\<not> sublist ''--'' (collapse_hyphens s)"
proof (induction s rule: collapse_hyphens.induct)
  case 1
  then show ?case by simp
next
  case (2 ch)
  then show ?case by (simp add: sublist_Cons_right)
next
  case (3 ch ch' cs)
  show ?case
  proof (cases "ch = CHR ''-'' \<and> ch' = CHR ''-''")
    case True
    with 3 show ?thesis by simp
  next
    case False
    have ne: "collapse_hyphens (ch' # cs) \<noteq> []" by (rule collapse_hyphens_nonempty) simp
    then obtain x xs where c: "collapse_hyphens (ch' # cs) = x # xs" by (cases "collapse_hyphens (ch' # cs)") auto
    from hd_collapse_hyphens [of "ch' # cs"] c have x: "x = ch'" by simp
    from False 3 have "\<not> sublist ''--'' (x # xs)" using c by simp
    moreover from False x have "\<not> prefix ''--'' (ch # x # xs)" by auto
    ultimately have "\<not> sublist ''--'' (ch # x # xs)" by (simp add: sublist_Cons_right)
    with False c show ?thesis by auto
  qed
qed

lemma slug_slug: "slug (slug v) = slug v"
proof (cases "v = []")
  case True
  then show ?thesis by (simp add: slug_def toLowerCase_def replace_disallowed_def)
next
  case False
  then have "slug_regex (slug v)" by (rule slug_matches)
  moreover have "\<not> sublist ''--'' (slug v)" unfolding slug_def by (rule collapse_hyphens_no_run)
  ultimately show ?thesis by (rule slug_normalized)
qed

lemma slug_regex_no_slash: "slug_regex p \<Longrightarrow> CHR ''/'' \<notin> set p"
  by (auto simp add: slug_regex_def list_all_iff slug_char_def)

lemma valid_projectName:
  "ProjectConfigSchema_safeParse data = Inr config \<Longrightarrow> slug_regex (projectName config)"
  by (auto simp add: ProjectConfigSchema_safeParse_def ProjectConfigSchema_issues_def check_def
      ProjectConfigSchema_output_def split: if_splits)

subsection \<open>The CI workflow\<close>





subsection \<open>The fields a generator reads\<close>

lemma env_fields:
  "projectName (c\<lparr>includeEnvConfig := b\<rparr>) = projectName c"
  "description (c\<lparr>includeEnvConfig := b\<rparr>) = description c"
  "author (c\<lparr>includeEnvConfig := b\<rparr>) = author c"
  "initGit (c\<lparr>includeEnvConfig := b\<rparr>) = initGit c"
  "includeUI (c\<lparr>includeEnvConfig := b\<rparr>) = includeUI c"
  "includeAPI (c\<lparr>includeEnvConfig := b\<rparr>) = includeAPI c"
  "language (c\<lparr>includeEnvConfig := b\<rparr>) = language c"
  "buildTool (c\<lparr>includeEnvConfig := b\<rparr>) = buildTool c"
  "uiFramework (c\<lparr>includeEnvConfig := b\<rparr>) = uiFramework c"
  "apiFramework (c\<lparr>includeEnvConfig := b\<rparr>) = apiFramework c"
  "testRunner (c\<lparr>includeEnvConfig := b\<rparr>) = testRunner c"
  "reporting (c\<lparr>includeEnvConfig := b\<rparr>) = reporting c"
  "includeCI (c\<lparr>includeEnvConfig := b\<rparr>) = includeCI c"
  "includeDocker (c\<lparr>includeEnvConfig := b\<rparr>) = includeDocker c"
  by simp_all

lemma env_generators:
  "generateTypeScriptPackageJson (c\<lparr>includeEnvConfig := b\<rparr>) = generateTypeScriptPackageJson c"
  "generatePlaywrightConfig (c\<lparr>includeEnvConfig := b\<rparr>) = generatePlaywrightConfig c"
  "generateReadme (c\<lparr>includeEnvConfig := b\<rparr>) = generateReadme c"
  "generateGitHubWorkflow (c\<lparr>includeEnvConfig := b\<rparr>) = generateGitHubWorkflow c"
  "generateDockerfile (c\<lparr>includeEnvConfig := b\<rparr>) = generateDockerfile c"
  "generateDockerCompose (c\<lparr>includeEnvConfig := b\<rparr>) = generateDockerCompose c"
  "generateJavaPom (c\<lparr>includeEnvConfig := b\<rparr>) = generateJavaPom c"
  "generateJavaBaseTest (c\<lparr>includeEnvConfig := b\<rparr>) = generateJavaBaseTest c"
  "generatePythonPyprojectToml (c\<lparr>includeEnvConfig := b\<rparr>) = generatePythonPyprojectToml c"
  "generatePythonRequirements (c\<lparr>includeEnvConfig := b\<rparr>) = generatePythonRequirements c"
  "generatePythonConftest (c\<lparr>includeEnvConfig := b\<rparr>) = generatePythonConftest c"
  "generatePythonBasePage (c\<lparr>includeEnvConfig := b\<rparr>) = generatePythonBasePage c"
  "generatePythonLoginPage (c\<lparr>includeEnvConfig := b\<rparr>) = generatePythonLoginPage c"
  "generatePythonLoginTest (c\<lparr>includeEnvConfig := b\<rparr>) = generatePythonLoginTest c"
  unfolding generateTypeScriptPackageJson_def generatePlaywrightConfig_def generateReadme_def
    generateGitHubWorkflow_def generateDockerfile_def generateDockerCompose_def generateJavaPom_def
    generateJavaBaseTest_def generatePythonPyprojectToml_def generatePythonRequirements_def
    generatePythonConftest_def generatePythonBasePage_def generatePythonLoginPage_def
    generatePythonLoginTest_def env_fields
  by (rule refl)+

subsection \<open>Sorting with a comparator\<close>

lemma set_insertSorted: "set (insertSorted cmp x ys) = insert x (set ys)"
  by (induction ys) auto

lemma set_sortBy: "set (sortBy cmp xs) = set xs"
  by (induction xs) (simp_all add: set_insertSorted)

lemma sorted_insertSorted:
  assumes tot: "\<And>a b. cmp a b \<le> 0 \<or> cmp b a \<le> 0"
    and trans: "\<And>a b c. cmp a b \<le> 0 \<Longrightarrow> cmp b c \<le> 0 \<Longrightarrow> cmp a c \<le> 0"
  shows "sorted_wrt (\<lambda>a b. cmp a b \<le> 0) ys \<Longrightarrow> sorted_wrt (\<lambda>a b. cmp a b \<le> 0) (insertSorted cmp x ys)"
proof (induction ys)
  case Nil
  then show ?case by simp
next
  case (Cons y ys)
  show ?case
  proof (cases "cmp x y \<le> 0")
    case True
    with Cons.prems trans show ?thesis by auto
  next
    case False
    with tot have "cmp y x \<le> 0" by blast
    with False Cons show ?thesis by (auto simp add: set_insertSorted)
  qed
qed

lemma sorted_sortBy:
  assumes tot: "\<And>a b. cmp a b \<le> 0 \<or> cmp b a \<le> 0"
    and trans: "\<And>a b c. cmp a b \<le> 0 \<Longrightarrow> cmp b c \<le> 0 \<Longrightarrow> cmp a c \<le> 0"
  shows "sorted_wrt (\<lambda>a b. cmp a b \<le> 0) (sortBy cmp xs)"
  by (induction xs) (simp_all add: sorted_insertSorted [OF tot trans])

lemma distinct_map_insertSorted:
  "distinct (map f (insertSorted cmp x ys)) = (f x \<notin> f ` set ys \<and> distinct (map f ys))"
  by (induction ys) (auto simp add: set_insertSorted)

lemma distinct_map_sortBy: "distinct (map f (sortBy cmp xs)) = distinct (map f xs)"
  by (induction xs) (simp_all add: distinct_map_insertSorted set_sortBy)

lemma sorted_wrt_unique:
  assumes "sorted_wrt R xs" "sorted_wrt R ys" "distinct xs" "distinct ys" "set xs = set ys"
    and anti: "\<And>a b. a \<in> set xs \<Longrightarrow> b \<in> set xs \<Longrightarrow> R a b \<Longrightarrow> R b a \<Longrightarrow> a = b"
  shows "xs = ys"
  using assms
proof (induction xs arbitrary: ys)
  case Nil
  then show ?case by simp
next
  case (Cons x xs)
  from Cons.prems(5) obtain y ys' where ys: "ys = y # ys'" by (cases ys) auto
  have xy: "x = y"
  proof (rule ccontr)
    assume ne: "x \<noteq> y"
    from Cons.prems(5) ys ne have "x \<in> set ys'" "y \<in> set xs" by auto
    with Cons.prems(1,2) ys have "R y x" "R x y" by auto
    moreover have "x \<in> set (x # xs)" "y \<in> set (x # xs)" using \<open>y \<in> set xs\<close> by auto
    ultimately have "x = y" using Cons.prems(6) by blast
    with ne show False by contradiction
  qed
  from Cons.prems(3,4,5) ys xy have s: "set xs = set ys'" by auto
  have "xs = ys'"
  proof (rule Cons.IH)
    show "sorted_wrt R xs" using Cons.prems(1) by simp
    show "sorted_wrt R ys'" using Cons.prems(2) ys by simp
    show "distinct xs" using Cons.prems(3) by simp
    show "distinct ys'" using Cons.prems(4) ys by simp
    show "set xs = set ys'" by (rule s)
    show "\<And>a b. a \<in> set xs \<Longrightarrow> b \<in> set xs \<Longrightarrow> R a b \<Longrightarrow> R b a \<Longrightarrow> a = b"
      using Cons.prems(6) by simp
  qed
  with xy ys show ?case by simp
qed

subsection \<open>The node comparator\<close>

lemma nodeCompare_le: "(nodeCompare lc a b \<le> 0) = nodeBefore lc a b"
  by (auto simp add: nodeCompare_def nodeBefore_def)

lemma lexCompare_consistent: "consistentComparator lexCompare"
  unfolding consistentComparator_def lexCompare_def by auto

lemma keyed_consistent:
  fixes k1 :: "string \<Rightarrow> 'a::linorder" and k2 :: "string \<Rightarrow> 'b::linorder"
  shows "consistentComparator (\<lambda>a b.
           if k1 a < k1 b then - 1 else if k1 b < k1 a then 1
           else if k2 a < k2 b then - 1 else if k2 b < k2 a then 1 else 0)"
  unfolding consistentComparator_def by (auto dest: less_trans)

lemma collate_consistent: "consistentComparator collate"
proof -
  have eq: "collate = (\<lambda>a b.
      if toLowerCase (filter (\<lambda>ch. \<not> ignorable ch) a) < toLowerCase (filter (\<lambda>ch. \<not> ignorable ch) b)
      then - 1
      else if toLowerCase (filter (\<lambda>ch. \<not> ignorable ch) b) < toLowerCase (filter (\<lambda>ch. \<not> ignorable ch) a)
      then 1
      else if map (\<lambda>ch. lower_char ch \<noteq> ch) (filter (\<lambda>ch. \<not> ignorable ch) a)
            < map (\<lambda>ch. lower_char ch \<noteq> ch) (filter (\<lambda>ch. \<not> ignorable ch) b)
      then - 1
      else if map (\<lambda>ch. lower_char ch \<noteq> ch) (filter (\<lambda>ch. \<not> ignorable ch) b)
            < map (\<lambda>ch. lower_char ch \<noteq> ch) (filter (\<lambda>ch. \<not> ignorable ch) a)
      then 1 else 0)"
    by (intro ext) (simp add: collate_def Let_def)
  show ?thesis unfolding eq by (rule keyed_consistent)
qed

lemma comparator_refl: "consistentComparator lc \<Longrightarrow> lc a a = 0"
  unfolding consistentComparator_def by (metis less_asym linorder_neqE_linordered_idom)

lemma comparator_tie:
  "consistentComparator lc \<Longrightarrow> lc a b \<le> 0 \<Longrightarrow> lc b a \<le> 0 \<Longrightarrow> lc a b = 0"
  unfolding consistentComparator_def by (metis linorder_not_less order_le_less)

lemma nodeBefore_total: "consistentComparator lc \<Longrightarrow> nodeBefore lc a b \<or> nodeBefore lc b a"
  unfolding consistentComparator_def nodeBefore_def
  by (metis linorder_not_less order_less_imp_le)

lemma nodeBefore_trans:
  "consistentComparator lc \<Longrightarrow> nodeBefore lc a b \<Longrightarrow> nodeBefore lc b c \<Longrightarrow> nodeBefore lc a c"
  unfolding consistentComparator_def nodeBefore_def by blast

lemma nodeBefore_tie:
  "consistentComparator lc \<Longrightarrow> nodeBefore lc a b \<Longrightarrow> nodeBefore lc b a \<Longrightarrow>
     lc (name a) (name b) = 0"
  unfolding nodeBefore_def using comparator_tie by blast

lemma sorted_sortBy_nodes:
  "consistentComparator lc \<Longrightarrow> sorted_wrt (nodeBefore lc) (sortBy (nodeCompare lc) ns)"
  using sorted_sortBy [of "nodeCompare lc" ns] nodeBefore_total [of lc] nodeBefore_trans [of lc]
  unfolding nodeCompare_le by blast

lemma orderedNode_sortNode: "consistentComparator lc \<Longrightarrow> orderedNode lc (sortNode lc n)"
proof (induction n)
  case (TreeNode nm f cs)
  then show ?case by (auto simp add: sorted_sortBy_nodes set_sortBy)
qed

lemma orderedForest_sortNodes: "consistentComparator lc \<Longrightarrow> orderedForest lc (sortNodes lc ns)"
  by (auto simp add: orderedForest_def sortNodes_def sorted_sortBy_nodes set_sortBy orderedNode_sortNode)

subsection \<open>Kinds of nodes after insertion\<close>

lemma kindAt_insertParts:
  "kindAt (insertParts slash parts t) q =
     (case kindAt t q of
        Some k \<Rightarrow> Some k
      | None \<Rightarrow> if q \<noteq> [] \<and> prefix q parts then Some (q \<noteq> parts \<or> slash) else None)"
proof (induction slash parts t arbitrary: q rule: insertParts.induct)
  case (1 slash current)
  then show ?case by (cases q) (auto split: option.splits)
next
  case (2 slash part rest)
  show ?case
  proof (cases q)
    case Nil
    then show ?thesis by simp
  next
    case (Cons x q')
    then show ?thesis using 2 [of q'] by (cases q') auto
  qed
next
  case (3 slash part rest n ns)
  show ?case
  proof (cases q)
    case Nil
    then show ?thesis by simp
  next
    case (Cons x q')
    show ?thesis
    proof (cases "name n = part")
      case True
      then show ?thesis using Cons 3(1) [OF True, of q'] by (cases q') (auto split: option.splits)
    next
      case False
      then show ?thesis using Cons 3(2) [OF False, of q] by (auto split: option.splits)
    qed
  qed
qed

lemma kindAt_insertPath:
  "kindAt (insertPath t p) q =
     (case kindAt t q of
        Some k \<Rightarrow> Some k
      | None \<Rightarrow> if q \<noteq> [] \<and> prefix q (pathParts p) then Some (folderIn p q) else None)"
  by (simp add: insertPath_def kindAt_insertParts folderIn_def split: option.splits)

lemma kindAt_foldl:
  "kindAt (foldl insertPath t ps) q =
     (case kindAt t q of Some k \<Rightarrow> Some k | None \<Rightarrow> firstKind ps q)"
  by (induction ps arbitrary: t) (auto simp add: kindAt_insertPath split: option.splits)

lemma kindAt_Nil: "kindAt [] q = None"
  by (cases q) simp_all

lemma kindAt_built: "kindAt (foldl insertPath [] ps) q = firstKind ps q"
  by (simp add: kindAt_foldl kindAt_Nil)

subsection \<open>Sibling names stay distinct\<close>

lemma names_insertParts:
  "map name (insertParts slash (part # rest) ns) =
     (if part \<in> set (map name ns) then map name ns else map name ns @ [part])"
  by (induction ns) auto

lemma distinctNames_children: "distinctNames n \<Longrightarrow> distinctForest (children n)"
  by (cases n) (simp add: distinctForest_def)


lemma distinctForest_insertParts:
  "distinctForest t \<Longrightarrow> distinctForest (insertParts slash parts t)"
proof (induction slash parts t rule: insertParts.induct)
  case (1 slash current)
  then show ?case by simp
next
  case (2 slash part rest)
  have "distinctForest []" by (simp add: distinctForest_def)
  with 2 have "distinctForest (insertParts slash rest [])" by blast
  then show ?case by (simp add: distinctForest_def)
next
  case (3 slash part rest n ns)
  show ?case
  proof (cases "name n = part")
    case True
    from 3(3) have "distinctNames n" by (simp add: distinctForest_def)
    then have "distinctForest (children n)" by (rule distinctNames_children)
    with 3(1) [OF True] have "distinctForest (insertParts slash rest (children n))" by blast
    then have "distinctNames (TreeNode (name n) (isFolder n) (insertParts slash rest (children n)))"
      by (simp add: distinctForest_def)
    with True 3(3) show ?thesis by (simp add: distinctForest_def)
  next
    case False
    from 3(3) have "distinctForest ns" by (simp add: distinctForest_def)
    with 3(2) [OF False] have d: "distinctForest (insertParts slash (part # rest) ns)" by blast
    have "name n \<notin> set (map name (insertParts slash (part # rest) ns))"
      using False 3(3) unfolding names_insertParts by (auto simp add: distinctForest_def)
    with False d 3(3) show ?thesis by (simp add: distinctForest_def)
  qed
qed

lemma distinctForest_built: "distinctForest t \<Longrightarrow> distinctForest (foldl insertPath t ps)"
  by (induction ps arbitrary: t) (simp_all add: insertPath_def distinctForest_insertParts)

subsection \<open>Sorting keeps the kinds\<close>

lemma find_name_unique:
  "distinct (map name ns) \<Longrightarrow> n \<in> set ns \<Longrightarrow> find (\<lambda>m. name m = name n) ns = Some n"
proof (induction ns)
  case Nil
  then show ?case by simp
next
  case (Cons a ns)
  show ?case
  proof (cases "a = n")
    case True
    then show ?thesis by simp
  next
    case False
    with Cons.prems have n: "n \<in> set ns" by simp
    then have "name n \<in> name ` set ns" by (rule imageI)
    with Cons.prems have "name a \<noteq> name n" by auto
    with Cons.IH Cons.prems n show ?thesis by simp
  qed
qed

lemma find_name_None: "(find (\<lambda>m. name m = x) ns = None) = (x \<notin> name ` set ns)"
  by (auto simp add: find_None_iff)

lemma find_name_Some: "find (\<lambda>m. name m = x) ns = Some n \<Longrightarrow> n \<in> set ns \<and> name n = x"
  by (induction ns) (auto split: if_splits)

lemma name_sortNode [simp]: "name (sortNode lc n) = name n"
  by (cases n) simp

lemma isFolder_sortNode [simp]: "isFolder (sortNode lc n) = isFolder n"
  by (cases n) simp

lemma children_sortNode: "children (sortNode lc n) = sortNodes lc (children n)"
  by (cases n) (simp add: sortNodes_def)

lemma find_sortNodes:
  assumes "distinct (map name ns)"
  shows "find (\<lambda>m. name m = x) (sortNodes lc ns) = map_option (sortNode lc) (find (\<lambda>m. name m = x) ns)"
proof (cases "find (\<lambda>m. name m = x) ns")
  case None
  then have "x \<notin> name ` set ns" by (simp add: find_name_None)
  then have "x \<notin> name ` set (sortNodes lc ns)" by (auto simp add: sortNodes_def set_sortBy)
  then have "find (\<lambda>m. name m = x) (sortNodes lc ns) = None" using find_name_None by blast
  with None show ?thesis by simp
next
  case (Some n)
  then have n: "n \<in> set ns" "name n = x" using find_name_Some by blast+
  have d: "distinct (map name (sortNodes lc ns))"
    using assms by (simp add: sortNodes_def distinct_map_sortBy comp_def)
  have "sortNode lc n \<in> set (sortNodes lc ns)" using n by (simp add: sortNodes_def set_sortBy)
  from find_name_unique [OF d this] n Some show ?thesis by simp
qed

lemma kindAt_sortNodes: "distinctForest t \<Longrightarrow> kindAt (sortNodes lc t) q = kindAt t q"
proof (induction t q rule: kindAt.induct)
  case (1 ns)
  then show ?case by simp
next
  case (2 ns x q)
  from 2(2) have d: "distinct (map name ns)" by (simp add: distinctForest_def)
  show ?case
  proof (cases "find (\<lambda>n. name n = x) ns")
    case None
    then show ?thesis by (simp add: find_sortNodes [OF d])
  next
    case (Some n)
    then have "n \<in> set ns" using find_name_Some by blast
    with 2(2) have "distinctNames n" by (simp add: distinctForest_def)
    then have dn: "distinctForest (children n)" by (rule distinctNames_children)
    show ?thesis
    proof (cases "q = []")
      case True
      with Some show ?thesis by (simp add: find_sortNodes [OF d])
    next
      case False
      with 2(1) [OF Some False dn] Some show ?thesis
        by (simp add: find_sortNodes [OF d] children_sortNode)
    qed
  qed
qed

subsection \<open>The kinds fix the sorted tree\<close>

lemma kindAt_single:
  "distinct (map name ns) \<Longrightarrow> n \<in> set ns \<Longrightarrow> kindAt ns [name n] = Some (isFolder n)"
  by (simp add: find_name_unique)

lemma kindAt_below:
  "distinct (map name ns) \<Longrightarrow> n \<in> set ns \<Longrightarrow> q \<noteq> [] \<Longrightarrow>
     kindAt ns (name n # q) = kindAt (children n) q"
  by (simp add: find_name_unique)

lemma kindAt_single_Some:
  "kindAt ns [x] = Some k \<Longrightarrow> \<exists>n \<in> set ns. name n = x \<and> isFolder n = k"
proof -
  assume "kindAt ns [x] = Some k"
  then obtain n where f: "find (\<lambda>n. name n = x) ns = Some n" and k: "isFolder n = k"
    by (auto split: option.splits)
  from find_name_Some [OF f] k show ?thesis by blast
qed

lemma sortNode_eq:
  "name a = name b \<Longrightarrow> isFolder a = isFolder b \<Longrightarrow>
     sortNodes lc (children a) = sortNodes lc (children b) \<Longrightarrow> sortNode lc a = sortNode lc b"
  by (cases a; cases b) (simp add: sortNodes_def)

lemma sortBy_nodes_unique:
  assumes lc: "consistentComparator lc"
    and "distinct (map name xs)" "distinct (map name ys)" "set xs = set ys"
    and untied: "\<And>a b. a \<in> set xs \<Longrightarrow> b \<in> set xs \<Longrightarrow> lc (name a) (name b) = 0 \<Longrightarrow>
                   name a = name b"
  shows "sortBy (nodeCompare lc) xs = sortBy (nodeCompare lc) ys"
proof (rule sorted_wrt_unique [where R = "nodeBefore lc"])
  show "sorted_wrt (nodeBefore lc) (sortBy (nodeCompare lc) xs)"
    by (rule sorted_sortBy_nodes [OF lc])
  show "sorted_wrt (nodeBefore lc) (sortBy (nodeCompare lc) ys)"
    by (rule sorted_sortBy_nodes [OF lc])
  have "distinct (map name (sortBy (nodeCompare lc) xs))"
    using assms(2) by (simp add: distinct_map_sortBy)
  then show "distinct (sortBy (nodeCompare lc) xs)" by (simp add: distinct_map)
  have "distinct (map name (sortBy (nodeCompare lc) ys))"
    using assms(3) by (simp add: distinct_map_sortBy)
  then show "distinct (sortBy (nodeCompare lc) ys)" by (simp add: distinct_map)
  show "set (sortBy (nodeCompare lc) xs) = set (sortBy (nodeCompare lc) ys)"
    using assms(4) by (simp add: set_sortBy)
  fix a b
  assume a: "a \<in> set (sortBy (nodeCompare lc) xs)" and b: "b \<in> set (sortBy (nodeCompare lc) xs)"
    and ab: "nodeBefore lc a b" and ba: "nodeBefore lc b a"
  from a b have ax: "a \<in> set xs" and bx: "b \<in> set xs" by (simp_all add: set_sortBy)
  have "lc (name a) (name b) = 0" by (rule nodeBefore_tie [OF lc ab ba])
  with ax bx have nm: "name a = name b" by (rule untied)
  from assms(2) have "inj_on name (set xs)" by (simp add: distinct_map)
  then show "a = b" using nm ax bx by (rule inj_onD)
qed

lemma sortNodes_canonical_step:
  assumes lc: "consistentComparator lc"
    and IH: "\<And>c ms. c \<in> set cs \<Longrightarrow> distinctForest (children c) \<Longrightarrow> distinctForest ms \<Longrightarrow>
               (\<forall>q. kindAt (children c) q = kindAt ms q) \<Longrightarrow>
               (\<forall>q a b. kindAt (children c) (q @ [a]) \<noteq> None \<and> kindAt (children c) (q @ [b]) \<noteq> None \<and>
                  lc a b = 0 \<longrightarrow> a = b) \<Longrightarrow>
               sortNodes lc (children c) = sortNodes lc ms"
    and d1: "distinctForest cs" and d2: "distinctForest ms"
    and eq: "\<forall>q. kindAt cs q = kindAt ms q"
    and untied: "\<forall>q a b. kindAt cs (q @ [a]) \<noteq> None \<and> kindAt cs (q @ [b]) \<noteq> None \<and> lc a b = 0 \<longrightarrow> a = b"
  shows "sortNodes lc cs = sortNodes lc ms"
proof -
  from d1 d2 have dn1: "distinct (map name cs)" and dn2: "distinct (map name ms)"
    by (simp_all add: distinctForest_def)
  have match: "\<exists>m \<in> set ms. sortNode lc c = sortNode lc m" if c: "c \<in> set cs" for c
  proof -
    from eq kindAt_single [OF dn1 c] have "kindAt ms [name c] = Some (isFolder c)" by metis
    from kindAt_single_Some [OF this] obtain m
      where m: "m \<in> set ms" "name m = name c" "isFolder m = isFolder c" by blast
    from d1 c have "distinctNames c" by (simp add: distinctForest_def)
    then have dc: "distinctForest (children c)" by (rule distinctNames_children)
    from d2 m(1) have "distinctNames m" by (simp add: distinctForest_def)
    then have dm: "distinctForest (children m)" by (rule distinctNames_children)
    have "kindAt (children c) q = kindAt (children m) q" for q
    proof (cases "q = []")
      case True
      then show ?thesis by simp
    next
      case False
      have "kindAt (children c) q = kindAt cs (name c # q)"
        by (rule kindAt_below [OF dn1 c False, symmetric])
      also have "\<dots> = kindAt ms (name c # q)" using eq by (rule spec)
      also have "\<dots> = kindAt ms (name m # q)" by (simp only: m(2))
      also have "\<dots> = kindAt (children m) q" by (rule kindAt_below [OF dn2 m(1) False])
      finally show ?thesis .
    qed
    then have same: "\<forall>q. kindAt (children c) q = kindAt (children m) q" by (rule allI)
    have below: "\<forall>q a b. kindAt (children c) (q @ [a]) \<noteq> None \<and> kindAt (children c) (q @ [b]) \<noteq> None \<and>
        lc a b = 0 \<longrightarrow> a = b"
    proof (intro allI impI)
      fix q a b
      assume h: "kindAt (children c) (q @ [a]) \<noteq> None \<and> kindAt (children c) (q @ [b]) \<noteq> None \<and>
        lc a b = 0"
      have ka: "kindAt cs ((name c # q) @ [a]) = kindAt (children c) (q @ [a])"
        using kindAt_below [OF dn1 c, of "q @ [a]"] by simp
      have kb: "kindAt cs ((name c # q) @ [b]) = kindAt (children c) (q @ [b])"
        using kindAt_below [OF dn1 c, of "q @ [b]"] by simp
      from h ka kb have "kindAt cs ((name c # q) @ [a]) \<noteq> None \<and>
          kindAt cs ((name c # q) @ [b]) \<noteq> None \<and> lc a b = 0"
        by simp
      with untied show "a = b" by blast
    qed
    have "sortNodes lc (children c) = sortNodes lc (children m)"
      by (rule IH [OF c dc dm same below])
    with m have "sortNode lc c = sortNode lc m" by (intro sortNode_eq) simp_all
    with m(1) show ?thesis by blast
  qed
  have match_back: "\<exists>c \<in> set cs. sortNode lc c = sortNode lc m" if m: "m \<in> set ms" for m
  proof -
    from eq kindAt_single [OF dn2 m] have "kindAt cs [name m] = Some (isFolder m)" by metis
    from kindAt_single_Some [OF this] obtain c
      where c: "c \<in> set cs" "name c = name m" "isFolder c = isFolder m" by blast
    from match [OF c(1)] obtain m' where m': "m' \<in> set ms" "sortNode lc c = sortNode lc m'"
      by blast
    then have nm: "name m' = name m" using c(2) by (metis name_sortNode)
    from dn2 have "inj_on name (set ms)" by (simp add: distinct_map)
    then have "m' = m" using nm m'(1) m by (rule inj_onD)
    with m' c(1) show ?thesis by blast
  qed
  have "sortNode lc ` set cs = sortNode lc ` set ms"
  proof (intro equalityI subsetI)
    fix x
    assume "x \<in> sortNode lc ` set cs"
    then obtain c where "c \<in> set cs" "x = sortNode lc c" by blast
    with match [of c] show "x \<in> sortNode lc ` set ms" by (metis imageI)
  next
    fix x
    assume "x \<in> sortNode lc ` set ms"
    then obtain m where "m \<in> set ms" "x = sortNode lc m" by blast
    with match_back [of m] show "x \<in> sortNode lc ` set cs" by (metis imageI)
  qed
  then have s: "set (map (sortNode lc) cs) = set (map (sortNode lc) ms)" by simp
  have dd: "distinct (map name (map (sortNode lc) cs))" "distinct (map name (map (sortNode lc) ms))"
    using dn1 dn2 by (simp_all add: comp_def)
  have "sortBy (nodeCompare lc) (map (sortNode lc) cs) = sortBy (nodeCompare lc) (map (sortNode lc) ms)"
  proof (rule sortBy_nodes_unique [OF lc dd s])
    fix x y
    assume x: "x \<in> set (map (sortNode lc) cs)" and y: "y \<in> set (map (sortNode lc) cs)"
      and t: "lc (name x) (name y) = 0"
    from x obtain c where c: "c \<in> set cs" "name x = name c" by auto
    from y obtain c' where c': "c' \<in> set cs" "name y = name c'" by auto
    from kindAt_single [OF dn1 c(1)] have 1: "kindAt cs ([] @ [name c]) \<noteq> None" by simp
    from kindAt_single [OF dn1 c'(1)] have 2: "kindAt cs ([] @ [name c']) \<noteq> None" by simp
    from t c(2) c'(2) have 3: "lc (name c) (name c') = 0" by simp
    from untied 1 2 3 have "name c = name c'" by blast
    with c(2) c'(2) show "name x = name y" by simp
  qed
  then show ?thesis by (simp add: sortNodes_def)
qed

lemma sortNodes_canonical_node:
  assumes lc: "consistentComparator lc"
  shows "distinctForest (children n) \<Longrightarrow> distinctForest ms \<Longrightarrow>
     (\<forall>q. kindAt (children n) q = kindAt ms q) \<Longrightarrow>
     (\<forall>q a b. kindAt (children n) (q @ [a]) \<noteq> None \<and> kindAt (children n) (q @ [b]) \<noteq> None \<and>
        lc a b = 0 \<longrightarrow> a = b) \<Longrightarrow>
     sortNodes lc (children n) = sortNodes lc ms"
proof (induction n arbitrary: ms)
  case (TreeNode nm f cs)
  show ?case
  proof (simp, rule sortNodes_canonical_step [OF lc])
    fix c ks
    assume "c \<in> set cs" "distinctForest (children c)" "distinctForest ks"
      "\<forall>q. kindAt (children c) q = kindAt ks q"
      "\<forall>q a b. kindAt (children c) (q @ [a]) \<noteq> None \<and> kindAt (children c) (q @ [b]) \<noteq> None \<and>
         lc a b = 0 \<longrightarrow> a = b"
    then show "sortNodes lc (children c) = sortNodes lc ks" by (rule TreeNode.IH)
  next
    show "distinctForest cs" using TreeNode.prems(1) by simp
    show "distinctForest ms" by (rule TreeNode.prems(2))
    show "\<forall>q. kindAt cs q = kindAt ms q" using TreeNode.prems(3) by simp
    show "\<forall>q a b. kindAt cs (q @ [a]) \<noteq> None \<and> kindAt cs (q @ [b]) \<noteq> None \<and> lc a b = 0 \<longrightarrow> a = b"
      using TreeNode.prems(4) by simp
  qed
qed

lemma sortNodes_canonical:
  assumes "consistentComparator lc" "distinctForest ns" "distinctForest ms"
    and "\<forall>q. kindAt ns q = kindAt ms q"
    and "\<forall>q a b. kindAt ns (q @ [a]) \<noteq> None \<and> kindAt ns (q @ [b]) \<noteq> None \<and> lc a b = 0 \<longrightarrow> a = b"
  shows "sortNodes lc ns = sortNodes lc ms"
proof -
  have "sortNodes lc (children (TreeNode [] True ns)) = sortNodes lc ms"
  proof (rule sortNodes_canonical_node [OF assms(1)])
    show "distinctForest (children (TreeNode [] True ns))" using assms(2) by simp
    show "distinctForest ms" by (rule assms(3))
    show "\<forall>q. kindAt (children (TreeNode [] True ns)) q = kindAt ms q" using assms(4) by simp
    show "\<forall>q a b. kindAt (children (TreeNode [] True ns)) (q @ [a]) \<noteq> None \<and>
        kindAt (children (TreeNode [] True ns)) (q @ [b]) \<noteq> None \<and> lc a b = 0 \<longrightarrow> a = b"
      using assms(5) by simp
  qed
  then show ?thesis by simp
qed

subsection \<open>The kinds under consistency\<close>

lemma firstKind_None: "(firstKind ps q = None) = (\<forall>p \<in> set ps. \<not> (q \<noteq> [] \<and> prefix q (pathParts p)))"
  by (induction ps) auto

lemma tieFreeD:
  assumes "tieFree lc ps" "firstKind ps (q @ [a]) \<noteq> None" "firstKind ps (q @ [b]) \<noteq> None"
    and "lc a b = 0"
  shows "a = b"
proof -
  from assms(2) obtain p where p: "p \<in> set ps" "prefix (q @ [a]) (pathParts p)"
    by (auto simp add: firstKind_None)
  from assms(3) obtain p' where p': "p' \<in> set ps" "prefix (q @ [b]) (pathParts p')"
    by (auto simp add: firstKind_None)
  have ra: "q @ [a] \<in> set (prefixes (pathParts p))" using p(2) by (simp add: in_set_prefixes)
  have rb: "q @ [b] \<in> set (prefixes (pathParts p'))" using p'(2) by (simp add: in_set_prefixes)
  have side: "q @ [a] \<noteq> [] \<and> q @ [b] \<noteq> [] \<and> butlast (q @ [a]) = butlast (q @ [b]) \<and>
      lc (last (q @ [a])) (last (q @ [b])) = 0"
    using assms(4) by simp
  from assms(1) p(1) p'(1) ra rb side have "last (q @ [a]) = last (q @ [b])"
    unfolding tieFree_def by blast
  then show ?thesis by simp
qed

lemma firstKind_Some:
  "firstKind ps q = Some k \<Longrightarrow> \<exists>p \<in> set ps. q \<noteq> [] \<and> prefix q (pathParts p) \<and> k = folderIn p q"
  by (induction ps) (auto split: if_splits)

lemma kindConsistentD:
  "kindConsistent ps \<Longrightarrow> p \<in> set ps \<Longrightarrow> p' \<in> set ps \<Longrightarrow> q \<noteq> [] \<Longrightarrow>
     prefix q (pathParts p) \<Longrightarrow> prefix q (pathParts p') \<Longrightarrow> folderIn p q = folderIn p' q"
  unfolding kindConsistent_def Ball_def in_set_prefixes by blast

lemma firstKind_consistent:
  assumes "kindConsistent ps" "p \<in> set ps" "q \<noteq> []" "prefix q (pathParts p)"
  shows "firstKind ps q = Some (folderIn p q)"
proof -
  from assms(2-4) have "firstKind ps q \<noteq> None" by (auto simp add: firstKind_None)
  then obtain k where k: "firstKind ps q = Some k" by blast
  from firstKind_Some [OF k] obtain p0
    where p0: "p0 \<in> set ps" "prefix q (pathParts p0)" "k = folderIn p0 q" by blast
  have "folderIn p0 q = folderIn p q"
    by (rule kindConsistentD [OF assms(1) p0(1) assms(2) assms(3) p0(2) assms(4)])
  with k p0(3) show ?thesis by simp
qed

lemma firstKind_set:
  assumes "kindConsistent ps" "set ps = set qs"
  shows "firstKind ps q = firstKind qs q"
proof (cases "firstKind ps q")
  case None
  then have "firstKind qs q = None" using assms(2) by (simp add: firstKind_None)
  with None show ?thesis by simp
next
  case (Some k)
  from firstKind_Some [OF Some] obtain p
    where p: "p \<in> set ps" "q \<noteq> []" "prefix q (pathParts p)" "k = folderIn p q" by blast
  from assms(1) have kc: "kindConsistent qs" unfolding kindConsistent_def assms(2) .
  from p(1) have pq: "p \<in> set qs" unfolding assms(2) .
  have "firstKind qs q = Some (folderIn p q)" by (rule firstKind_consistent [OF kc pq p(2,3)])
  with Some p(4) show ?thesis by simp
qed

lemma kindAt_buildTree: "kindAt (buildTree lc ps) q = firstKind ps q"
proof -
  have "distinctForest []" by (simp add: distinctForest_def)
  then have "distinctForest (foldl insertPath [] ps)" by (rule distinctForest_built)
  then show ?thesis unfolding buildTree_def by (simp add: kindAt_sortNodes kindAt_built)
qed

lemma firstKind_append:
  "firstKind (xs @ ys) q = (case firstKind xs q of Some k \<Rightarrow> Some k | None \<Rightarrow> firstKind ys q)"
  by (induction xs) auto

subsection \<open>The schema on raw values\<close>

text \<open>
  The equation of \<^const>\<open>decimal\<close> rewrites its own right-hand side; it is kept out of the
  simplifier, which meets an index that is a variable here.
\<close>

declare decimal.simps [simp del]

text \<open>A parser gives a value exactly on the values of its type.\<close>

lemma given_z_string: "(snd (z_string checks p v) \<noteq> None) = isString v"
  by (cases v) (simp_all add: z_string_def isString_def)

lemma given_z_boolean: "(snd (z_boolean p v) \<noteq> None) = isBoolean v"
  by (cases v) (simp_all add: z_boolean_def isBoolean_def)

lemma given_z_enum: "(snd (z_enum members p v) \<noteq> None) = isMember (map fst members) v"
proof (cases v)
  case (VString s)
  have "(map_of members s \<noteq> None) = (s \<in> fst ` set members)"
    by (simp add: map_of_eq_None_iff)
  with VString show ?thesis
    by (cases "map_of members s") (simp_all add: z_enum_def isMember_def)
qed (simp_all add: z_enum_def isMember_def)

lemma given_z_optional:
  "(snd (z_optional inner p v) \<noteq> None) = (v = VUndefined \<or> snd (inner p v) \<noteq> None)"
  by (simp add: z_optional_def)

lemma given_z_default:
  "(snd (z_default (VBool d) z_boolean p v) \<noteq> None) = optionally isBoolean v"
  by (cases v) (simp_all add: z_default_def z_boolean_def optionally_def isBoolean_def)

lemma given_parseItems:
  "list_all (\<lambda>r. snd r \<noteq> None) (parseItems (z_enum members) p i xs) =
     list_all (isMember (map fst members)) xs"
  by (induction xs arbitrary: i) (simp_all add: given_z_enum del: not_None_eq)

lemma given_z_array:
  "(snd (z_array (z_enum members) p v) \<noteq> None) = isArrayOf (isMember (map fst members)) v"
  by (cases v) (simp_all add: z_array_def isArrayOf_def given_parseItems del: not_None_eq)

lemma given_if: "((if c then Some x else None) \<noteq> None) = c"
  by simp

lemma given_object: "(snd (ProjectConfigSchema_object p data) \<noteq> None) = wellTyped data"
proof (cases data)
  case (VObject members)
  show ?thesis
    unfolding VObject ProjectConfigSchema_object_def wellTyped_def Let_def field_projectName_def
      field_description_def field_author_def
    by (simp only: jsvalue.case snd_conv given_if given_z_string given_z_boolean given_z_enum
        given_z_optional given_z_default given_z_array optionally_def)
qed (simp_all only: ProjectConfigSchema_object_def wellTyped_def property_def isString_def
    jsvalue.case snd_conv simp_thms)

text \<open>A parser that gives up has added an issue.\<close>

lemma gives_up_z_string: "snd (z_string checks p v) = None \<Longrightarrow> fst (z_string checks p v) \<noteq> []"
  by (cases v) (simp_all add: z_string_def)

lemma gives_up_z_boolean: "snd (z_boolean p v) = None \<Longrightarrow> fst (z_boolean p v) \<noteq> []"
  by (cases v) (simp_all add: z_boolean_def)

lemma gives_up_z_enum: "snd (z_enum members p v) = None \<Longrightarrow> fst (z_enum members p v) \<noteq> []"
  by (cases v) (simp_all add: z_enum_def split: option.splits)

lemma gives_up_z_optional:
  assumes "\<And>p v. snd (inner p v) = None \<Longrightarrow> fst (inner p v) \<noteq> []"
  shows "snd (z_optional inner p v) = None \<Longrightarrow> fst (z_optional inner p v) \<noteq> []"
  using assms [of p v] by (simp add: z_optional_def split: if_splits)

lemma gives_up_z_default:
  assumes "\<And>p v. snd (inner p v) = None \<Longrightarrow> fst (inner p v) \<noteq> []"
  shows "snd (z_default d inner p v) = None \<Longrightarrow> fst (z_default d inner p v) \<noteq> []"
  using assms by (simp add: z_default_def)

lemma gives_up_parseItems:
  assumes item: "\<And>p v. snd (item p v) = None \<Longrightarrow> fst (item p v) \<noteq> []"
  shows "\<not> list_all (\<lambda>r. snd r \<noteq> None) (parseItems item p i xs) \<Longrightarrow>
     concat (map fst (parseItems item p i xs)) \<noteq> []"
proof (induction xs arbitrary: i)
  case Nil
  then show ?case by simp
next
  case (Cons x xs)
  show ?case
  proof (cases "snd (item (p @ [decimal i]) x)")
    case None
    then have "fst (item (p @ [decimal i]) x) \<noteq> []" by (rule item)
    then show ?thesis by simp
  next
    case (Some y)
    with Cons.prems have "\<not> list_all (\<lambda>r. snd r \<noteq> None) (parseItems item p (Suc i) xs)"
      by simp
    then have "concat (map fst (parseItems item p (Suc i) xs)) \<noteq> []" by (rule Cons.IH)
    then show ?thesis by simp
  qed
qed

lemma gives_up_z_array:
  assumes item: "\<And>p v. snd (item p v) = None \<Longrightarrow> fst (item p v) \<noteq> []"
  shows "snd (z_array item p v) = None \<Longrightarrow> fst (z_array item p v) \<noteq> []"
proof (cases v)
  case (VArray xs)
  assume "snd (z_array item p v) = None"
  with VArray have "\<not> list_all (\<lambda>r. snd r \<noteq> None) (parseItems item p 0 xs)"
    by (simp add: z_array_def split: if_splits)
  then have "concat (map fst (parseItems item p 0 xs)) \<noteq> []"
    using gives_up_parseItems [of item p 0 xs] item by blast
  with VArray show ?thesis by (simp add: z_array_def)
qed (simp_all add: z_array_def)

lemma concat_parts:
  "(a @ b \<noteq> []) = (a \<noteq> [] \<or> b \<noteq> [])"
  by simp

lemma gives_up_object:
  assumes "snd (ProjectConfigSchema_object p data) = None"
  shows "fst (ProjectConfigSchema_object p data) \<noteq> []"
proof (cases data)
  case (VObject members)
  let ?projectName = "field_projectName (p @ [''projectName'']) (property data ''projectName'')"
  let ?description = "field_description (p @ [''description'']) (property data ''description'')"
  let ?author = "field_author (p @ [''author'']) (property data ''author'')"
  let ?initGit = "z_default (VBool True) z_boolean (p @ [''initGit'']) (property data ''initGit'')"
  let ?includeUI = "z_boolean (p @ [''includeUI'']) (property data ''includeUI'')"
  let ?includeAPI = "z_boolean (p @ [''includeAPI'']) (property data ''includeAPI'')"
  let ?language = "z_enum Language_members (p @ [''language'']) (property data ''language'')"
  let ?buildTool = "z_enum BuildTool_members (p @ [''buildTool'']) (property data ''buildTool'')"
  let ?uiFramework = "z_optional (z_enum UIFramework_members) (p @ [''uiFramework'']) (property data ''uiFramework'')"
  let ?apiFramework = "z_optional (z_enum APIFramework_members) (p @ [''apiFramework'']) (property data ''apiFramework'')"
  let ?testRunner = "z_enum TestRunner_members (p @ [''testRunner'']) (property data ''testRunner'')"
  let ?reporting = "z_array (z_enum ReportingOption_members) (p @ [''reporting'']) (property data ''reporting'')"
  let ?includeEnvConfig = "z_default (VBool True) z_boolean (p @ [''includeEnvConfig'']) (property data ''includeEnvConfig'')"
  let ?includeCI = "z_default (VBool False) z_boolean (p @ [''includeCI'']) (property data ''includeCI'')"
  let ?includeDocker = "z_default (VBool False) z_boolean (p @ [''includeDocker'']) (property data ''includeDocker'')"
  have projectName: "snd ?projectName = None \<Longrightarrow> fst ?projectName \<noteq> []"
    unfolding field_projectName_def by (rule gives_up_z_string)
  have description: "snd ?description = None \<Longrightarrow> fst ?description \<noteq> []"
    unfolding field_description_def by (rule gives_up_z_optional [OF gives_up_z_string])
  have author: "snd ?author = None \<Longrightarrow> fst ?author \<noteq> []"
    unfolding field_author_def by (rule gives_up_z_optional [OF gives_up_z_string])
  have initGit: "snd ?initGit = None \<Longrightarrow> fst ?initGit \<noteq> []"
    by (rule gives_up_z_default [OF gives_up_z_boolean])
  have includeUI: "snd ?includeUI = None \<Longrightarrow> fst ?includeUI \<noteq> []"
    by (rule gives_up_z_boolean)
  have includeAPI: "snd ?includeAPI = None \<Longrightarrow> fst ?includeAPI \<noteq> []"
    by (rule gives_up_z_boolean)
  have language: "snd ?language = None \<Longrightarrow> fst ?language \<noteq> []"
    by (rule gives_up_z_enum)
  have buildTool: "snd ?buildTool = None \<Longrightarrow> fst ?buildTool \<noteq> []"
    by (rule gives_up_z_enum)
  have uiFramework: "snd ?uiFramework = None \<Longrightarrow> fst ?uiFramework \<noteq> []"
    by (rule gives_up_z_optional [OF gives_up_z_enum])
  have apiFramework: "snd ?apiFramework = None \<Longrightarrow> fst ?apiFramework \<noteq> []"
    by (rule gives_up_z_optional [OF gives_up_z_enum])
  have testRunner: "snd ?testRunner = None \<Longrightarrow> fst ?testRunner \<noteq> []"
    by (rule gives_up_z_enum)
  have reporting: "snd ?reporting = None \<Longrightarrow> fst ?reporting \<noteq> []"
    by (rule gives_up_z_array [OF gives_up_z_enum])
  have includeEnvConfig: "snd ?includeEnvConfig = None \<Longrightarrow> fst ?includeEnvConfig \<noteq> []"
    by (rule gives_up_z_default [OF gives_up_z_boolean])
  have includeCI: "snd ?includeCI = None \<Longrightarrow> fst ?includeCI \<noteq> []"
    by (rule gives_up_z_default [OF gives_up_z_boolean])
  have includeDocker: "snd ?includeDocker = None \<Longrightarrow> fst ?includeDocker \<noteq> []"
    by (rule gives_up_z_default [OF gives_up_z_boolean])
  from assms have "\<not> (snd (ProjectConfigSchema_object p data) \<noteq> None)" by simp
  then have some:
     "snd ?projectName = None \<or>
      snd ?description = None \<or>
      snd ?author = None \<or>
      snd ?initGit = None \<or>
      snd ?includeUI = None \<or>
      snd ?includeAPI = None \<or>
      snd ?language = None \<or>
      snd ?buildTool = None \<or>
      snd ?uiFramework = None \<or>
      snd ?apiFramework = None \<or>
      snd ?testRunner = None \<or>
      snd ?reporting = None \<or>
      snd ?includeEnvConfig = None \<or>
      snd ?includeCI = None \<or>
      snd ?includeDocker = None"
    unfolding VObject ProjectConfigSchema_object_def Let_def
    by (simp only: jsvalue.case snd_conv given_if de_Morgan_conj not_not)
  have issues: "fst (ProjectConfigSchema_object p data) =
      fst ?projectName @
      fst ?description @
      fst ?author @
      fst ?initGit @
      fst ?includeUI @
      fst ?includeAPI @
      fst ?language @
      fst ?buildTool @
      fst ?uiFramework @
      fst ?apiFramework @
      fst ?testRunner @
      fst ?reporting @
      fst ?includeEnvConfig @
      fst ?includeCI @
      fst ?includeDocker"
    unfolding VObject ProjectConfigSchema_object_def Let_def
    by (simp only: jsvalue.case fst_conv)
  from some projectName description author initGit includeUI includeAPI language buildTool uiFramework apiFramework testRunner reporting includeEnvConfig includeCI includeDocker
  show ?thesis unfolding issues concat_parts by blast
qed (simp_all only: ProjectConfigSchema_object_def jsvalue.case fst_conv list.distinct not_False_eq_True)

text \<open>The issues of a parser stand under its path.\<close>

lemma path_z_string: "i \<in> set (fst (z_string checks p v)) \<Longrightarrow> prefix p (issue_path i)"
  by (cases v) (auto simp add: z_string_def check_def invalid_type_def split: if_splits)

lemma path_z_boolean: "i \<in> set (fst (z_boolean p v)) \<Longrightarrow> prefix p (issue_path i)"
  by (cases v) (auto simp add: z_boolean_def invalid_type_def)

lemma path_z_enum: "i \<in> set (fst (z_enum members p v)) \<Longrightarrow> prefix p (issue_path i)"
  by (cases v) (auto simp add: z_enum_def invalid_type_def split: option.splits)

lemma path_z_optional:
  assumes "\<And>i p v. i \<in> set (fst (inner p v)) \<Longrightarrow> prefix p (issue_path i)"
  shows "i \<in> set (fst (z_optional inner p v)) \<Longrightarrow> prefix p (issue_path i)"
  using assms [of i p v] by (simp add: z_optional_def split: if_splits)

lemma path_z_default:
  assumes "\<And>i p v. i \<in> set (fst (inner p v)) \<Longrightarrow> prefix p (issue_path i)"
  shows "i \<in> set (fst (z_default d inner p v)) \<Longrightarrow> prefix p (issue_path i)"
  using assms by (simp add: z_default_def)

lemma path_parseItems:
  assumes item: "\<And>i p v. i \<in> set (fst (item p v)) \<Longrightarrow> prefix p (issue_path i)"
  shows "i \<in> set (concat (map fst (parseItems item p n xs))) \<Longrightarrow> prefix p (issue_path i)"
proof (induction xs arbitrary: n)
  case Nil
  then show ?case by simp
next
  case (Cons x xs)
  from Cons.prems
  have "i \<in> set (fst (item (p @ [decimal n]) x)) \<or>
      i \<in> set (concat (map fst (parseItems item p (Suc n) xs)))"
    by simp
  then show ?case
  proof
    assume "i \<in> set (fst (item (p @ [decimal n]) x))"
    then have "prefix (p @ [decimal n]) (issue_path i)" by (rule item)
    then show ?thesis by (rule append_prefixD)
  next
    assume "i \<in> set (concat (map fst (parseItems item p (Suc n) xs)))"
    then show ?thesis by (rule Cons.IH)
  qed
qed

lemma path_z_array:
  assumes item: "\<And>i p v. i \<in> set (fst (item p v)) \<Longrightarrow> prefix p (issue_path i)"
  shows "i \<in> set (fst (z_array item p v)) \<Longrightarrow> prefix p (issue_path i)"
proof (cases v)
  case (VArray xs)
  assume "i \<in> set (fst (z_array item p v))"
  with VArray have "i \<in> set (concat (map fst (parseItems item p 0 xs)))"
    by (simp add: z_array_def)
  then show ?thesis using path_parseItems [of item i p 0 xs] item by blast
qed (auto simp add: z_array_def invalid_type_def)

text \<open>
  When \<^verbatim>\<open>includeUI\<close> is a boolean, no issue of the fields is the issue of the refinement:
  the field itself adds none, and the issues of the others stand under other names.
\<close>

lemma coverageIssue_fields:
  assumes "property data ''includeUI'' = VBool b"
  shows "coverageIssue \<notin> set (fst (ProjectConfigSchema_object [] data))"
proof (cases data)
  case (VObject members)
  let ?projectName = "field_projectName [''projectName''] (property data ''projectName'')"
  let ?description = "field_description [''description''] (property data ''description'')"
  let ?author = "field_author [''author''] (property data ''author'')"
  let ?initGit = "z_default (VBool True) z_boolean [''initGit''] (property data ''initGit'')"
  let ?includeUI = "z_boolean [''includeUI''] (property data ''includeUI'')"
  let ?includeAPI = "z_boolean [''includeAPI''] (property data ''includeAPI'')"
  let ?language = "z_enum Language_members [''language''] (property data ''language'')"
  let ?buildTool = "z_enum BuildTool_members [''buildTool''] (property data ''buildTool'')"
  let ?uiFramework = "z_optional (z_enum UIFramework_members) [''uiFramework''] (property data ''uiFramework'')"
  let ?apiFramework = "z_optional (z_enum APIFramework_members) [''apiFramework''] (property data ''apiFramework'')"
  let ?testRunner = "z_enum TestRunner_members [''testRunner''] (property data ''testRunner'')"
  let ?reporting = "z_array (z_enum ReportingOption_members) [''reporting''] (property data ''reporting'')"
  let ?includeEnvConfig = "z_default (VBool True) z_boolean [''includeEnvConfig''] (property data ''includeEnvConfig'')"
  let ?includeCI = "z_default (VBool False) z_boolean [''includeCI''] (property data ''includeCI'')"
  let ?includeDocker = "z_default (VBool False) z_boolean [''includeDocker''] (property data ''includeDocker'')"
  have projectName: "i \<in> set (fst ?projectName) \<Longrightarrow> prefix [''projectName''] (issue_path i)" for i
    unfolding field_projectName_def by (rule path_z_string)
  have description: "i \<in> set (fst ?description) \<Longrightarrow> prefix [''description''] (issue_path i)" for i
    unfolding field_description_def by (rule path_z_optional [OF path_z_string])
  have author: "i \<in> set (fst ?author) \<Longrightarrow> prefix [''author''] (issue_path i)" for i
    unfolding field_author_def by (rule path_z_optional [OF path_z_string])
  have initGit: "i \<in> set (fst ?initGit) \<Longrightarrow> prefix [''initGit''] (issue_path i)" for i
    by (rule path_z_default [OF path_z_boolean])
  have includeAPI: "i \<in> set (fst ?includeAPI) \<Longrightarrow> prefix [''includeAPI''] (issue_path i)" for i
    by (rule path_z_boolean)
  have language: "i \<in> set (fst ?language) \<Longrightarrow> prefix [''language''] (issue_path i)" for i
    by (rule path_z_enum)
  have buildTool: "i \<in> set (fst ?buildTool) \<Longrightarrow> prefix [''buildTool''] (issue_path i)" for i
    by (rule path_z_enum)
  have uiFramework: "i \<in> set (fst ?uiFramework) \<Longrightarrow> prefix [''uiFramework''] (issue_path i)" for i
    by (rule path_z_optional [OF path_z_enum])
  have apiFramework: "i \<in> set (fst ?apiFramework) \<Longrightarrow> prefix [''apiFramework''] (issue_path i)" for i
    by (rule path_z_optional [OF path_z_enum])
  have testRunner: "i \<in> set (fst ?testRunner) \<Longrightarrow> prefix [''testRunner''] (issue_path i)" for i
    by (rule path_z_enum)
  have reporting: "i \<in> set (fst ?reporting) \<Longrightarrow> prefix [''reporting''] (issue_path i)" for i
    by (rule path_z_array [OF path_z_enum])
  have includeEnvConfig: "i \<in> set (fst ?includeEnvConfig) \<Longrightarrow> prefix [''includeEnvConfig''] (issue_path i)" for i
    by (rule path_z_default [OF path_z_boolean])
  have includeCI: "i \<in> set (fst ?includeCI) \<Longrightarrow> prefix [''includeCI''] (issue_path i)" for i
    by (rule path_z_default [OF path_z_boolean])
  have includeDocker: "i \<in> set (fst ?includeDocker) \<Longrightarrow> prefix [''includeDocker''] (issue_path i)" for i
    by (rule path_z_default [OF path_z_boolean])
  have n_projectName: "coverageIssue \<notin> set (fst ?projectName)"
    using projectName [of coverageIssue] by (auto simp add: coverageIssue_def)
  have n_description: "coverageIssue \<notin> set (fst ?description)"
    using description [of coverageIssue] by (auto simp add: coverageIssue_def)
  have n_author: "coverageIssue \<notin> set (fst ?author)"
    using author [of coverageIssue] by (auto simp add: coverageIssue_def)
  have n_initGit: "coverageIssue \<notin> set (fst ?initGit)"
    using initGit [of coverageIssue] by (auto simp add: coverageIssue_def)
  have n_includeAPI: "coverageIssue \<notin> set (fst ?includeAPI)"
    using includeAPI [of coverageIssue] by (auto simp add: coverageIssue_def)
  have n_language: "coverageIssue \<notin> set (fst ?language)"
    using language [of coverageIssue] by (auto simp add: coverageIssue_def)
  have n_buildTool: "coverageIssue \<notin> set (fst ?buildTool)"
    using buildTool [of coverageIssue] by (auto simp add: coverageIssue_def)
  have n_uiFramework: "coverageIssue \<notin> set (fst ?uiFramework)"
    using uiFramework [of coverageIssue] by (auto simp add: coverageIssue_def)
  have n_apiFramework: "coverageIssue \<notin> set (fst ?apiFramework)"
    using apiFramework [of coverageIssue] by (auto simp add: coverageIssue_def)
  have n_testRunner: "coverageIssue \<notin> set (fst ?testRunner)"
    using testRunner [of coverageIssue] by (auto simp add: coverageIssue_def)
  have n_reporting: "coverageIssue \<notin> set (fst ?reporting)"
    using reporting [of coverageIssue] by (auto simp add: coverageIssue_def)
  have n_includeEnvConfig: "coverageIssue \<notin> set (fst ?includeEnvConfig)"
    using includeEnvConfig [of coverageIssue] by (auto simp add: coverageIssue_def)
  have n_includeCI: "coverageIssue \<notin> set (fst ?includeCI)"
    using includeCI [of coverageIssue] by (auto simp add: coverageIssue_def)
  have n_includeDocker: "coverageIssue \<notin> set (fst ?includeDocker)"
    using includeDocker [of coverageIssue] by (auto simp add: coverageIssue_def)
  have n_includeUI: "coverageIssue \<notin> set (fst ?includeUI)"
    by (simp add: assms z_boolean_def)
  have issues: "fst (ProjectConfigSchema_object [] data) =
      fst ?projectName @
      fst ?description @
      fst ?author @
      fst ?initGit @
      fst ?includeUI @
      fst ?includeAPI @
      fst ?language @
      fst ?buildTool @
      fst ?uiFramework @
      fst ?apiFramework @
      fst ?testRunner @
      fst ?reporting @
      fst ?includeEnvConfig @
      fst ?includeCI @
      fst ?includeDocker"
    unfolding VObject ProjectConfigSchema_object_def Let_def
    by (simp only: jsvalue.case fst_conv append_Nil)
  show ?thesis
    unfolding issues set_append Un_iff de_Morgan_disj
    by (intro conjI n_projectName n_description n_author n_initGit n_includeUI n_includeAPI n_language n_buildTool n_uiFramework n_apiFramework n_testRunner n_reporting n_includeEnvConfig n_includeCI n_includeDocker)
next
  case VUndefined
  with assms show ?thesis by (simp add: property_def)
next
  case VNull
  with assms show ?thesis by (simp add: property_def)
next
  case (VBool x)
  with assms show ?thesis by (simp add: property_def)
next
  case (VNumber x)
  with assms show ?thesis by (simp add: property_def)
next
  case (VString x)
  with assms show ?thesis by (simp add: property_def)
next
  case (VArray x)
  with assms show ?thesis by (simp add: property_def)
qed

lemma object_flags:
  assumes "snd (ProjectConfigSchema_object p data) = Some x"
  shows "includeUI x = the (snd (z_boolean (p @ [''includeUI'']) (property data ''includeUI''))) \<and>
         includeAPI x = the (snd (z_boolean (p @ [''includeAPI'']) (property data ''includeAPI'')))"
proof (cases data)
  case (VObject members)
  from assms show ?thesis
    unfolding VObject ProjectConfigSchema_object_def Let_def
    by (simp only: jsvalue.case snd_conv split: if_splits) auto
qed (use assms in \<open>simp_all add: ProjectConfigSchema_object_def\<close>)

subsection \<open>Typed inputs\<close>

text \<open>
  On an input whose fields have the declared types, parsing the raw value is parsing the
  typed input with \<^const>\<open>ProjectConfigSchema_safeParse\<close>.
\<close>

lemma member_Language: "z_enum Language_members p (memberName Language_members x) = ([], Some x)"
  by (cases x) (simp_all add: z_enum_def memberName_def Language_members_def)

lemma member_BuildTool: "z_enum BuildTool_members p (memberName BuildTool_members x) = ([], Some x)"
  by (cases x) (simp_all add: z_enum_def memberName_def BuildTool_members_def)

lemma member_UIFramework: "z_enum UIFramework_members p (memberName UIFramework_members x) = ([], Some x)"
  by (cases x) (simp_all add: z_enum_def memberName_def UIFramework_members_def)

lemma member_APIFramework: "z_enum APIFramework_members p (memberName APIFramework_members x) = ([], Some x)"
  by (cases x) (simp_all add: z_enum_def memberName_def APIFramework_members_def)

lemma member_TestRunner: "z_enum TestRunner_members p (memberName TestRunner_members x) = ([], Some x)"
  by (cases x) (simp_all add: z_enum_def memberName_def TestRunner_members_def)

lemma member_ReportingOption:
  "z_enum ReportingOption_members p (memberName ReportingOption_members x) = ([], Some x)"
  by (cases x) (simp_all add: z_enum_def memberName_def ReportingOption_members_def)

lemma typed_optional_string:
  "z_optional (z_string [(\<lambda>s. length s \<le> n, msg)]) p (orUndefined VString x) =
     (check (max_length n x) p msg, Some x)"
  by (cases x) (simp_all add: z_optional_def z_string_def orUndefined_def max_length_def check_def)

lemma typed_default:
  "z_default (VBool d) z_boolean p (orUndefined VBool x) = ([], Some (with_default d x))"
  by (cases x) (simp_all add: z_default_def z_boolean_def orUndefined_def with_default_def)

lemma typed_optional_member:
  assumes "\<And>p a. z_enum members p (memberName members a) = ([], Some a)"
  shows "z_optional (z_enum members) p (orUndefined (memberName members) x) = ([], Some x)"
  using assms by (cases x) (simp_all add: z_optional_def orUndefined_def memberName_def)

lemma typed_items:
  "parseItems (z_enum ReportingOption_members) p i (map (memberName ReportingOption_members) xs) =
     map (\<lambda>x. ([], Some x)) xs"
  by (induction xs arbitrary: i) (simp_all add: member_ReportingOption)

lemma typed_array:
  "z_array (z_enum ReportingOption_members) p
     (VArray (map (memberName ReportingOption_members) xs)) = ([], Some xs)"
  by (simp add: z_array_def typed_items list_all_iff comp_def)

lemma typed_properties:
  "property (toValue data) ''projectName'' = VString (raw_projectName data)"
  "property (toValue data) ''description'' = orUndefined VString (raw_description data)"
  "property (toValue data) ''author'' = orUndefined VString (raw_author data)"
  "property (toValue data) ''initGit'' = orUndefined VBool (raw_initGit data)"
  "property (toValue data) ''includeUI'' = VBool (raw_includeUI data)"
  "property (toValue data) ''includeAPI'' = VBool (raw_includeAPI data)"
  "property (toValue data) ''language'' = memberName Language_members (raw_language data)"
  "property (toValue data) ''buildTool'' = memberName BuildTool_members (raw_buildTool data)"
  "property (toValue data) ''uiFramework'' =
     orUndefined (memberName UIFramework_members) (raw_uiFramework data)"
  "property (toValue data) ''apiFramework'' =
     orUndefined (memberName APIFramework_members) (raw_apiFramework data)"
  "property (toValue data) ''testRunner'' = memberName TestRunner_members (raw_testRunner data)"
  "property (toValue data) ''reporting'' =
     VArray (map (memberName ReportingOption_members) (raw_reporting data))"
  "property (toValue data) ''includeEnvConfig'' = orUndefined VBool (raw_includeEnvConfig data)"
  "property (toValue data) ''includeCI'' = orUndefined VBool (raw_includeCI data)"
  "property (toValue data) ''includeDocker'' = orUndefined VBool (raw_includeDocker data)"
  by (simp_all add: toValue_def property_def)

lemma typed_projectName:
  "field_projectName p (VString s) =
     (check (1 \<le> length s) p ''Project name is required'' @
      check (length s \<le> 50) p ''Project name must be less than 50 characters'' @
      check (slug_regex s) p ''Project name must be lowercase with hyphens only'', Some s)"
  by (simp add: field_projectName_def z_string_def)

lemma typed_object:
  "ProjectConfigSchema_object [] (toValue data) =
     (check (1 \<le> length (raw_projectName data)) [''projectName''] ''Project name is required'' @
      check (length (raw_projectName data) \<le> 50) [''projectName'']
        ''Project name must be less than 50 characters'' @
      check (slug_regex (raw_projectName data)) [''projectName'']
        ''Project name must be lowercase with hyphens only'' @
      check (max_length 200 (raw_description data)) [''description'']
        ''Description must be less than 200 characters'' @
      check (max_length 50 (raw_author data)) [''author'']
        ''Author name must be less than 50 characters'',
      Some (ProjectConfigSchema_output data))"
proof -
  have o: "toValue data = VObject (case toValue data of VObject members \<Rightarrow> members)"
    by (simp add: toValue_def)
  show ?thesis
    apply (subst o)
    unfolding ProjectConfigSchema_object_def Let_def jsvalue.case
    unfolding o [symmetric] typed_properties field_description_def field_author_def
      typed_projectName typed_optional_string typed_default z_boolean_def jsvalue.case
      member_Language member_BuildTool member_TestRunner typed_array
      typed_optional_member [OF member_UIFramework] typed_optional_member [OF member_APIFramework]
    by (simp add: ProjectConfigSchema_output_def)
qed

lemma safeParse_typed:
  "safeParse ProjectConfigSchema (toValue data) = ProjectConfigSchema_safeParse data"
  by (simp add: safeParse_def ProjectConfigSchema_def z_refine_def typed_object
      ProjectConfigSchema_safeParse_def ProjectConfigSchema_issues_def ProjectConfigSchema_output_def)

section \<open>The claims\<close>

subsection \<open>C1: paths of the files and paths of the tree\<close>

text \<open>
  The two functions agree on every configuration but those of Java with a build tool
  other than Maven: the file list of \<^const>\<open>generateFiles\<close> is that of the tree, without the
  directory markers.
\<close>

lemma files_paths_consistent:
  assumes "\<not> (language c = Java \<and> buildTool c \<noteq> Maven)"
  shows "set (map path (generateFiles c)) = {p \<in> set (generateFolderTree c). \<not> endsWith p ''/''}"
  using files_in_tree [OF assms] tree_in_files [OF assms] by blast

lemma demoConfig_fields:
  "projectName (demoConfig lang tool) = ''demo''"
  "language (demoConfig lang tool) = lang"
  "buildTool (demoConfig lang tool) = tool"
  "initGit (demoConfig lang tool) = True"
  "includeUI (demoConfig lang tool) = True"
  "includeAPI (demoConfig lang tool) = True"
  "includeCI (demoConfig lang tool) = True"
  "includeDocker (demoConfig lang tool) = True"
  by (simp_all add: demoConfig_def)

text \<open>
  Claim C1: for every valid configuration, the paths for which \<^const>\<open>generateFiles\<close> produces
  content are exactly the paths of \<^const>\<open>generateFolderTree\<close> that do not end in a slash, Java
  with Gradle included. The code at Java with Gradle, a configuration that the schema
  accepts and the table of combinations allows: the tree holds \<open>demo/build.gradle\<close> and
  \<open>demo/settings.gradle\<close>, which are not directory markers, and no file has these paths;
  a file has the path \<open>demo/pom.xml\<close>, which the tree does not hold. The two sets of paths
  differ.
\<close>

theorem C1_java_gradle_paths_differ:
  "ProjectConfigSchema_safeParse (demoRaw Java Gradle True True) = Inr (demoConfig Java Gradle) \<and>
   isValidBuildTool Java Gradle \<and>
   ''demo/build.gradle'' \<in> set (generateFolderTree (demoConfig Java Gradle)) \<and>
   \<not> endsWith ''demo/build.gradle'' ''/'' \<and>
   ''demo/build.gradle'' \<notin> set (map path (generateFiles (demoConfig Java Gradle))) \<and>
   ''demo/settings.gradle'' \<in> set (generateFolderTree (demoConfig Java Gradle)) \<and>
   ''demo/settings.gradle'' \<notin> set (map path (generateFiles (demoConfig Java Gradle))) \<and>
   ''demo/pom.xml'' \<in> set (map path (generateFiles (demoConfig Java Gradle))) \<and>
   ''demo/pom.xml'' \<notin> set (generateFolderTree (demoConfig Java Gradle)) \<and>
   set (map path (generateFiles (demoConfig Java Gradle))) \<noteq>
     {p \<in> set (generateFolderTree (demoConfig Java Gradle)). \<not> endsWith p ''/''}"
proof -
  have tree: "''demo/build.gradle'' \<in> set (generateFolderTree (demoConfig Java Gradle))"
    "''demo/settings.gradle'' \<in> set (generateFolderTree (demoConfig Java Gradle))"
    "''demo/pom.xml'' \<notin> set (generateFolderTree (demoConfig Java Gradle))"
    unfolding generateFolderTree_def set_sort demoConfig_fields
    by (simp_all only: mem_list literal_eval Language.distinct BuildTool.distinct)
  have files: "''demo/build.gradle'' \<notin> set (map path (generateFiles (demoConfig Java Gradle)))"
    "''demo/settings.gradle'' \<notin> set (map path (generateFiles (demoConfig Java Gradle)))"
    "''demo/pom.xml'' \<in> set (map path (generateFiles (demoConfig Java Gradle)))"
    unfolding generateFiles_def demoConfig_fields
    by (simp_all only: mem_list map_list FileEntry.select_convs literal_eval Language.distinct)
  have marker: "\<not> endsWith ''demo/build.gradle'' ''/''"
    by (simp add: endsWith_slash)
  have valid: "ProjectConfigSchema_safeParse (demoRaw Java Gradle True True) = Inr (demoConfig Java Gradle)"
    "isValidBuildTool Java Gradle"
    by (simp_all add: ProjectConfigSchema_safeParse_def ProjectConfigSchema_issues_def check_def
        ProjectConfigSchema_output_def demoRaw_def demoConfig_def slug_regex_def slug_char_def
        max_length_def with_default_def isValidBuildTool_def)
  from tree(1) marker files(1)
  have "set (map path (generateFiles (demoConfig Java Gradle))) \<noteq>
     {p \<in> set (generateFolderTree (demoConfig Java Gradle)). \<not> endsWith p ''/''}"
    by blast
  with tree files marker valid show ?thesis by simp
qed

subsection \<open>C2: the tree is sorted and has no duplicates\<close>

text \<open>
  Claim C2: for every configuration, the list of paths returned by \<^const>\<open>generateFolderTree\<close>
  is sorted in the lexicographic order of strings and holds no path twice.
\<close>

theorem C2_tree_sorted_distinct:
  "sorted (generateFolderTree config) \<and> distinct (generateFolderTree config)"
proof
  show "sorted (generateFolderTree config)"
    unfolding generateFolderTree_def by (rule sorted_sort)
  show "distinct (generateFolderTree config)"
    by (rule tree_distinct)
qed

subsection \<open>C3: no orphans\<close>

text \<open>
  Claim C3: for every configuration that the schema accepts, every proper prefix of a path
  of \<^const>\<open>generateFolderTree\<close> that ends in a slash (an ancestor directory of the path, as a
  directory marker) is itself a path of the output.
\<close>

theorem C3_tree_no_orphans:
  assumes "ProjectConfigSchema_safeParse data = Inr config"
  shows "\<forall>p \<in> set (generateFolderTree config). \<forall>q. strict_prefix q p \<and> endsWith q ''/'' \<longrightarrow>
           q \<in> set (generateFolderTree config)"
proof -
  from assms have "CHR ''/'' \<notin> set (projectName config)"
    by (intro slug_regex_no_slash valid_projectName)
  then have "\<forall>p \<in> set (generateFolderTree config).
      set (dirPrefixes p) \<subseteq> set (generateFolderTree config)"
    by (rule tree_closed)
  then show ?thesis unfolding set_dirPrefixes by blast
qed

text \<open>
  The scenario of the specification, Python with pip: the schema accepts it, the tree
  holds \<open>demo/src/utils/config.py\<close>, and so it holds \<open>demo/src/utils/\<close>.
\<close>

theorem C3_tree_no_orphans_witness:
  "ProjectConfigSchema_safeParse (demoRaw Python Pip True True) = Inr (demoConfig Python Pip) \<and>
   ''demo/src/utils/config.py'' \<in> set (generateFolderTree (demoConfig Python Pip)) \<and>
   strict_prefix ''demo/src/utils/'' ''demo/src/utils/config.py'' \<and>
   endsWith ''demo/src/utils/'' ''/'' \<and>
   ''demo/src/utils/'' \<in> set (generateFolderTree (demoConfig Python Pip))"
proof -
  have parse: "ProjectConfigSchema_safeParse (demoRaw Python Pip True True) = Inr (demoConfig Python Pip)"
    by (simp add: ProjectConfigSchema_safeParse_def ProjectConfigSchema_issues_def check_def
        ProjectConfigSchema_output_def demoRaw_def demoConfig_def slug_regex_def slug_char_def
        max_length_def with_default_def)
  have leaf: "''demo/src/utils/config.py'' \<in> set (generateFolderTree (demoConfig Python Pip))"
    unfolding generateFolderTree_def set_sort demoConfig_fields
    by (simp only: mem_list literal_eval Language.distinct BuildTool.distinct)
  have pre: "strict_prefix ''demo/src/utils/'' ''demo/src/utils/config.py''"
    by (simp add: strict_prefix_def)
  have marker: "endsWith ''demo/src/utils/'' ''/''"
    by (simp add: endsWith_slash)
  from C3_tree_no_orphans [OF parse] leaf pre marker
  have "''demo/src/utils/'' \<in> set (generateFolderTree (demoConfig Python Pip))" by blast
  with parse leaf pre marker show ?thesis by simp
qed

subsection \<open>C4: the order of the built tree\<close>

text \<open>
  Claim C4 says that \<^const>\<open>buildTree\<close> orders every level with folders before files and in
  case-sensitive lexicographic order of the names inside each group, and that the tree
  depends on the set of the input paths only. It fails in three ways, shown here with the
  comparator \<^const>\<open>collate\<close>, which is consistent.

  \<^item> The flag of a node is that of the first path that names it: the lists \<open>[a, a/b]\<close> and
    \<open>[a/b, a]\<close> hold the same paths and give different trees. No two names are compared
    here, so this is so for every comparator.
  \<^item> The order inside a group is that of the comparator, whatever it is: \<open>[B, a]\<close> gives
    \<open>a\<close> before \<open>B\<close>, and the case-sensitive lexicographic order has \<open>B\<close> before \<open>a\<close>.
  \<^item> Two names that compare equal keep the order of their insertion: the name \<open>a\<close> and the
    name made of \<open>a\<close> and the control character of code 1 compare equal, and the two
    orders of these two paths give different trees.
\<close>

theorem C4_buildTree_order_counterexample:
  "set [''a'', ''a/b''] = set [''a/b'', ''a''] \<and>
   buildTree collate [''a'', ''a/b''] = [TreeNode ''a'' False [TreeNode ''b'' False []]] \<and>
   buildTree collate [''a/b'', ''a''] = [TreeNode ''a'' True [TreeNode ''b'' False []]] \<and>
   buildTree collate [''a'', ''a/b''] \<noteq> buildTree collate [''a/b'', ''a''] \<and>
   consistentComparator collate \<and>
   buildTree collate [''B'', ''a''] = [TreeNode ''a'' False [], TreeNode ''B'' False []] \<and>
   lexCompare ''B'' ''a'' < 0 \<and>
   \<not> orderedForest lexCompare (buildTree collate [''B'', ''a'']) \<and>
   collate [CHR ''a'', CHR 0x01] ''a'' = 0 \<and>
   set [[CHR ''a'', CHR 0x01], ''a''] = set [''a'', [CHR ''a'', CHR 0x01]] \<and>
   kindConsistent [[CHR ''a'', CHR 0x01], ''a''] \<and>
   buildTree collate [[CHR ''a'', CHR 0x01], ''a''] =
     [TreeNode [CHR ''a'', CHR 0x01] False [], TreeNode ''a'' False []] \<and>
   buildTree collate [''a'', [CHR ''a'', CHR 0x01]] =
     [TreeNode ''a'' False [], TreeNode [CHR ''a'', CHR 0x01] False []] \<and>
   buildTree collate [[CHR ''a'', CHR 0x01], ''a''] \<noteq> buildTree collate [''a'', [CHR ''a'', CHR 0x01]]"
proof -
  have 1: "buildTree collate [''a'', ''a/b''] = [TreeNode ''a'' False [TreeNode ''b'' False []]]"
    by code_simp
  have 2: "buildTree collate [''a/b'', ''a''] = [TreeNode ''a'' True [TreeNode ''b'' False []]]"
    by code_simp
  have 3: "set [''a'', ''a/b''] = set [''a/b'', ''a'']" by auto
  have 4: "buildTree collate [''B'', ''a''] = [TreeNode ''a'' False [], TreeNode ''B'' False []]"
    by code_simp
  have 5: "lexCompare ''B'' ''a'' < 0" by code_simp
  have 6: "\<not> orderedForest lexCompare [TreeNode ''a'' False [], TreeNode ''B'' False []]"
    by code_simp
  have 7: "collate [CHR ''a'', CHR 0x01] ''a'' = 0" by code_simp
  have 8: "set [[CHR ''a'', CHR 0x01], ''a''] = set [''a'', [CHR ''a'', CHR 0x01]]" by auto
  have 9: "kindConsistent [[CHR ''a'', CHR 0x01], ''a'']" by code_simp
  have 10: "buildTree collate [[CHR ''a'', CHR 0x01], ''a''] =
     [TreeNode [CHR ''a'', CHR 0x01] False [], TreeNode ''a'' False []]"
    by code_simp
  have 11: "buildTree collate [''a'', [CHR ''a'', CHR 0x01]] =
     [TreeNode ''a'' False [], TreeNode [CHR ''a'', CHR 0x01] False []]"
    by code_simp
  from 1 2 have 12: "buildTree collate [''a'', ''a/b''] \<noteq> buildTree collate [''a/b'', ''a'']"
    by simp
  from 10 11 have 13: "buildTree collate [[CHR ''a'', CHR 0x01], ''a''] \<noteq>
     buildTree collate [''a'', [CHR ''a'', CHR 0x01]]"
    by simp
  from 6 have 14: "\<not> orderedForest lexCompare (buildTree collate [''B'', ''a''])"
    unfolding 4 .
  from 3 1 2 12 collate_consistent 4 5 14 7 8 9 10 11 13 show ?thesis by (intro conjI)
qed

text \<open>
  Claim C4, amended: when \<^verbatim>\<open>localeCompare\<close> is a consistent comparator, the tree of
  \<^const>\<open>buildTree\<close> has, on every level, the folders before the files and each of the two groups
  in the order of \<^verbatim>\<open>localeCompare\<close> on the names, from the least to the greatest; and two
  lists with the same set of paths give the same tree when no node is a file for one of
  the paths and a folder for another, and no two different names of one directory compare
  equal.
\<close>

theorem C4_buildTree_order:
  assumes "consistentComparator lc"
  shows "orderedForest lc (buildTree lc ps) \<and>
         (set ps = set qs \<and> kindConsistent ps \<and> tieFree lc ps \<longrightarrow>
            buildTree lc ps = buildTree lc qs)"
proof
  show "orderedForest lc (buildTree lc ps)"
    unfolding buildTree_def by (rule orderedForest_sortNodes [OF assms])
  show "set ps = set qs \<and> kindConsistent ps \<and> tieFree lc ps \<longrightarrow> buildTree lc ps = buildTree lc qs"
  proof
    assume a: "set ps = set qs \<and> kindConsistent ps \<and> tieFree lc ps"
    have e: "distinctForest []" by (simp add: distinctForest_def)
    have same: "\<forall>q. kindAt (foldl insertPath [] ps) q = kindAt (foldl insertPath [] qs) q"
      using a by (simp add: kindAt_built firstKind_set)
    from a have t: "tieFree lc ps" by simp
    have untied: "\<forall>q a b. kindAt (foldl insertPath [] ps) (q @ [a]) \<noteq> None \<and>
        kindAt (foldl insertPath [] ps) (q @ [b]) \<noteq> None \<and> lc a b = 0 \<longrightarrow> a = b"
      unfolding kindAt_built using tieFreeD [OF t] by blast
    show "buildTree lc ps = buildTree lc qs"
      unfolding buildTree_def
      by (rule sortNodes_canonical [OF assms distinctForest_built [OF e] distinctForest_built [OF e]
            same untied])
  qed
qed

text \<open>
  The paths of the specification's example, in two orders: under \<open>p\<close>, the folder \<open>a\<close>
  stands before the file \<open>b.txt\<close>. The tree is the same with the comparison that collates
  and with the comparison by character code.
\<close>

theorem C4_buildTree_order_witness:
  "consistentComparator collate \<and> consistentComparator lexCompare \<and>
   set [''p/b.txt'', ''p/a/'', ''p/a/x.txt''] = set [''p/a/x.txt'', ''p/b.txt'', ''p/a/''] \<and>
   kindConsistent [''p/b.txt'', ''p/a/'', ''p/a/x.txt''] \<and>
   tieFree collate [''p/b.txt'', ''p/a/'', ''p/a/x.txt''] \<and>
   tieFree lexCompare [''p/b.txt'', ''p/a/'', ''p/a/x.txt''] \<and>
   buildTree collate [''p/b.txt'', ''p/a/'', ''p/a/x.txt''] =
     [TreeNode ''p'' True [TreeNode ''a'' True [TreeNode ''x.txt'' False []],
                           TreeNode ''b.txt'' False []]] \<and>
   buildTree collate [''p/b.txt'', ''p/a/'', ''p/a/x.txt''] =
     buildTree collate [''p/a/x.txt'', ''p/b.txt'', ''p/a/''] \<and>
   orderedForest collate (buildTree collate [''p/b.txt'', ''p/a/'', ''p/a/x.txt'']) \<and>
   buildTree lexCompare [''p/b.txt'', ''p/a/'', ''p/a/x.txt''] =
     buildTree collate [''p/b.txt'', ''p/a/'', ''p/a/x.txt''] \<and>
   buildTree lexCompare [''p/b.txt'', ''p/a/'', ''p/a/x.txt''] =
     buildTree lexCompare [''p/a/x.txt'', ''p/b.txt'', ''p/a/''] \<and>
   orderedForest lexCompare (buildTree lexCompare [''p/b.txt'', ''p/a/'', ''p/a/x.txt''])"
proof -
  have s: "set [''p/b.txt'', ''p/a/'', ''p/a/x.txt''] = set [''p/a/x.txt'', ''p/b.txt'', ''p/a/'']"
    by auto
  have k: "kindConsistent [''p/b.txt'', ''p/a/'', ''p/a/x.txt'']"
    by code_simp
  have u: "tieFree collate [''p/b.txt'', ''p/a/'', ''p/a/x.txt'']"
    by code_simp
  have v: "tieFree lexCompare [''p/b.txt'', ''p/a/'', ''p/a/x.txt'']"
    by code_simp
  have t: "buildTree collate [''p/b.txt'', ''p/a/'', ''p/a/x.txt''] =
     [TreeNode ''p'' True [TreeNode ''a'' True [TreeNode ''x.txt'' False []],
                           TreeNode ''b.txt'' False []]]"
    by code_simp
  have t': "buildTree lexCompare [''p/b.txt'', ''p/a/'', ''p/a/x.txt''] =
     [TreeNode ''p'' True [TreeNode ''a'' True [TreeNode ''x.txt'' False []],
                           TreeNode ''b.txt'' False []]]"
    by code_simp
  note collated = C4_buildTree_order [OF collate_consistent,
      of "[''p/b.txt'', ''p/a/'', ''p/a/x.txt'']" "[''p/a/x.txt'', ''p/b.txt'', ''p/a/'']"]
  note coded = C4_buildTree_order [OF lexCompare_consistent,
      of "[''p/b.txt'', ''p/a/'', ''p/a/x.txt'']" "[''p/a/x.txt'', ''p/b.txt'', ''p/a/'']"]
  from collated
  have o: "orderedForest collate (buildTree collate [''p/b.txt'', ''p/a/'', ''p/a/x.txt''])"
    by (rule conjunct1)
  from collated s k u have e: "buildTree collate [''p/b.txt'', ''p/a/'', ''p/a/x.txt''] =
     buildTree collate [''p/a/x.txt'', ''p/b.txt'', ''p/a/'']"
    by blast
  from coded
  have o': "orderedForest lexCompare (buildTree lexCompare [''p/b.txt'', ''p/a/'', ''p/a/x.txt''])"
    by (rule conjunct1)
  from coded s k v have e': "buildTree lexCompare [''p/b.txt'', ''p/a/'', ''p/a/x.txt''] =
     buildTree lexCompare [''p/a/x.txt'', ''p/b.txt'', ''p/a/'']"
    by blast
  from t t' have b: "buildTree lexCompare [''p/b.txt'', ''p/a/'', ''p/a/x.txt''] =
     buildTree collate [''p/b.txt'', ''p/a/'', ''p/a/x.txt'']"
    by simp
  from collate_consistent lexCompare_consistent s k u v t e o b e' o' show ?thesis
    by (intro conjI)
qed

subsection \<open>C5: ancestors are folders\<close>

text \<open>
  Claim C5 says that every part of a path that is not its last part is a folder node of
  the tree, even when the same part is the last part of a path processed earlier. It
  fails there: in \<open>[a, a/b]\<close> the node \<open>a\<close> is created as a file by the first path, and
  the second path, of which \<open>a\<close> is not the last part, leaves the flag as it is.
\<close>

theorem C5_ancestor_is_folder_counterexample:
  "strict_prefix [''a''] (pathParts ''a/b'') \<and>
   kindAt (buildTree lexCompare [''a'', ''a/b'']) [''a''] = Some False"
  by code_simp

text \<open>
  Claim C5, amended: for a path \<open>p\<close> of the input and a non-empty proper prefix \<open>q\<close> of its
  parts, the node at \<open>q\<close> is a folder, with or without a directory marker for it in the
  input, unless a path processed before \<open>p\<close> has \<open>q\<close> as the whole of its parts and does not
  end in a slash.
\<close>

theorem C5_ancestor_is_folder:
  assumes "q \<noteq> []" and "strict_prefix q (pathParts p)"
    and "\<forall>p' \<in> set before. pathParts p' = q \<longrightarrow> endsWith p' ''/''"
  shows "kindAt (buildTree lc (before @ p # after)) q = Some True"
proof -
  from assms(2) have pq: "prefix q (pathParts p)" "q \<noteq> pathParts p"
    by (auto simp add: strict_prefix_def)
  have "firstKind before q = None \<or> firstKind before q = Some True"
  proof (cases "firstKind before q")
    case None
    then show ?thesis by simp
  next
    case (Some k)
    from firstKind_Some [OF Some] obtain p' where "p' \<in> set before" "k = folderIn p' q" by blast
    with assms(3) have "k" by (auto simp add: folderIn_def)
    with Some show ?thesis by simp
  qed
  then show ?thesis
    using pq assms(1) by (auto simp add: kindAt_buildTree firstKind_append folderIn_def)
qed

text \<open>
  The folder \<open>p/a\<close> has no directory marker in \<open>[p/b.txt, p/a/x.txt]\<close>; it is a folder
  node.
\<close>

theorem C5_ancestor_is_folder_witness:
  "[''p'', ''a''] \<noteq> [] \<and> strict_prefix [''p'', ''a''] (pathParts ''p/a/x.txt'') \<and>
   pathParts ''p/b.txt'' \<noteq> [''p'', ''a''] \<and>
   kindAt (buildTree lexCompare ([''p/b.txt''] @ ''p/a/x.txt'' # [])) [''p'', ''a''] = Some True"
proof -
  have a: "strict_prefix [''p'', ''a''] (pathParts ''p/a/x.txt'')" by code_simp
  have b: "pathParts ''p/b.txt'' \<noteq> [''p'', ''a'']" by code_simp
  then have c: "\<forall>p' \<in> set [''p/b.txt'']. pathParts p' = [''p'', ''a''] \<longrightarrow> endsWith p' ''/''"
    by simp
  have "[''p'', ''a''] \<noteq> []" by simp
  from C5_ancestor_is_folder [OF this a c, of lexCompare "[]"] a b show ?thesis by simp
qed

subsection \<open>C6: the project name\<close>

text \<open>
  Claim C6: the normalisation of the project name by \<^const>\<open>handleNameChange\<close> (lower case,
  a hyphen for every other character, runs of hyphens collapsed) leaves a name unchanged
  that matches \<^verbatim>\<open>^[a-z0-9-]+$\<close> and has no two hyphens in a row, so that normalising twice
  is normalising once; its result matches the pattern for every input with an allowed
  character; and \<open>My Project!!\<close> becomes \<open>my-project-\<close>.
\<close>

theorem C6_slug_idempotent:
  "opt_projectName (handleNameChange v) = Some (slug v) \<and>
   (slug_regex v \<and> \<not> sublist ''--'' v \<longrightarrow> slug v = v) \<and>
   slug (slug v) = slug v \<and>
   ((\<exists>ch \<in> set v. slug_char ch) \<longrightarrow> slug_regex (slug v)) \<and>
   slug ''My Project!!'' = ''my-project-''"
proof -
  have ex: "slug ''My Project!!'' = ''my-project-''" by code_simp
  have "(\<exists>ch \<in> set v. slug_char ch) \<longrightarrow> v \<noteq> []" by auto
  then show ?thesis
    using ex slug_normalized [of v] slug_matches [of v] slug_slug [of v]
    by (simp add: handleNameChange_def noUpdates_def)
qed

theorem C6_slug_idempotent_witness:
  "slug_regex ''my-project-'' \<and> \<not> sublist ''--'' ''my-project-'' \<and>
   (\<exists>ch \<in> set ''my-project-''. slug_char ch) \<and>
   slug ''my-project-'' = ''my-project-'' \<and> slug_regex (slug ''my-project-'')"
proof -
  have a: "slug_regex ''my-project-''" by code_simp
  have b: "\<not> sublist ''--'' ''my-project-''" by code_simp
  have c: "\<exists>ch \<in> set ''my-project-''. slug_char ch" by code_simp
  show ?thesis using a b c C6_slug_idempotent [of "''my-project-''"] by simp
qed

subsection \<open>C7: the validity gate\<close>

text \<open>
  Claim C7 says that for every raw input with \<^verbatim>\<open>includeUI\<close> and \<^verbatim>\<open>includeAPI\<close> both false,
  validation with the schema fails and returns, without throwing, an error attached to
  the field \<^verbatim>\<open>includeUI\<close>. It fails on a raw input with a field of the wrong type: with a
  number for the project name, the parser of the object gives up, the refinement is not
  checked, and the only issue is that of the project name. And the error is returned by
  \<^verbatim>\<open>safeParse\<close> only: \<^verbatim>\<open>parse\<close> throws it, also on an input of the right types.
\<close>

theorem C7_validity_gate_counterexample:
  "property (demoValue (VNumber 5) False False) ''includeUI'' = VBool False \<and>
   property (demoValue (VNumber 5) False False) ''includeAPI'' = VBool False \<and>
   safeParse ProjectConfigSchema (demoValue (VNumber 5) False False) =
     Inl [\<lparr>issue_path = [''projectName''],
           issue_message = ''Expected string, received number''\<rparr>] \<and>
   coverageIssue \<notin> set [\<lparr>issue_path = [''projectName''],
                            issue_message = ''Expected string, received number''\<rparr>] \<and>
   parse ProjectConfigSchema (demoValue (VString ''demo'') False False) = Throws [coverageIssue]"
  by code_simp

text \<open>
  Claim C7, amended: for every raw input in which \<^verbatim>\<open>includeUI\<close> and \<^verbatim>\<open>includeAPI\<close> are both
  false, validation with the schema fails: \<^verbatim>\<open>safeParse\<close> returns an error, with at least one
  issue, and \<^verbatim>\<open>parse\<close> throws it; and the issue of the refinement, under the path
  \<^verbatim>\<open>includeUI\<close>, is among the issues exactly when every field of the input has the type that
  the schema declares.
\<close>

theorem C7_validity_gate:
  assumes "property data ''includeUI'' = VBool False"
    and "property data ''includeAPI'' = VBool False"
  shows "\<exists>issues. safeParse ProjectConfigSchema data = Inl issues \<and>
           parse ProjectConfigSchema data = Throws issues \<and> issues \<noteq> [] \<and>
           (coverageIssue \<in> set issues) = wellTyped data"
proof (cases "wellTyped data")
  case True
  then have "snd (ProjectConfigSchema_object [] data) \<noteq> None" by (simp only: given_object)
  then obtain x where x: "snd (ProjectConfigSchema_object [] data) = Some x" by blast
  from object_flags [OF x] assms have "\<not> (includeUI x \<or> includeAPI x)"
    by (simp add: z_boolean_def)
  with x have r: "ProjectConfigSchema [] data =
      (fst (ProjectConfigSchema_object [] data) @ [coverageIssue], Some x)"
    by (simp add: ProjectConfigSchema_def z_refine_def check_def coverageIssue_def)
  then have "safeParse ProjectConfigSchema data =
      Inl (fst (ProjectConfigSchema_object [] data) @ [coverageIssue])"
    by (simp add: safeParse_def)
  with True show ?thesis by (simp add: parse_def)
next
  case False
  then have x: "snd (ProjectConfigSchema_object [] data) = None"
    using given_object [of "[]" data] by simp
  then have r: "ProjectConfigSchema [] data = (fst (ProjectConfigSchema_object [] data), None)"
    by (simp add: ProjectConfigSchema_def z_refine_def)
  then have s: "safeParse ProjectConfigSchema data = Inl (fst (ProjectConfigSchema_object [] data))"
    by (simp add: safeParse_def)
  have "fst (ProjectConfigSchema_object [] data) \<noteq> []" by (rule gives_up_object [OF x])
  moreover have "coverageIssue \<notin> set (fst (ProjectConfigSchema_object [] data))"
    by (rule coverageIssue_fields [OF assms(1)])
  ultimately show ?thesis using s False by (simp add: parse_def)
qed

text \<open>
  The scenario of the specification with both flags false: every field has its type, and
  the error holds the issue of the refinement and no other.
\<close>

theorem C7_validity_gate_witness:
  "property (demoValue (VString ''demo'') False False) ''includeUI'' = VBool False \<and>
   property (demoValue (VString ''demo'') False False) ''includeAPI'' = VBool False \<and>
   wellTyped (demoValue (VString ''demo'') False False) \<and>
   safeParse ProjectConfigSchema (demoValue (VString ''demo'') False False) = Inl [coverageIssue] \<and>
   parse ProjectConfigSchema (demoValue (VString ''demo'') False False) = Throws [coverageIssue]"
proof -
  have ui: "property (demoValue (VString ''demo'') False False) ''includeUI'' = VBool False"
    by code_simp
  have api: "property (demoValue (VString ''demo'') False False) ''includeAPI'' = VBool False"
    by code_simp
  have t: "wellTyped (demoValue (VString ''demo'') False False)"
    by code_simp
  have s: "safeParse ProjectConfigSchema (demoValue (VString ''demo'') False False) = Inl [coverageIssue]"
    by code_simp
  from C7_validity_gate [OF ui api] ui api t s show ?thesis by auto
qed

subsection \<open>C8: changing the language\<close>

text \<open>
  Claim C8: for every configuration and every new language, the updates of
  \<^const>\<open>handleLanguageChange\<close> set the build tool, the test runner and the reporting to the first
  option that the table lists for the new language, and set the UI framework (the API
  framework) to the first option of the new language when \<^verbatim>\<open>includeUI\<close> (\<^verbatim>\<open>includeAPI\<close>) is
  set and not otherwise; the build tool of the updated configuration is valid for the new
  language.
\<close>

theorem C8_language_change:
  "opt_language (handleLanguageChange config newLanguage) = Some newLanguage \<and>
   opt_buildTool (handleLanguageChange config newLanguage) =
     Some (buildTools (validCombinations newLanguage) ! 0) \<and>
   opt_testRunner (handleLanguageChange config newLanguage) =
     Some (testRunners (validCombinations newLanguage) ! 0) \<and>
   opt_reporting (handleLanguageChange config newLanguage) =
     Some [reportingOptions (validCombinations newLanguage) ! 0] \<and>
   opt_uiFramework (handleLanguageChange config newLanguage) =
     (if truthy (opt_includeUI config)
      then Some (uiFrameworks (validCombinations newLanguage) ! 0) else None) \<and>
   opt_apiFramework (handleLanguageChange config newLanguage) =
     (if truthy (opt_includeAPI config)
      then Some (apiFrameworks (validCombinations newLanguage) ! 0) else None) \<and>
   (\<exists>tool. opt_buildTool (updateConfig config (handleLanguageChange config newLanguage)) = Some tool \<and>
      isValidBuildTool newLanguage tool)"
  by (cases newLanguage)
    (simp_all add: handleLanguageChange_def Let_def first_def noUpdates_def updateConfig_def
      spread_def isValidBuildTool_def)

text \<open>From TypeScript with pnpm to Java: the build tool becomes Maven.\<close>

theorem C8_language_change_witness:
  "opt_buildTool (updateConfig
      (noUpdates\<lparr>opt_language := Some Typescript, opt_buildTool := Some Pnpm,
         opt_includeUI := Some True\<rparr>)
      (handleLanguageChange
        (noUpdates\<lparr>opt_language := Some Typescript, opt_buildTool := Some Pnpm,
           opt_includeUI := Some True\<rparr>) Java)) = Some Maven \<and>
   isValidBuildTool Java Maven \<and> Maven \<noteq> Pnpm \<and>
   opt_uiFramework (handleLanguageChange
        (noUpdates\<lparr>opt_language := Some Typescript, opt_buildTool := Some Pnpm,
           opt_includeUI := Some True\<rparr>) Java) = Some Selenium \<and>
   opt_apiFramework (handleLanguageChange
        (noUpdates\<lparr>opt_language := Some Typescript, opt_buildTool := Some Pnpm,
           opt_includeUI := Some True\<rparr>) Java) = None"
  using C8_language_change [of "noUpdates\<lparr>opt_language := Some Typescript,
      opt_buildTool := Some Pnpm, opt_includeUI := Some True\<rparr>" Java]
  by (simp add: updateConfig_def spread_def noUpdates_def truthy_def isValidBuildTool_def)

subsection \<open>C9: the CI workflow\<close>


subsection \<open>C10: the environment-configuration flag\<close>

text \<open>
  Claim C10: the field \<^verbatim>\<open>includeEnvConfig\<close> has no influence on the output. Two
  configurations that differ in this field only give the same list of paths and the same
  list of files, paths and contents.
\<close>

theorem C10_includeEnvConfig_unread:
  "generateFolderTree (config\<lparr>includeEnvConfig := b\<rparr>) = generateFolderTree config \<and>
   generateFiles (config\<lparr>includeEnvConfig := b\<rparr>) = generateFiles config"
proof
  show "generateFolderTree (config\<lparr>includeEnvConfig := b\<rparr>) = generateFolderTree config"
    unfolding generateFolderTree_def env_fields by (rule refl)
  show "generateFiles (config\<lparr>includeEnvConfig := b\<rparr>) = generateFiles config"
    unfolding generateFiles_def env_fields env_generators by (rule refl)
qed

end
